theory Spec2Isabelle
  imports Complex_Main "HOL-Library.Monad_Syntax" "HOL-Library.Word"
begin

section \<open>Numbers of the host library\<close>

text \<open>
  The handlers compute with the two number types of graph-ts. A \<open>BigInt\<close> is an unbounded
  integer and is modelled as \<^typ>\<open>int\<close>. A \<open>BigDecimal\<close> is a decimal number of which
  the host keeps 34 significant digits; the model holds its value as a rational number
  (\<^typ>\<open>rat\<close>) and rounds where the host does.

  The host normalises every decimal that enters one of its operations and every result:
  a number of more than 34 significant digits is cut to 34, rounded half up when it is
  positive and truncated when it is negative (the rounding step of the host's decimal
  library is taken for a positive remainder only). Sums, differences and products are
  exact before the result is normalised. A quotient is first computed to 100 significant
  digits, rounded half up in magnitude, and then normalised. Division is the one
  operation that can fail: the host aborts the handler on a zero divisor, which the model
  shows as \<open>None\<close>. The comparisons of the handlers are comparisons of values.

  The host also refuses a decimal whose exponent lies outside -6143 to 6144. Such a
  number has thousands of digits, no 256-bit event value or quotient of two leads to one,
  and the model has no such limit.
\<close>

type_synonym BigInt = int
type_synonym BigDecimal = rat

definition toBigDecimal :: "BigInt \<Rightarrow> BigDecimal" where
  "toBigDecimal i = of_int i"

text \<open>The number of decimal digits of a natural number; one digit for zero.\<close>

fun countDecimalDigits :: "nat \<Rightarrow> nat" where
  "countDecimalDigits n = (if n < 10 then 1 else 1 + countDecimalDigits (n div 10))"

declare countDecimalDigits.simps [simp del]

text \<open>
  The decimal exponent of a positive number \<open>x\<close> is the \<open>k\<close> with
  \<open>10^k \<le> x < 10^(k+1)\<close>: one less than the number of digits of the integer part when
  \<open>x\<close> is at least one, and otherwise read off the reciprocal.
\<close>

definition decimalExponent :: "rat \<Rightarrow> int" where
  "decimalExponent x =
     (if 1 \<le> x then int (countDecimalDigits (nat \<lfloor>x\<rfloor>)) - 1
      else - int (countDecimalDigits (nat (\<lceil>1 / x\<rceil> - 1))))"

text \<open>
  A positive number cut to \<open>n\<close> significant digits: it is scaled so that \<open>n\<close> digits
  stand before the point, rounded half up or truncated there, and scaled back.
\<close>

definition roundHalfUp :: "nat \<Rightarrow> rat \<Rightarrow> rat" where
  "roundHalfUp n x =
     (let s = int n - 1 - decimalExponent x
      in of_int \<lfloor>x * 10 powi s + 1 / 2\<rfloor> / 10 powi s)"

definition truncateDigits :: "nat \<Rightarrow> rat \<Rightarrow> rat" where
  "truncateDigits n x =
     (let s = int n - 1 - decimalExponent x
      in of_int \<lfloor>x * 10 powi s\<rfloor> / 10 powi s)"

definition normalized :: "BigDecimal \<Rightarrow> BigDecimal" where
  "normalized x =
     (if x = 0 then 0
      else if 0 < x then roundHalfUp 34 x
      else - truncateDigits 34 (- x))"

definition rounded100 :: "rat \<Rightarrow> rat" where
  "rounded100 q =
     (if q = 0 then 0
      else if 0 < q then roundHalfUp 100 q
      else - roundHalfUp 100 (- q))"

definition bd_plus :: "BigDecimal \<Rightarrow> BigDecimal \<Rightarrow> BigDecimal" where
  "bd_plus a b = normalized (normalized a + normalized b)"

definition bd_minus :: "BigDecimal \<Rightarrow> BigDecimal \<Rightarrow> BigDecimal" where
  "bd_minus a b = normalized (normalized a - normalized b)"

definition bd_times :: "BigDecimal \<Rightarrow> BigDecimal \<Rightarrow> BigDecimal" where
  "bd_times a b = normalized (normalized a * normalized b)"

text \<open>
  The quotient by a divisor that is not zero, and the division as the host has it. A
  divisor is zero after it is normalised exactly when it is zero.
\<close>

definition bd_quot :: "BigDecimal \<Rightarrow> BigDecimal \<Rightarrow> BigDecimal" where
  "bd_quot a b = normalized (rounded100 (normalized a / normalized b))"

definition bd_div :: "BigDecimal \<Rightarrow> BigDecimal \<Rightarrow> BigDecimal option" where
  "bd_div a b = (if b = 0 then None else Some (bd_quot a b))"

definition ZERO_BI :: BigInt where "ZERO_BI = 0"
definition ZERO_BD :: BigDecimal where "ZERO_BD = 0"
definition ONE_BD :: BigDecimal where "ONE_BD = 1"

section \<open>utils/helpers.ts\<close>

definition calculateCollateralRatio :: "BigInt \<Rightarrow> BigInt \<Rightarrow> BigDecimal option" where
  "calculateCollateralRatio collateral debt =
     (if debt = ZERO_BI then Some 99999
      else do {
        q \<leftarrow> bd_div (toBigDecimal collateral) (toBigDecimal debt);
        Some (bd_times q 100)
      })"

definition clamp :: "BigDecimal \<Rightarrow> BigDecimal \<Rightarrow> BigDecimal \<Rightarrow> BigDecimal" where
  "clamp v lo hi = (if v < lo then lo else if v > hi then hi else v)"

section \<open>protocol/usdfc-token-final.ts: amount tiers\<close>

definition DUST_THRESHOLD :: BigInt where "DUST_THRESHOLD = 100000000000000000"
definition MICRO_THRESHOLD :: BigInt where "MICRO_THRESHOLD = 1000000000000000000"
definition SMALL_THRESHOLD :: BigInt where "SMALL_THRESHOLD = 100000000000000000000"
definition MEDIUM_THRESHOLD :: BigInt where "MEDIUM_THRESHOLD = 1000000000000000000000"
definition LARGE_THRESHOLD :: BigInt where "LARGE_THRESHOLD = 10000000000000000000000"
definition WHALE_THRESHOLD :: BigInt where "WHALE_THRESHOLD = 100000000000000000000000"
definition INSTITUTIONAL_THRESHOLD :: BigInt where
  "INSTITUTIONAL_THRESHOLD = 1000000000000000000000000"

definition getTransferAmountTier :: "BigInt \<Rightarrow> string" where
  "getTransferAmountTier amount =
     (if amount < DUST_THRESHOLD then ''DUST''
      else if amount < MICRO_THRESHOLD then ''MICRO''
      else if amount < SMALL_THRESHOLD then ''SMALL''
      else if amount < MEDIUM_THRESHOLD then ''MEDIUM''
      else if amount < LARGE_THRESHOLD then ''LARGE''
      else if amount < WHALE_THRESHOLD then ''WHALE''
      else ''INSTITUTIONAL'')"

lemmas tier_thresholds =
  DUST_THRESHOLD_def MICRO_THRESHOLD_def SMALL_THRESHOLD_def MEDIUM_THRESHOLD_def
  LARGE_THRESHOLD_def WHALE_THRESHOLD_def INSTITUTIONAL_THRESHOLD_def

section \<open>Byte strings and addresses\<close>

text \<open>
  \<open>Bytes\<close> values (addresses, transaction hashes, entity ids) are lists of bytes.
  \<open>toHexString\<close> prints \<open>0x\<close> and two lower-case hexadecimal digits per byte;
  \<open>toLowerCase\<close> is the string method the token handler applies to its keys.
\<close>

type_synonym Bytes = "8 word list"

definition hexDigit :: "nat \<Rightarrow> char" where
  "hexDigit n = ''0123456789abcdef'' ! n"

definition toHexString :: "Bytes \<Rightarrow> string" where
  "toHexString bs =
     ''0x'' @ concat (map (\<lambda>b. [hexDigit (unat b div 16), hexDigit (unat b mod 16)]) bs)"

definition lowerChar :: "char \<Rightarrow> char" where
  "lowerChar c =
     (case map_of (zip ''ABCDEFGHIJKLMNOPQRSTUVWXYZ'' ''abcdefghijklmnopqrstuvwxyz'') c of
        Some l \<Rightarrow> l
      | None \<Rightarrow> c)"

definition toLowerCase :: "string \<Rightarrow> string" where
  "toLowerCase s = map lowerChar s"

text \<open>The value of \<open>Bytes.fromHexString("0x0000000000000000000000000000000000000000")\<close>.\<close>

definition zeroAddress :: Bytes where
  "zeroAddress = replicate 20 0"

text \<open>
  The bytes of the three protocol contracts whose addresses the token handler lists
  (trove manager, stability pool, staking).
\<close>

definition TROVE_MANAGER_BYTES :: Bytes where
  "TROVE_MANAGER_BYTES =
     [0x5a, 0xB8, 0x7c, 0x23, 0x98, 0x45, 0x41, 0x25, 0xDd, 0x42,
      0x44, 0x25, 0xe3, 0x9c, 0x89, 0x09, 0xbB, 0xE1, 0x60, 0x22]"

definition STABILITY_POOL_BYTES :: Bytes where
  "STABILITY_POOL_BYTES =
     [0x79, 0x1A, 0xd7, 0x8b, 0xBc, 0x58, 0x32, 0x40, 0x89, 0xD3,
      0xE0, 0xA8, 0x68, 0x9E, 0x7D, 0x04, 0x5B, 0x95, 0x92, 0xb5]"

definition PROTOCOL_TOKEN_STAKING_BYTES :: Bytes where
  "PROTOCOL_TOKEN_STAKING_BYTES =
     [0xc8, 0x70, 0x7b, 0x3d, 0x42, 0x6E, 0x7D, 0x7A, 0x07, 0x06,
      0xC4, 0x8d, 0xcd, 0x1A, 0x4b, 0x83, 0xbc, 0x22, 0x0d, 0xB3]"

section \<open>protocol/usdfc-token-final.ts: transfer types\<close>

definition getProtocolAddresses :: "string \<rightharpoonup> string" where
  "getProtocolAddresses =
     [toLowerCase ''0x5aB87c2398454125Dd424425e39c8909bBE16022'' \<mapsto> ''TROVE_MANAGER'',
      toLowerCase ''0x791Ad78bBc58324089D3E0A8689E7D045B9592b5'' \<mapsto> ''STABILITY_POOL'',
      toLowerCase ''0xc8707b3d426E7D7A0706C48dcd1A4b83bc220dB3'' \<mapsto> ''STAKING'']"

definition isProtocolAddress :: "Bytes \<Rightarrow> (string \<rightharpoonup> string) \<Rightarrow> bool" where
  "isProtocolAddress address protocolAddresses =
     (protocolAddresses (toLowerCase (toHexString address)) \<noteq> None)"

definition getProtocolOperationType ::
  "Bytes \<Rightarrow> Bytes \<Rightarrow> (string \<rightharpoonup> string) \<Rightarrow> string" where
  "getProtocolOperationType from to protocolAddresses =
     (let fromKey = toLowerCase (toHexString from);
          toKey = toLowerCase (toHexString to);
          fromType = protocolAddresses fromKey;
          toType = protocolAddresses toKey
      in if fromType = Some ''TROVE_MANAGER'' \<or> toType = Some ''TROVE_MANAGER''
         then ''LIQUIDATION_REWARD''
         else if fromType = Some ''STABILITY_POOL'' then ''STABILITY_WITHDRAWAL''
         else if toType = Some ''STABILITY_POOL'' then ''STABILITY_DEPOSIT''
         else if fromType = Some ''STAKING'' \<or> toType = Some ''STAKING''
         then ''STAKING_OPERATION''
         else if fromType \<noteq> None \<or> toType \<noteq> None then ''NORMAL''
         else ''NORMAL'')"

definition isKnownDexAddress :: "Bytes \<Rightarrow> bool" where
  "isKnownDexAddress address =
     (let knownDexes = [''0x0000000000000000000000000000000000000001''];
          addressStr = toLowerCase (toHexString address)
      in list_ex (\<lambda>d. addressStr = toLowerCase d) knownDexes)"

definition isKnownBridgeAddress :: "Bytes \<Rightarrow> bool" where
  "isKnownBridgeAddress address =
     (let knownBridges = [''0x0000000000000000000000000000000000000002''];
          addressStr = toLowerCase (toHexString address)
      in list_ex (\<lambda>b. addressStr = toLowerCase b) knownBridges)"

definition getConfigurableTransferType :: "Bytes \<Rightarrow> Bytes \<Rightarrow> BigInt \<Rightarrow> string" where
  "getConfigurableTransferType from to val =
     (if from = zeroAddress then ''MINT_TO_BORROWER''
      else if to = zeroAddress then ''BURN_FROM_REPAYMENT''
      else let protocolAddresses = getProtocolAddresses
       in if isProtocolAddress from protocolAddresses \<or> isProtocolAddress to protocolAddresses
          then getProtocolOperationType from to protocolAddresses
          else if isKnownDexAddress from then ''DEX_SWAP_IN''
          else if isKnownDexAddress to then ''DEX_SWAP_OUT''
          else if isKnownBridgeAddress from then ''BRIDGE_WITHDRAWAL''
          else if isKnownBridgeAddress to then ''BRIDGE_DEPOSIT''
          else ''NORMAL'')"

section \<open>Entities and the store\<close>

text \<open>
  Each entity type of the schema is a record, and the store maps the ids of one type to
  its saved entities. \<open>load\<close> is a lookup and \<open>save\<close> an update of that map. Field
  names carry a prefix where two entity types share a name.
\<close>

record Account =
  acc_id :: Bytes
  usdfcBalance :: BigInt
  totalTransactionCount :: BigInt
  totalVolumeIn :: BigInt
  totalVolumeOut :: BigInt
  netVolume :: BigInt
  firstSeenBlock :: BigInt
  firstSeenTimestamp :: BigInt
  lastActiveBlock :: BigInt
  lastActiveTimestamp :: BigInt
  daysSinceFirstSeen :: BigInt
  daysSinceLastActive :: BigInt
  contractTransactionCount :: BigInt
  tokenTransferCount :: BigInt
  internalTransactionCount :: BigInt
  systemLogCount :: BigInt
  protocolOperationCount :: BigInt
  dexActivityCount :: BigInt
  bridgeActivityCount :: BigInt
  p2pTransferCount :: BigInt
  defiIntegrationCount :: BigInt
  protocolVolume :: BigInt
  dexVolume :: BigInt
  bridgeVolume :: BigInt
  p2pVolume :: BigInt
  defiIntegrationVolume :: BigInt
  userType :: string
  activityPatterns :: "string list option"
  riskScore :: BigDecimal
  composabilityScore :: BigDecimal
  influenceScore :: BigDecimal
  retentionScore :: BigDecimal

record Transaction =
  tx_id :: Bytes
  tx_hash :: Bytes
  tx_blockNumber :: BigInt
  tx_blockTimestamp :: BigInt
  tx_logIndex :: "BigInt option"
  tx_from :: Bytes
  tx_to :: Bytes
  tx_value :: BigInt
  tx_source :: string
  tx_category :: string
  tx_ecosystem :: string
  tx_gasUsed :: "BigInt option"
  tx_gasPrice :: "BigInt option"
  tx_success :: bool
  tx_errorMessage :: "string option"
  tx_composabilityScore :: BigDecimal
  tx_innovationScore :: BigDecimal
  tx_riskScore :: BigDecimal

record EcosystemStats =
  es_totalSupply :: BigInt
  es_totalDebt :: BigInt
  es_activeTroveCount :: BigInt
  es_holderCount :: BigInt
  es_averageCollateralRatio :: BigDecimal
  es_medianCollateralRatio :: BigDecimal
  es_protocolHealth :: BigDecimal
  es_liquidationRisk :: BigDecimal
  es_ecosystemUserCount :: BigInt
  es_dexTradingVolume :: BigInt
  es_bridgeVolume :: BigInt
  es_p2pVolume :: BigInt
  es_defiIntegrationVolume :: BigInt
  es_totalEcosystemVolume :: BigInt
  es_dailyActiveUsers :: BigInt
  es_weeklyActiveUsers :: BigInt
  es_monthlyActiveUsers :: BigInt
  es_userRetentionRate :: BigDecimal
  es_userAcquisitionRate :: BigDecimal
  es_protocolIntegrations :: BigInt
  es_crossProtocolOperations :: BigInt
  es_composabilityScore :: BigDecimal
  es_innovationIndex :: BigDecimal
  es_predictedGrowth :: BigDecimal
  es_ecosystemHealthScore :: BigDecimal
  es_lastUpdateBlock :: BigInt
  es_lastUpdateTimestamp :: BigInt

text \<open>
  The id and the \<open>date\<close> of a daily record are the decimal string of the day number;
  the record keeps the number itself.
\<close>

record DailyEcosystemStats =
  ds_date :: int
  ds_timestamp :: BigInt
  ds_protocolTransferCount :: BigInt
  ds_protocolTransferVolume :: BigInt
  ds_protocolActiveUsers :: BigInt
  ds_dexTradeCount :: BigInt
  ds_dexTradeVolume :: BigInt
  ds_dexActiveUsers :: BigInt
  ds_bridgeOperationCount :: BigInt
  ds_bridgeVolume :: BigInt
  ds_bridgeActiveUsers :: BigInt
  ds_p2pTransferCount :: BigInt
  ds_p2pTransferVolume :: BigInt
  ds_p2pActiveUsers :: BigInt
  ds_totalEcosystemTransactionCount :: BigInt
  ds_totalEcosystemVolume :: BigInt
  ds_totalActiveUsers :: BigInt
  ds_newUsers :: BigInt
  ds_returningUsers :: BigInt
  ds_averageTransactionSize :: BigDecimal
  ds_medianTransactionSize :: BigInt
  ds_uniqueTransactionTypes :: BigInt
  ds_composabilityScore :: BigDecimal
  ds_userGrowthRate :: BigDecimal
  ds_volumeGrowthRate :: BigDecimal
  ds_activityGrowthRate :: BigDecimal

record ProtocolStats =
  ps_totalSupply :: BigInt
  ps_totalDebt :: BigInt
  ps_totalCollateral :: BigInt
  ps_activeTroveCount :: BigInt
  ps_totalTroveCount :: BigInt
  ps_holderCount :: BigInt
  ps_lifetimeVolume :: BigInt
  ps_lifetimeTransferCount :: BigInt
  ps_lifetimeMintCount :: BigInt
  ps_lifetimeBurnCount :: BigInt
  ps_lifetimeLiquidationCount :: BigInt
  ps_lifetimeRedemptionCount :: BigInt
  ps_totalBorrowingFees :: BigInt
  ps_totalRedemptionFees :: BigInt
  ps_lastUpdateBlock :: BigInt
  ps_lastUpdateTimestamp :: BigInt

text \<open>
  A trove is created with its lifetime and performance fields set; collateral, debt and
  status are unset (\<open>None\<close>) until the handler assigns them. The remaining fields are
  written by the handler before it reads them; a new trove holds zeros there.
\<close>

record Trove =
  tv_owner :: Bytes
  tv_openedAtBlock :: BigInt
  tv_openedAtTimestamp :: BigInt
  tv_totalBorrowed :: BigInt
  tv_totalRepaid :: BigInt
  tv_totalCollateralAdded :: BigInt
  tv_totalCollateralWithdrawn :: BigInt
  tv_borrowingFeesPaid :: BigInt
  tv_operationCount :: BigInt
  tv_averageCollateralRatio :: BigDecimal
  tv_lowestCollateralRatio :: BigDecimal
  tv_riskEvents :: BigInt
  tv_performanceScore :: BigDecimal
  tv_collateral :: "BigInt option"
  tv_debt :: "BigInt option"
  tv_status :: "string option"
  tv_stake :: BigInt
  tv_lastUpdateBlock :: BigInt
  tv_lastUpdateTimestamp :: BigInt
  tv_daysOpen :: BigInt
  tv_closedAtBlock :: "BigInt option"
  tv_closedAtTimestamp :: "BigInt option"
  tv_collateralRatio :: BigDecimal
  tv_healthScore :: BigDecimal
  tv_riskLevel :: string
  tv_liquidationPrice :: BigDecimal
  tv_safetyMargin :: BigDecimal
  tv_liquidationRiskScore :: BigDecimal
  tv_optimizationSuggestions :: "string list"

record TroveOperation =
  op_timestamp :: BigInt
  op_trove :: Bytes
  op_collateralChange :: BigInt
  op_debtChange :: BigInt
  op_collateralBefore :: BigInt
  op_collateralAfter :: BigInt
  op_debtBefore :: BigInt
  op_debtAfter :: BigInt
  op_blockNumber :: BigInt
  op_transactionHash :: Bytes
  op_operation :: string

record Liquidation =
  liq_timestamp :: BigInt
  liq_collateralLiquidated :: BigInt
  liq_debtLiquidated :: BigInt
  liq_collateralGasCompensation :: BigInt
  liq_debtGasCompensation :: BigInt
  liq_blockNumber :: BigInt
  liq_transactionHash :: Bytes

text \<open>The id and the \<open>date\<close> of a market condition are the decimal string of the day number.\<close>

record MarketCondition =
  mc_date :: int
  mc_timestamp :: BigInt
  mc_openPrice :: BigDecimal
  mc_highPrice :: BigDecimal
  mc_lowPrice :: BigDecimal
  mc_priceUpdatesCount :: BigInt
  mc_volatilityScore :: BigDecimal
  mc_trendDirection :: string
  mc_closePrice :: BigDecimal
  mc_lastUpdateTimestamp :: BigInt

record Transfer =
  tf_timestamp :: BigInt
  tf_from :: Bytes
  tf_to :: Bytes
  tf_value :: BigInt
  tf_blockNumber :: BigInt
  tf_transactionHash :: Bytes
  tf_universalTransaction :: Bytes
  tf_transferType :: string
  tf_ecosystemType :: string
  tf_composabilityLinks :: "string list"
  tf_riskScore :: BigDecimal
  tf_rawTransferData :: Bytes
  tf_relatedOperation :: "string option"

record Store =
  Transactions :: "Bytes \<rightharpoonup> Transaction"
  Accounts :: "Bytes \<rightharpoonup> Account"
  EcosystemStatsStore :: "string \<rightharpoonup> EcosystemStats"
  DailyEcosystemStatsStore :: "int \<rightharpoonup> DailyEcosystemStats"
  ProtocolStatsStore :: "string \<rightharpoonup> ProtocolStats"
  Troves :: "Bytes \<rightharpoonup> Trove"
  TroveOperations :: "Bytes \<rightharpoonup> TroveOperation"
  Liquidations :: "Bytes \<rightharpoonup> Liquidation"
  MarketConditions :: "int \<rightharpoonup> MarketCondition"
  Transfers :: "Bytes \<rightharpoonup> Transfer"

definition emptyStore :: Store where
  "emptyStore =
     \<lparr>Transactions = Map.empty, Accounts = Map.empty, EcosystemStatsStore = Map.empty,
      DailyEcosystemStatsStore = Map.empty, ProtocolStatsStore = Map.empty,
      Troves = Map.empty, TroveOperations = Map.empty, Liquidations = Map.empty,
      MarketConditions = Map.empty, Transfers = Map.empty\<rparr>"

definition GLOBAL_STATS_ID :: string where "GLOBAL_STATS_ID = ''global''"

section \<open>Conversions of the host library\<close>

text \<open>
  \<open>toI32\<close> converts a \<open>BigInt\<close> to a 32-bit signed integer. graph-ts reads the low
  four bytes of the two's complement form and fails only when a byte above them is not
  the sign padding: a number from \<open>-2^32\<close> up to, and not including, \<open>2^32\<close> is
  converted, wrapping around to the signed 32-bit value with the same low 32 bits, and
  any other number makes the conversion fail, which the model shows as \<open>None\<close> (the
  handler does not complete). The division of two 32-bit integers and of two
  \<open>BigInt\<close>s truncates towards zero. \<open>concatI32\<close> appends the four little-endian
  bytes of a 32-bit integer.
\<close>

definition wrapI32 :: "int \<Rightarrow> int" where
  "wrapI32 v = (v + 2147483648) mod 4294967296 - 2147483648"

definition toI32 :: "BigInt \<Rightarrow> int option" where
  "toI32 v = (if - 4294967296 \<le> v \<and> v < 4294967296 then Some (wrapI32 v) else None)"

definition tdiv :: "int \<Rightarrow> int \<Rightarrow> int" where
  "tdiv a b = sgn a * sgn b * (\<bar>a\<bar> div \<bar>b\<bar>)"

definition tmod :: "int \<Rightarrow> int \<Rightarrow> int" where
  "tmod a b = a - b * tdiv a b"

definition concatI32 :: "Bytes \<Rightarrow> int \<Rightarrow> Bytes" where
  "concatI32 b i =
     b @ [word_of_int i, word_of_int (i div 256), word_of_int (i div 65536),
          word_of_int (i div 16777216)]"

section \<open>core/universal-transaction.ts\<close>

definition ECOSYSTEM_TYPE_PROTOCOL_NATIVE :: string where
  "ECOSYSTEM_TYPE_PROTOCOL_NATIVE = ''PROTOCOL_NATIVE''"
definition ECOSYSTEM_TYPE_DEX_ECOSYSTEM :: string where
  "ECOSYSTEM_TYPE_DEX_ECOSYSTEM = ''DEX_ECOSYSTEM''"
definition ECOSYSTEM_TYPE_BRIDGE_ECOSYSTEM :: string where
  "ECOSYSTEM_TYPE_BRIDGE_ECOSYSTEM = ''BRIDGE_ECOSYSTEM''"
definition ECOSYSTEM_TYPE_DEFI_ECOSYSTEM :: string where
  "ECOSYSTEM_TYPE_DEFI_ECOSYSTEM = ''DEFI_ECOSYSTEM''"
definition ECOSYSTEM_TYPE_P2P_ECOSYSTEM :: string where
  "ECOSYSTEM_TYPE_P2P_ECOSYSTEM = ''P2P_ECOSYSTEM''"

lemmas ecosystem_types =
  ECOSYSTEM_TYPE_PROTOCOL_NATIVE_def ECOSYSTEM_TYPE_DEX_ECOSYSTEM_def
  ECOSYSTEM_TYPE_BRIDGE_ECOSYSTEM_def ECOSYSTEM_TYPE_DEFI_ECOSYSTEM_def
  ECOSYSTEM_TYPE_P2P_ECOSYSTEM_def

text \<open>Both are placeholders in the source and return zero.\<close>

definition getCurrentBlock :: BigInt where "getCurrentBlock = 0"
definition getCurrentTimestamp :: BigInt where "getCurrentTimestamp = 0"

definition ensureAccount :: "Bytes \<Rightarrow> Store \<Rightarrow> Account \<times> Store" where
  "ensureAccount address s =
     (case Accounts s address of
        Some account \<Rightarrow> (account, s)
      | None \<Rightarrow>
          let currentBlock = getCurrentBlock;
              currentTimestamp = getCurrentTimestamp;
              account =
                \<lparr>acc_id = address,
                 usdfcBalance = 0, totalTransactionCount = 0, totalVolumeIn = 0,
                 totalVolumeOut = 0, netVolume = 0,
                 firstSeenBlock = currentBlock, firstSeenTimestamp = currentTimestamp,
                 lastActiveBlock = currentBlock, lastActiveTimestamp = currentTimestamp,
                 daysSinceFirstSeen = 0, daysSinceLastActive = 0,
                 contractTransactionCount = 0, tokenTransferCount = 0,
                 internalTransactionCount = 0, systemLogCount = 0,
                 protocolOperationCount = 0, dexActivityCount = 0, bridgeActivityCount = 0,
                 p2pTransferCount = 0, defiIntegrationCount = 0,
                 protocolVolume = 0, dexVolume = 0, bridgeVolume = 0, p2pVolume = 0,
                 defiIntegrationVolume = 0,
                 userType = ''RETAIL_USER'', activityPatterns = None,
                 riskScore = 50, composabilityScore = 0, influenceScore = 0,
                 retentionScore = 50\<rparr>
          in (account, s\<lparr>Accounts := (Accounts s)(address \<mapsto> account)\<rparr>))"

definition updateActivityCounters :: "Account \<Rightarrow> string \<Rightarrow> string \<Rightarrow> BigInt \<Rightarrow> Account" where
  "updateActivityCounters account category ecosystem val =
     (let account1 =
        (if ecosystem = ECOSYSTEM_TYPE_PROTOCOL_NATIVE then
           account\<lparr>protocolOperationCount := protocolOperationCount account + 1,
                   protocolVolume := protocolVolume account + val\<rparr>
         else if ecosystem = ECOSYSTEM_TYPE_DEX_ECOSYSTEM then
           account\<lparr>dexActivityCount := dexActivityCount account + 1,
                   dexVolume := dexVolume account + val\<rparr>
         else if ecosystem = ECOSYSTEM_TYPE_BRIDGE_ECOSYSTEM then
           account\<lparr>bridgeActivityCount := bridgeActivityCount account + 1,
                   bridgeVolume := bridgeVolume account + val\<rparr>
         else if ecosystem = ECOSYSTEM_TYPE_P2P_ECOSYSTEM then
           account\<lparr>p2pTransferCount := p2pTransferCount account + 1,
                   p2pVolume := p2pVolume account + val\<rparr>
         else if ecosystem = ECOSYSTEM_TYPE_DEFI_ECOSYSTEM then
           account\<lparr>defiIntegrationCount := defiIntegrationCount account + 1,
                   defiIntegrationVolume := defiIntegrationVolume account + val\<rparr>
         else account)
      in account1\<lparr>netVolume := totalVolumeIn account1 - totalVolumeOut account1\<rparr>)"

definition updateUserIntelligence ::
  "Account \<Rightarrow> string \<Rightarrow> string \<Rightarrow> BigInt \<Rightarrow> Account option" where
  "updateUserIntelligence account category ecosystem val = do {
     let totalActivity = totalTransactionCount account;
     dexRatio \<leftarrow>
       (if totalActivity > 0
        then bd_div (toBigDecimal (dexActivityCount account)) (toBigDecimal totalActivity)
        else Some 0);
     protocolRatio \<leftarrow>
       (if totalActivity > 0
        then bd_div (toBigDecimal (protocolOperationCount account)) (toBigDecimal totalActivity)
        else Some 0);
     let account1 =
       (if dexRatio > 6 / 10 then account\<lparr>userType := ''DEX_TRADER''\<rparr>
        else if protocolRatio > 8 / 10 then account\<lparr>userType := ''PROTOCOL_NATIVE''\<rparr>
        else if totalActivity > 100 then account\<lparr>userType := ''POWER_USER''\<rparr>
        else if bridgeActivityCount account > 5 then account\<lparr>userType := ''BRIDGE_USER''\<rparr>
        else if defiIntegrationCount account > 10 then account\<lparr>userType := ''DEFI_USER''\<rparr>
        else account);
     let ecosystemCount =
       (if protocolOperationCount account1 > 0 then 1 else 0)
       + (if dexActivityCount account1 > 0 then 1 else 0)
       + (if bridgeActivityCount account1 > 0 then 1 else 0)
       + (if p2pTransferCount account1 > 0 then 1 else 0)
       + (if defiIntegrationCount account1 > 0 then 1 else (0::int));
     let account2 = account1\<lparr>composabilityScore := bd_times (of_int ecosystemCount) 20\<rparr>;
     let volumeScore =
       bd_quot (toBigDecimal (totalVolumeIn account2 + totalVolumeOut account2))
         1000000000000000000;
     let activityScore = toBigDecimal totalActivity;
     let account3 =
       account2\<lparr>influenceScore := bd_quot (bd_plus volumeScore activityScore) 100\<rparr>;
     Some (if influenceScore account3 > 100 then account3\<lparr>influenceScore := 100\<rparr>
           else account3)
   }"

text \<open>
  The two halves of \<open>updateAccountActivity\<close>: the sender's account is credited with
  the transaction and the outgoing volume, the receiver's with the transaction and the
  incoming volume; each is then passed through the activity counters and the user
  intelligence, and saved.
\<close>

definition creditSender :: "Account \<Rightarrow> BigInt \<Rightarrow> BigInt \<Rightarrow> Account" where
  "creditSender fromAccount val timestamp =
     fromAccount\<lparr>totalTransactionCount := totalTransactionCount fromAccount + 1,
                 totalVolumeOut := totalVolumeOut fromAccount + val,
                 lastActiveBlock := getCurrentBlock,
                 lastActiveTimestamp := timestamp\<rparr>"

definition creditReceiver :: "Account \<Rightarrow> BigInt \<Rightarrow> BigInt \<Rightarrow> Account" where
  "creditReceiver toAccount val timestamp =
     toAccount\<lparr>totalTransactionCount := totalTransactionCount toAccount + 1,
               totalVolumeIn := totalVolumeIn toAccount + val,
               lastActiveBlock := getCurrentBlock,
               lastActiveTimestamp := timestamp\<rparr>"

definition updateAccountActivity ::
  "Bytes \<Rightarrow> Bytes \<Rightarrow> BigInt \<Rightarrow> string \<Rightarrow> string \<Rightarrow> BigInt \<Rightarrow> Store \<Rightarrow> Store option" where
  "updateAccountActivity from to val category ecosystem timestamp s = do {
     let (fromAccount, s1) = ensureAccount from s;
     let fromAccount1 = creditSender fromAccount val timestamp;
     let fromAccount2 = updateActivityCounters fromAccount1 category ecosystem val;
     fromAccount3 \<leftarrow> updateUserIntelligence fromAccount2 category ecosystem val;
     let s2 = s1\<lparr>Accounts := (Accounts s1)(from \<mapsto> fromAccount3)\<rparr>;
     let (toAccount, s3) = ensureAccount to s2;
     let toAccount1 = creditReceiver toAccount val timestamp;
     let toAccount2 = updateActivityCounters toAccount1 category ecosystem val;
     toAccount3 \<leftarrow> updateUserIntelligence toAccount2 category ecosystem val;
     Some (s3\<lparr>Accounts := (Accounts s3)(to \<mapsto> toAccount3)\<rparr>)
   }"

definition getDayId :: "BigInt \<Rightarrow> int option" where
  "getDayId timestamp = do { t \<leftarrow> toI32 timestamp; Some (tdiv t 86400) }"

definition getDayString :: "BigInt \<Rightarrow> int option" where
  "getDayString timestamp = do { t \<leftarrow> toI32 timestamp; Some (tdiv t 86400) }"

definition getDayStartTimestamp :: "BigInt \<Rightarrow> BigInt option" where
  "getDayStartTimestamp timestamp = do { t \<leftarrow> toI32 timestamp; Some (tdiv t 86400 * 86400) }"

text \<open>A new daily record with its date and day start, after \<open>initializeDailyStats\<close>.\<close>

definition initializeDailyStats :: "int \<Rightarrow> BigInt \<Rightarrow> DailyEcosystemStats" where
  "initializeDailyStats date dayStart =
     \<lparr>ds_date = date, ds_timestamp = dayStart,
      ds_protocolTransferCount = 0, ds_protocolTransferVolume = 0, ds_protocolActiveUsers = 0,
      ds_dexTradeCount = 0, ds_dexTradeVolume = 0, ds_dexActiveUsers = 0,
      ds_bridgeOperationCount = 0, ds_bridgeVolume = 0, ds_bridgeActiveUsers = 0,
      ds_p2pTransferCount = 0, ds_p2pTransferVolume = 0, ds_p2pActiveUsers = 0,
      ds_totalEcosystemTransactionCount = 0, ds_totalEcosystemVolume = 0,
      ds_totalActiveUsers = 0, ds_newUsers = 0, ds_returningUsers = 0,
      ds_averageTransactionSize = 0, ds_medianTransactionSize = 0,
      ds_uniqueTransactionTypes = 0, ds_composabilityScore = 0,
      ds_userGrowthRate = 0, ds_volumeGrowthRate = 0, ds_activityGrowthRate = 0\<rparr>"

text \<open>
  The steps of \<open>updateDailyEcosystemStats\<close> on the day's record: load it or create it,
  add the event to the bucket of its ecosystem, recompute the two totals from the
  buckets, and recompute the average size when the count is positive.
\<close>

definition loadOrCreateDailyStats :: "int \<Rightarrow> BigInt \<Rightarrow> Store \<Rightarrow> DailyEcosystemStats option" where
  "loadOrCreateDailyStats dayId timestamp s =
     (case DailyEcosystemStatsStore s dayId of
        Some st \<Rightarrow> Some st
      | None \<Rightarrow> do {
          date \<leftarrow> getDayString timestamp;
          dayStart \<leftarrow> getDayStartTimestamp timestamp;
          Some (initializeDailyStats date dayStart)
        })"

definition dailyBucketUpdate :: "DailyEcosystemStats \<Rightarrow> string \<Rightarrow> BigInt \<Rightarrow> DailyEcosystemStats" where
  "dailyBucketUpdate stats ecosystem val =
     (if ecosystem = ECOSYSTEM_TYPE_DEX_ECOSYSTEM then
        stats\<lparr>ds_dexTradeCount := ds_dexTradeCount stats + 1,
              ds_dexTradeVolume := ds_dexTradeVolume stats + val\<rparr>
      else if ecosystem = ECOSYSTEM_TYPE_BRIDGE_ECOSYSTEM then
        stats\<lparr>ds_bridgeOperationCount := ds_bridgeOperationCount stats + 1,
              ds_bridgeVolume := ds_bridgeVolume stats + val\<rparr>
      else if ecosystem = ECOSYSTEM_TYPE_P2P_ECOSYSTEM then
        stats\<lparr>ds_p2pTransferCount := ds_p2pTransferCount stats + 1,
              ds_p2pTransferVolume := ds_p2pTransferVolume stats + val\<rparr>
      else if ecosystem = ECOSYSTEM_TYPE_PROTOCOL_NATIVE then
        stats\<lparr>ds_protocolTransferCount := ds_protocolTransferCount stats + 1,
              ds_protocolTransferVolume := ds_protocolTransferVolume stats + val\<rparr>
      else stats)"

definition dailyTotalsUpdate :: "DailyEcosystemStats \<Rightarrow> DailyEcosystemStats" where
  "dailyTotalsUpdate stats =
     stats\<lparr>ds_totalEcosystemTransactionCount :=
              ds_protocolTransferCount stats + ds_dexTradeCount stats
              + ds_bridgeOperationCount stats + ds_p2pTransferCount stats,
            ds_totalEcosystemVolume :=
              ds_protocolTransferVolume stats + ds_dexTradeVolume stats
              + ds_bridgeVolume stats + ds_p2pTransferVolume stats\<rparr>"

definition dailyAverageUpdate :: "DailyEcosystemStats \<Rightarrow> DailyEcosystemStats option" where
  "dailyAverageUpdate stats =
     (if ds_totalEcosystemTransactionCount stats > 0 then do {
        avg \<leftarrow> bd_div (toBigDecimal (ds_totalEcosystemVolume stats))
                      (toBigDecimal (ds_totalEcosystemTransactionCount stats));
        Some (stats\<lparr>ds_averageTransactionSize := avg\<rparr>)
      } else Some stats)"

definition updateDailyEcosystemStats ::
  "string \<Rightarrow> string \<Rightarrow> BigInt \<Rightarrow> BigInt \<Rightarrow> Store \<Rightarrow> Store option" where
  "updateDailyEcosystemStats category ecosystem val timestamp s = do {
     dayId \<leftarrow> getDayId timestamp;
     stats \<leftarrow> loadOrCreateDailyStats dayId timestamp s;
     let stats1 = dailyBucketUpdate stats ecosystem val;
     let stats2 = dailyTotalsUpdate stats1;
     stats3 \<leftarrow> dailyAverageUpdate stats2;
     Some (s\<lparr>DailyEcosystemStatsStore := (DailyEcosystemStatsStore s)(dayId \<mapsto> stats3)\<rparr>)
   }"

text \<open>
  A new global record after \<open>initializeEcosystemStats\<close>. The two update fields are
  written by the caller before the record is saved.
\<close>

definition initializeEcosystemStats :: EcosystemStats where
  "initializeEcosystemStats =
     \<lparr>es_totalSupply = 0, es_totalDebt = 0, es_activeTroveCount = 0, es_holderCount = 0,
      es_averageCollateralRatio = 0, es_medianCollateralRatio = 0, es_protocolHealth = 100,
      es_liquidationRisk = 0,
      es_ecosystemUserCount = 0, es_dexTradingVolume = 0, es_bridgeVolume = 0,
      es_p2pVolume = 0, es_defiIntegrationVolume = 0, es_totalEcosystemVolume = 0,
      es_dailyActiveUsers = 0, es_weeklyActiveUsers = 0, es_monthlyActiveUsers = 0,
      es_userRetentionRate = 0, es_userAcquisitionRate = 0,
      es_protocolIntegrations = 0, es_crossProtocolOperations = 0,
      es_composabilityScore = 0, es_innovationIndex = 0,
      es_predictedGrowth = 0, es_ecosystemHealthScore = 100,
      es_lastUpdateBlock = 0, es_lastUpdateTimestamp = 0\<rparr>"

text \<open>
  The steps of \<open>updateEcosystemStats\<close> on the global record: add the value to the
  volume of the event's ecosystem, then recompute the total volume and stamp the update.
\<close>

definition ecosystemBucketUpdate :: "EcosystemStats \<Rightarrow> string \<Rightarrow> BigInt \<Rightarrow> EcosystemStats" where
  "ecosystemBucketUpdate stats ecosystem val =
     (if ecosystem = ECOSYSTEM_TYPE_DEX_ECOSYSTEM then
        stats\<lparr>es_dexTradingVolume := es_dexTradingVolume stats + val\<rparr>
      else if ecosystem = ECOSYSTEM_TYPE_BRIDGE_ECOSYSTEM then
        stats\<lparr>es_bridgeVolume := es_bridgeVolume stats + val\<rparr>
      else if ecosystem = ECOSYSTEM_TYPE_P2P_ECOSYSTEM then
        stats\<lparr>es_p2pVolume := es_p2pVolume stats + val\<rparr>
      else if ecosystem = ECOSYSTEM_TYPE_DEFI_ECOSYSTEM then
        stats\<lparr>es_defiIntegrationVolume := es_defiIntegrationVolume stats + val\<rparr>
      else stats)"

definition ecosystemTotalsUpdate :: "EcosystemStats \<Rightarrow> BigInt \<Rightarrow> EcosystemStats" where
  "ecosystemTotalsUpdate stats timestamp =
     stats\<lparr>es_totalEcosystemVolume :=
              es_dexTradingVolume stats + es_bridgeVolume stats + es_p2pVolume stats
              + es_defiIntegrationVolume stats,
            es_lastUpdateBlock := getCurrentBlock,
            es_lastUpdateTimestamp := timestamp\<rparr>"

definition updateEcosystemStats ::
  "string \<Rightarrow> string \<Rightarrow> BigInt \<Rightarrow> BigInt \<Rightarrow> Store \<Rightarrow> Store option" where
  "updateEcosystemStats category ecosystem val timestamp s = do {
     let stats =
       (case EcosystemStatsStore s ''global'' of
          Some st \<Rightarrow> st
        | None \<Rightarrow> initializeEcosystemStats);
     let stats1 = ecosystemBucketUpdate stats ecosystem val;
     let stats2 = ecosystemTotalsUpdate stats1 timestamp;
     let s1 = s\<lparr>EcosystemStatsStore := (EcosystemStatsStore s)(''global'' \<mapsto> stats2)\<rparr>;
     updateDailyEcosystemStats category ecosystem val timestamp s1
   }"

text \<open>
  The steps of \<open>createUniversalTransaction\<close>: the id of the ledger record (the hash,
  with the log index appended when there is one); the record itself, loaded when it
  exists and otherwise created, with both parties' accounts ensured, and saved; then, for
  every call, the update of the accounts and of the ecosystem statistics.
\<close>

definition transactionId :: "Bytes \<Rightarrow> BigInt option \<Rightarrow> Bytes option" where
  "transactionId hash logIndex =
     (case logIndex of
        None \<Rightarrow> Some hash
      | Some li \<Rightarrow> do { i \<leftarrow> toI32 li; Some (concatI32 hash i) })"

definition loadOrCreateTransaction ::
  "Bytes \<Rightarrow> Bytes \<Rightarrow> BigInt \<Rightarrow> BigInt \<Rightarrow> Bytes \<Rightarrow> Bytes \<Rightarrow> BigInt \<Rightarrow> string \<Rightarrow> string \<Rightarrow> string \<Rightarrow>
   BigInt option \<Rightarrow> BigInt option \<Rightarrow> BigInt option \<Rightarrow> bool \<Rightarrow> string option \<Rightarrow>
   Store \<Rightarrow> Transaction \<times> Store" where
  "loadOrCreateTransaction txId hash blockNumber blockTimestamp from to val source category
     ecosystem logIndex gasUsed gasPrice success errorMessage s =
     (case Transactions s txId of
        Some t \<Rightarrow> (t, s)
      | None \<Rightarrow>
          let (fromAccount, s1) = ensureAccount from s;
              (toAccount, s2) = ensureAccount to s1;
              t = \<lparr>tx_id = txId, tx_hash = hash, tx_blockNumber = blockNumber,
                   tx_blockTimestamp = blockTimestamp, tx_logIndex = logIndex,
                   tx_from = acc_id fromAccount, tx_to = acc_id toAccount, tx_value = val,
                   tx_source = source, tx_category = category, tx_ecosystem = ecosystem,
                   tx_gasUsed = gasUsed, tx_gasPrice = gasPrice, tx_success = success,
                   tx_errorMessage = errorMessage,
                   tx_composabilityScore = 0, tx_innovationScore = 0, tx_riskScore = 0\<rparr>
          in (t, s2\<lparr>Transactions := (Transactions s2)(txId \<mapsto> t)\<rparr>))"

definition createUniversalTransaction ::
  "Bytes \<Rightarrow> BigInt \<Rightarrow> BigInt \<Rightarrow> Bytes \<Rightarrow> Bytes \<Rightarrow> BigInt \<Rightarrow> string \<Rightarrow> string \<Rightarrow> string \<Rightarrow>
   BigInt option \<Rightarrow> BigInt option \<Rightarrow> BigInt option \<Rightarrow> bool \<Rightarrow> string option \<Rightarrow>
   Store \<Rightarrow> (Transaction \<times> Store) option" where
  "createUniversalTransaction hash blockNumber blockTimestamp from to val source category
     ecosystem logIndex gasUsed gasPrice success errorMessage s = do {
     txId \<leftarrow> transactionId hash logIndex;
     let (transaction, s3) =
       loadOrCreateTransaction txId hash blockNumber blockTimestamp from to val source
         category ecosystem logIndex gasUsed gasPrice success errorMessage s;
     s4 \<leftarrow> updateAccountActivity from to val category ecosystem blockTimestamp s3;
     s5 \<leftarrow> updateEcosystemStats category ecosystem val blockTimestamp s4;
     Some (transaction, s5)
   }"

section \<open>protocol/usdfc-token-final.ts: the Transfer handler\<close>

record TransferEvent =
  te_hash :: Bytes
  te_logIndex :: BigInt
  te_blockNumber :: BigInt
  te_blockTimestamp :: BigInt
  te_input :: Bytes
  te_from :: Bytes
  te_to :: Bytes
  te_value :: BigInt

text \<open>The token handler's own \<open>ensureAccount\<close>; it differs in the initial scores.\<close>

definition ensureAccount_token :: "Bytes \<Rightarrow> Store \<Rightarrow> Account \<times> Store" where
  "ensureAccount_token address s =
     (case Accounts s address of
        Some account \<Rightarrow> (account, s)
      | None \<Rightarrow>
          let account =
                \<lparr>acc_id = address,
                 usdfcBalance = 0, totalTransactionCount = 0, totalVolumeIn = 0,
                 totalVolumeOut = 0, netVolume = 0,
                 firstSeenBlock = 0, firstSeenTimestamp = 0,
                 lastActiveBlock = 0, lastActiveTimestamp = 0,
                 daysSinceFirstSeen = 0, daysSinceLastActive = 0,
                 contractTransactionCount = 0, tokenTransferCount = 0,
                 internalTransactionCount = 0, systemLogCount = 0,
                 protocolOperationCount = 0, dexActivityCount = 0, bridgeActivityCount = 0,
                 p2pTransferCount = 0, defiIntegrationCount = 0,
                 protocolVolume = 0, dexVolume = 0, bridgeVolume = 0, p2pVolume = 0,
                 defiIntegrationVolume = 0,
                 userType = ''RETAIL_USER'', activityPatterns = Some [],
                 riskScore = 0, composabilityScore = 0, influenceScore = 0,
                 retentionScore = 0\<rparr>
          in (account, s\<lparr>Accounts := (Accounts s)(address \<mapsto> account)\<rparr>))"

definition createTransaction :: "TransferEvent \<Rightarrow> Store \<Rightarrow> (Transaction \<times> Store) option" where
  "createTransaction event s = do {
     li \<leftarrow> toI32 (te_logIndex event);
     let txId = concatI32 (te_hash event) li;
     Some (case Transactions s txId of
        Some tx \<Rightarrow> (tx, s)
      | None \<Rightarrow>
          let (fromAccount, s1) = ensureAccount_token (te_from event) s;
              (toAccount, s2) = ensureAccount_token (te_to event) s1;
              tx = \<lparr>tx_id = txId, tx_hash = te_hash event,
                    tx_blockNumber = te_blockNumber event,
                    tx_blockTimestamp = te_blockTimestamp event, tx_logIndex = Some li,
                    tx_from = acc_id fromAccount, tx_to = acc_id toAccount,
                    tx_value = te_value event,
                    tx_source = ''CONTRACT_EVENT'', tx_category = ''TRANSFER'',
                    tx_ecosystem = ''PROTOCOL_NATIVE'',
                    tx_gasUsed = None, tx_gasPrice = None, tx_success = True,
                    tx_errorMessage = None,
                    tx_composabilityScore = 0, tx_innovationScore = 0, tx_riskScore = 0\<rparr>
          in (tx, s2\<lparr>Transactions := (Transactions s2)(txId \<mapsto> tx)\<rparr>))
   }"

definition DUST_RISK :: BigDecimal where "DUST_RISK = 0"
definition MICRO_RISK :: BigDecimal where "MICRO_RISK = 2"
definition SMALL_RISK :: BigDecimal where "SMALL_RISK = 5"
definition MEDIUM_RISK :: BigDecimal where "MEDIUM_RISK = 15"
definition LARGE_RISK :: BigDecimal where "LARGE_RISK = 25"
definition WHALE_RISK :: BigDecimal where "WHALE_RISK = 40"
definition INSTITUTIONAL_RISK :: BigDecimal where "INSTITUTIONAL_RISK = 60"
definition NEW_ACCOUNT_RISK :: BigDecimal where "NEW_ACCOUNT_RISK = 10"
definition OFF_HOURS_MULTIPLIER :: BigDecimal where "OFF_HOURS_MULTIPLIER = 12 / 10"

definition getAmountRiskWeight :: "BigInt \<Rightarrow> BigDecimal" where
  "getAmountRiskWeight amount =
     (let tier = getTransferAmountTier amount
      in if tier = ''DUST'' then DUST_RISK
         else if tier = ''MICRO'' then MICRO_RISK
         else if tier = ''SMALL'' then SMALL_RISK
         else if tier = ''MEDIUM'' then MEDIUM_RISK
         else if tier = ''LARGE'' then LARGE_RISK
         else if tier = ''WHALE'' then WHALE_RISK
         else INSTITUTIONAL_RISK)"

definition isOffHoursTransaction :: "BigInt \<Rightarrow> bool option" where
  "isOffHoursTransaction timestamp = do {
     t \<leftarrow> toI32 timestamp;
     let hour = tdiv (tmod t 86400) 3600;
     Some (hour \<ge> 22 \<or> hour \<le> 6)
   }"

definition getComposableRiskScore ::
  "Bytes \<Rightarrow> Bytes \<Rightarrow> BigInt \<Rightarrow> BigInt \<Rightarrow> Store \<Rightarrow> BigDecimal option" where
  "getComposableRiskScore from to val timestamp s = do {
     let riskScore0 = bd_plus 0 (getAmountRiskWeight val);
     let riskScore1 =
       (case Accounts s from of
          None \<Rightarrow> bd_plus riskScore0 NEW_ACCOUNT_RISK
        | Some fromAccount \<Rightarrow>
            if totalTransactionCount fromAccount < 5 then bd_plus riskScore0 NEW_ACCOUNT_RISK
            else riskScore0);
     let riskScore2 =
       (case Accounts s to of
          None \<Rightarrow> bd_plus riskScore1 NEW_ACCOUNT_RISK
        | Some toAccount \<Rightarrow>
            if totalTransactionCount toAccount < 5 then bd_plus riskScore1 NEW_ACCOUNT_RISK
            else riskScore1);
     offHours \<leftarrow> isOffHoursTransaction timestamp;
     Some (if offHours then bd_times riskScore2 OFF_HOURS_MULTIPLIER else riskScore2)
   }"

definition updateAccountBalances :: "Bytes \<Rightarrow> Bytes \<Rightarrow> BigInt \<Rightarrow> Store \<Rightarrow> Store" where
  "updateAccountBalances from to val s =
     (let s2 =
        (if from \<noteq> zeroAddress then
           let (fromAccount, s1) = ensureAccount_token from s;
               fromAccount1 = fromAccount\<lparr>usdfcBalance := usdfcBalance fromAccount - val\<rparr>
           in s1\<lparr>Accounts := (Accounts s1)(from \<mapsto> fromAccount1)\<rparr>
         else s)
      in if to \<noteq> zeroAddress then
           let (toAccount, s3) = ensureAccount_token to s2;
               toAccount1 = toAccount\<lparr>usdfcBalance := usdfcBalance toAccount + val\<rparr>
           in s3\<lparr>Accounts := (Accounts s3)(to \<mapsto> toAccount1)\<rparr>
         else s2)"

definition handleTransfer :: "TransferEvent \<Rightarrow> Store \<Rightarrow> Store option" where
  "handleTransfer event s = do {
     (transaction, s1) \<leftarrow> createTransaction event s;
     li \<leftarrow> toI32 (te_logIndex event);
     let transferId = concatI32 (te_hash event) li;
     let (fromAccount, s2) = ensureAccount_token (te_from event) s1;
     let (toAccount, s3) = ensureAccount_token (te_to event) s2;
     risk \<leftarrow> getComposableRiskScore (te_from event) (te_to event) (te_value event)
               (te_blockTimestamp event) s3;
     let transfer =
       \<lparr>tf_timestamp = te_blockTimestamp event,
        tf_from = acc_id fromAccount, tf_to = acc_id toAccount,
        tf_value = te_value event, tf_blockNumber = te_blockNumber event,
        tf_transactionHash = te_hash event,
        tf_universalTransaction = tx_id transaction,
        tf_transferType =
          getConfigurableTransferType (te_from event) (te_to event) (te_value event),
        tf_ecosystemType = ''PROTOCOL_NATIVE'', tf_composabilityLinks = [],
        tf_riskScore = risk, tf_rawTransferData = te_input event,
        tf_relatedOperation = None\<rparr>;
     let s4 = s3\<lparr>Transfers := (Transfers s3)(transferId \<mapsto> transfer)\<rparr>;
     Some (updateAccountBalances (te_from event) (te_to event) (te_value event) s4)
   }"

section \<open>protocol/trove-manager.ts: scores\<close>

definition calculateTroveHealthScore :: "BigDecimal \<Rightarrow> BigDecimal" where
  "calculateTroveHealthScore collateralRatio =
     (if collateralRatio < 110 then ZERO_BD
      else if collateralRatio < 125 then 25
      else if collateralRatio < 150 then 50
      else if collateralRatio < 200 then 75
      else 100)"

definition classifyTroveRiskLevel :: "BigDecimal \<Rightarrow> string" where
  "classifyTroveRiskLevel collateralRatio =
     (if collateralRatio > 200 then ''VERY_LOW''
      else if collateralRatio > 150 then ''LOW''
      else if collateralRatio > 125 then ''MEDIUM''
      else if collateralRatio > 110 then ''HIGH''
      else if collateralRatio > 105 then ''VERY_HIGH''
      else ''CRITICAL'')"

text \<open>
  The loop of the performance score: it runs over the indices of \<open>scores\<close> and adds
  \<open>scores[i] * weights[i]\<close> and \<open>weights[i]\<close> to the two running totals.
\<close>

fun weightedTotals ::
  "BigDecimal list \<Rightarrow> BigDecimal list \<Rightarrow> BigDecimal \<times> BigDecimal \<Rightarrow> BigDecimal \<times> BigDecimal" where
  "weightedTotals (sc # scores) (w # weights) (totalWeightedScore, totalWeight) =
     weightedTotals scores weights
       (bd_plus totalWeightedScore (bd_times sc w), bd_plus totalWeight w)"
| "weightedTotals scores weights totals = totals"

definition stabilityScore :: "Trove \<Rightarrow> BigDecimal" where
  "stabilityScore trove =
     (if tv_lowestCollateralRatio trove > 150 then 100
      else bd_quot (tv_lowestCollateralRatio trove) (15 / 10))"

definition riskScoreOf :: "Trove \<Rightarrow> BigDecimal" where
  "riskScoreOf trove =
     (let riskPenalty = bd_times (toBigDecimal (tv_riskEvents trove)) 10
      in clamp (bd_minus 100 riskPenalty) ZERO_BD 100)"

definition ageBonus :: "Trove \<Rightarrow> BigDecimal" where
  "ageBonus trove = clamp (bd_quot (toBigDecimal (tv_daysOpen trove)) 30) ZERO_BD 100"

definition calculateTrovePerformanceScore :: "Trove \<Rightarrow> BigDecimal option" where
  "calculateTrovePerformanceScore trove =
     (let scores = [tv_healthScore trove, clamp (stabilityScore trove) ZERO_BD 100,
                    riskScoreOf trove, ageBonus trove];
          weights = [4 / 10, 3 / 10, 2 / 10, 1 / 10];
          (totalWeightedScore, totalWeight) = weightedTotals scores weights (ZERO_BD, ZERO_BD)
      in if totalWeight > ZERO_BD then bd_div totalWeightedScore totalWeight else Some 50)"

definition calculateLiquidationRiskScore :: "Trove \<Rightarrow> BigDecimal option" where
  "calculateLiquidationRiskScore trove = do {
     crRisk \<leftarrow> bd_div 110 (bd_plus (tv_collateralRatio trove) 1);
     let f1 = clamp (bd_times crRisk 100) ZERO_BD 100;
     let eventRisk = bd_times (toBigDecimal (tv_riskEvents trove)) 15;
     let f2 = clamp eventRisk ZERO_BD 100;
     volatilityRisk \<leftarrow>
       (if tv_operationCount trove > ZERO_BI then do {
          q \<leftarrow> bd_div (toBigDecimal (tv_operationCount trove))
                      (toBigDecimal (tv_daysOpen trove + 1));
          Some (bd_times q 10)
        } else Some ZERO_BD);
     let f3 = clamp volatilityRisk ZERO_BD 100;
     let totalRisk = bd_plus (bd_plus (bd_plus ZERO_BD f1) f2) f3;
     Some (bd_quot totalRisk 3)
   }"

definition generateOptimizationSuggestions :: "Trove \<Rightarrow> string list" where
  "generateOptimizationSuggestions trove =
     (if tv_collateralRatio trove < 150
      then [''Consider adding more collateral to improve safety margin''] else [])
     @ (if tv_collateralRatio trove > 300
        then [''Consider optimizing capital efficiency by borrowing more or withdrawing collateral'']
        else [])
     @ (if tv_riskEvents trove > 2
        then [''Consider maintaining higher collateral ratios to avoid future risk events'']
        else [])
     @ (if tv_operationCount trove > 20 \<and> tv_daysOpen trove < 30
        then [''High operation frequency detected - consider longer-term position management'']
        else [])"

text \<open>
  The steps of \<open>updateTroveAnalytics\<close>, in the order of the source: the collateral
  ratio with the lowest ratio, health score and risk level; the liquidation price; the
  safety margin (a ratio of 110 or less counts a risk event); the lifetime totals and the
  operation count; the running average of the ratio; and the performance score, the
  liquidation risk score and the suggestions.
\<close>

definition ratioStep :: "Trove \<Rightarrow> BigDecimal \<Rightarrow> Trove" where
  "ratioStep trove cr =
     (let t1 = trove\<lparr>tv_collateralRatio := cr\<rparr>;
          t2 = (if tv_collateralRatio t1 < tv_lowestCollateralRatio t1
                then t1\<lparr>tv_lowestCollateralRatio := tv_collateralRatio t1\<rparr>
                else t1)
      in t2\<lparr>tv_healthScore := calculateTroveHealthScore (tv_collateralRatio t2),
             tv_riskLevel := classifyTroveRiskLevel (tv_collateralRatio t2)\<rparr>)"

definition liquidationPriceStep :: "Trove \<Rightarrow> BigInt \<Rightarrow> BigInt \<Rightarrow> Trove option" where
  "liquidationPriceStep trove debt collateral =
     (if debt > ZERO_BI then do {
        price \<leftarrow> bd_div (bd_times (toBigDecimal debt) (11 / 10)) (toBigDecimal collateral);
        Some (trove\<lparr>tv_liquidationPrice := price\<rparr>)
      } else Some (trove\<lparr>tv_liquidationPrice := ZERO_BD\<rparr>))"

definition safetyMarginStep :: "Trove \<Rightarrow> Trove" where
  "safetyMarginStep trove =
     (if tv_collateralRatio trove > 110
      then trove\<lparr>tv_safetyMargin := bd_minus (tv_collateralRatio trove) 110\<rparr>
      else trove\<lparr>tv_safetyMargin := ZERO_BD, tv_riskEvents := tv_riskEvents trove + 1\<rparr>)"

definition lifetimeStep :: "Trove \<Rightarrow> BigInt \<Rightarrow> BigInt \<Rightarrow> Trove" where
  "lifetimeStep trove collateralChange debtChange =
     (let t1 =
        (if collateralChange > ZERO_BI
         then trove\<lparr>tv_totalCollateralAdded :=
                      tv_totalCollateralAdded trove + collateralChange\<rparr>
         else if collateralChange < ZERO_BI
         then trove\<lparr>tv_totalCollateralWithdrawn :=
                      tv_totalCollateralWithdrawn trove + (- collateralChange)\<rparr>
         else trove);
          t2 =
        (if debtChange > ZERO_BI
         then t1\<lparr>tv_totalBorrowed := tv_totalBorrowed t1 + debtChange\<rparr>
         else if debtChange < ZERO_BI
         then t1\<lparr>tv_totalRepaid := tv_totalRepaid t1 + (- debtChange)\<rparr>
         else t1)
      in t2\<lparr>tv_operationCount := tv_operationCount t2 + 1\<rparr>)"

definition averageRatioStep :: "Trove \<Rightarrow> Trove option" where
  "averageRatioStep trove =
     (if tv_operationCount trove > ZERO_BI then do {
        weight \<leftarrow> bd_div ONE_BD (toBigDecimal (tv_operationCount trove));
        Some (trove\<lparr>tv_averageCollateralRatio :=
                      bd_plus (bd_times (tv_averageCollateralRatio trove) (bd_minus ONE_BD weight))
                        (bd_times (tv_collateralRatio trove) weight)\<rparr>)
      } else Some trove)"

definition scoresStep :: "Trove \<Rightarrow> Trove option" where
  "scoresStep trove = do {
     performance \<leftarrow> calculateTrovePerformanceScore trove;
     let t1 = trove\<lparr>tv_performanceScore := performance\<rparr>;
     risk \<leftarrow> calculateLiquidationRiskScore t1;
     let t2 = t1\<lparr>tv_liquidationRiskScore := risk\<rparr>;
     Some (t2\<lparr>tv_optimizationSuggestions := generateOptimizationSuggestions t2\<rparr>)
   }"

definition updateTroveAnalytics :: "Trove \<Rightarrow> BigInt \<Rightarrow> BigInt \<Rightarrow> BigInt \<Rightarrow> Trove option" where
  "updateTroveAnalytics trove previousCollateral previousDebt timestamp = do {
     collateral \<leftarrow> tv_collateral trove;
     debt \<leftarrow> tv_debt trove;
     cr \<leftarrow> calculateCollateralRatio collateral debt;
     let t1 = ratioStep trove cr;
     t2 \<leftarrow> liquidationPriceStep t1 debt collateral;
     let t3 = safetyMarginStep t2;
     let collateralChange = collateral - previousCollateral;
     let debtChange = debt - previousDebt;
     let t4 = lifetimeStep t3 collateralChange debtChange;
     t5 \<leftarrow> averageRatioStep t4;
     scoresStep t5
   }"

definition classifyTroveOperationType :: "BigInt \<Rightarrow> BigInt \<Rightarrow> BigInt \<Rightarrow> BigInt \<Rightarrow> string" where
  "classifyTroveOperationType collateralChange debtChange previousCollateral previousDebt =
     (let wasOpen = previousDebt > ZERO_BI;
          isOpen = previousDebt + debtChange > ZERO_BI
      in if \<not> wasOpen \<and> isOpen then ''OPEN''
         else if wasOpen \<and> \<not> isOpen then ''CLOSE''
         else if collateralChange > ZERO_BI \<and> debtChange = ZERO_BI then ''ADD_COLLATERAL''
         else if collateralChange < ZERO_BI \<and> debtChange = ZERO_BI then ''WITHDRAW_COLLATERAL''
         else if collateralChange = ZERO_BI \<and> debtChange > ZERO_BI then ''BORROW''
         else if collateralChange = ZERO_BI \<and> debtChange < ZERO_BI then ''REPAY''
         else ''ADJUST'')"

section \<open>protocol/trove-manager.ts: handlers\<close>

definition TX_SOURCE_CONTRACT_EVENT :: string where
  "TX_SOURCE_CONTRACT_EVENT = ''CONTRACT_EVENT''"
definition TX_CATEGORY_TROVE_OPERATION :: string where
  "TX_CATEGORY_TROVE_OPERATION = ''TROVE_OPERATION''"
definition TX_CATEGORY_LIQUIDATION :: string where
  "TX_CATEGORY_LIQUIDATION = ''LIQUIDATION''"
definition ECOSYSTEM_PROTOCOL_NATIVE :: string where
  "ECOSYSTEM_PROTOCOL_NATIVE = ''PROTOCOL_NATIVE''"

record TroveUpdatedEvent =
  tu_hash :: Bytes
  tu_logIndex :: BigInt
  tu_blockNumber :: BigInt
  tu_blockTimestamp :: BigInt
  tu_gasUsed :: "BigInt option"
  tu_gasPrice :: "BigInt option"
  tu_borrower :: Bytes
  tu_debt :: BigInt
  tu_coll :: BigInt
  tu_stake :: BigInt

record TroveLiquidatedEvent =
  tl_hash :: Bytes
  tl_logIndex :: BigInt
  tl_blockNumber :: BigInt
  tl_blockTimestamp :: BigInt
  tl_gasUsed :: "BigInt option"
  tl_gasPrice :: "BigInt option"
  tl_borrower :: Bytes
  tl_debt :: BigInt
  tl_coll :: BigInt


text \<open>
  \<open>updateProtocolStatsForTrove\<close> assigns \<open>event.block.number\<close> to the block of the
  last update, and \<open>event\<close> is not among its parameters; the model passes that number
  as \<open>eventBlockNumber\<close>. The function returns at once when the global record is
  absent, before it reads the trove.
\<close>

definition updateProtocolStatsForTrove ::
  "Trove \<Rightarrow> string \<Rightarrow> BigInt \<Rightarrow> BigInt \<Rightarrow> bool \<Rightarrow> BigInt \<Rightarrow> BigInt \<Rightarrow> Store \<Rightarrow> Store option" where
  "updateProtocolStatsForTrove trove previousStatus previousDebt previousCollateral isNewTrove
     timestamp eventBlockNumber s =
     (case ProtocolStatsStore s GLOBAL_STATS_ID of
        None \<Rightarrow> Some s
      | Some stats \<Rightarrow> do {
          let stats1 =
            (if isNewTrove then stats\<lparr>ps_totalTroveCount := ps_totalTroveCount stats + 1\<rparr>
             else stats);
          let stats2 =
            (if Some previousStatus \<noteq> tv_status trove then
               (if tv_status trove = Some ''ACTIVE'' \<and> previousStatus \<noteq> ''ACTIVE''
                then stats1\<lparr>ps_activeTroveCount := ps_activeTroveCount stats1 + 1\<rparr>
                else if previousStatus = ''ACTIVE'' \<and> tv_status trove \<noteq> Some ''ACTIVE''
                then stats1\<lparr>ps_activeTroveCount := ps_activeTroveCount stats1 - 1\<rparr>
                else stats1)
             else stats1);
          debt \<leftarrow> tv_debt trove;
          collateral \<leftarrow> tv_collateral trove;
          let debtChange = debt - previousDebt;
          let collateralChange = collateral - previousCollateral;
          let stats3 =
            stats2\<lparr>ps_totalDebt := ps_totalDebt stats2 + debtChange,
                   ps_totalCollateral := ps_totalCollateral stats2 + collateralChange,
                   ps_lastUpdateBlock := eventBlockNumber,
                   ps_lastUpdateTimestamp := timestamp\<rparr>;
          Some (s\<lparr>ProtocolStatsStore := (ProtocolStatsStore s)(GLOBAL_STATS_ID \<mapsto> stats3)\<rparr>)
        })"


definition troveOperationRecord :: "TroveUpdatedEvent \<Rightarrow> BigInt \<Rightarrow> BigInt \<Rightarrow> TroveOperation" where
  "troveOperationRecord event previousCollateral previousDebt =
     (let collateralChange = tu_coll event - previousCollateral;
          debtChange = tu_debt event - previousDebt
      in \<lparr>op_timestamp = tu_blockTimestamp event, op_trove = tu_borrower event,
          op_collateralChange = collateralChange, op_debtChange = debtChange,
          op_collateralBefore = previousCollateral, op_collateralAfter = tu_coll event,
          op_debtBefore = previousDebt, op_debtAfter = tu_debt event,
          op_blockNumber = tu_blockNumber event, op_transactionHash = tu_hash event,
          op_operation =
            classifyTroveOperationType collateralChange debtChange previousCollateral
              previousDebt\<rparr>)"

definition createTroveOperation ::
  "TroveUpdatedEvent \<Rightarrow> Trove \<Rightarrow> BigInt \<Rightarrow> BigInt \<Rightarrow> Transaction \<Rightarrow> Store \<Rightarrow> Store option" where
  "createTroveOperation event trove previousCollateral previousDebt universalTx s = do {
     li \<leftarrow> toI32 (tu_logIndex event);
     let operationId = concatI32 (tu_hash event) li;
     let operation = troveOperationRecord event previousCollateral previousDebt;
     Some (s\<lparr>TroveOperations := (TroveOperations s)(operationId \<mapsto> operation)\<rparr>)
   }"

definition newTrove :: "TroveUpdatedEvent \<Rightarrow> Trove" where
  "newTrove event =
     \<lparr>tv_owner = tu_borrower event,
      tv_openedAtBlock = tu_blockNumber event,
      tv_openedAtTimestamp = tu_blockTimestamp event,
      tv_totalBorrowed = ZERO_BI, tv_totalRepaid = ZERO_BI,
      tv_totalCollateralAdded = ZERO_BI, tv_totalCollateralWithdrawn = ZERO_BI,
      tv_borrowingFeesPaid = ZERO_BI, tv_operationCount = ZERO_BI,
      tv_averageCollateralRatio = ZERO_BD, tv_lowestCollateralRatio = 99999,
      tv_riskEvents = ZERO_BI, tv_performanceScore = 100,
      tv_collateral = None, tv_debt = None, tv_status = None,
      tv_stake = 0, tv_lastUpdateBlock = 0, tv_lastUpdateTimestamp = 0, tv_daysOpen = 0,
      tv_closedAtBlock = None, tv_closedAtTimestamp = None,
      tv_collateralRatio = 0, tv_healthScore = 0, tv_riskLevel = [],
      tv_liquidationPrice = 0, tv_safetyMargin = 0, tv_liquidationRiskScore = 0,
      tv_optimizationSuggestions = []\<rparr>"

text \<open>
  The middle of \<open>handleTroveUpdated\<close>: the event's collateral, debt and stake are
  written to the trove, the days open are recomputed, and the status follows the debt.
\<close>

definition applyTroveUpdate :: "TroveUpdatedEvent \<Rightarrow> Trove \<Rightarrow> Trove" where
  "applyTroveUpdate event trove =
     (let trove1 =
            trove\<lparr>tv_collateral := Some (tu_coll event), tv_debt := Some (tu_debt event),
                   tv_stake := tu_stake event,
                   tv_lastUpdateBlock := tu_blockNumber event,
                   tv_lastUpdateTimestamp := tu_blockTimestamp event\<rparr>;
          trove2 =
            trove1\<lparr>tv_daysOpen :=
                      tdiv (tu_blockTimestamp event - tv_openedAtTimestamp trove1) 86400\<rparr>
      in if tu_debt event = ZERO_BI
         then trove2\<lparr>tv_status := Some ''CLOSED_BY_OWNER'',
                      tv_closedAtBlock := Some (tu_blockNumber event),
                      tv_closedAtTimestamp := Some (tu_blockTimestamp event)\<rparr>
         else trove2\<lparr>tv_status := Some ''ACTIVE''\<rparr>)"

text \<open>
  \<open>handleTroveUpdated\<close> after its ledger record and the borrower's account: the trove
  is loaded or created, and the previous collateral, debt and status are read. The three
  are required fields of the entity (the source passes them on as \<open>BigInt\<close> and
  \<open>string\<close>), and the getter of a required field aborts the handler while the field
  is not set, as it is in a trove that was just created; after it the defaults of the
  source remain for an empty status only. Then the event is applied, the analytics are
  recomputed, the operation record and the trove are saved, and the protocol statistics
  are updated last.
\<close>

definition statusOrActive :: "string \<Rightarrow> string" where
  "statusOrActive st = (if st = [] then ''ACTIVE'' else st)"

definition processTroveUpdate :: "TroveUpdatedEvent \<Rightarrow> Transaction \<Rightarrow> Store \<Rightarrow> Store option" where
  "processTroveUpdate event universalTx s2 = do {
     let loaded = Troves s2 (tu_borrower event);
     let isNewTrove = (loaded = None);
     let trove = (case loaded of Some t \<Rightarrow> t | None \<Rightarrow> newTrove event);
     previousCollateral \<leftarrow> tv_collateral trove;
     previousDebt \<leftarrow> tv_debt trove;
     storedStatus \<leftarrow> tv_status trove;
     let previousStatus = statusOrActive storedStatus;
     let trove3 = applyTroveUpdate event trove;
     trove4 \<leftarrow> updateTroveAnalytics trove3 previousCollateral previousDebt
                 (tu_blockTimestamp event);
     s3 \<leftarrow> createTroveOperation event trove4 previousCollateral previousDebt universalTx s2;
     let s4 = s3\<lparr>Troves := (Troves s3)(tu_borrower event \<mapsto> trove4)\<rparr>;
     updateProtocolStatsForTrove trove4 previousStatus previousDebt previousCollateral
       isNewTrove (tu_blockTimestamp event) (tu_blockNumber event) s4
   }"

definition handleTroveUpdated :: "TroveUpdatedEvent \<Rightarrow> Store \<Rightarrow> Store option" where
  "handleTroveUpdated event s = do {
     (universalTx, s1) \<leftarrow>
       createUniversalTransaction (tu_hash event) (tu_blockNumber event)
         (tu_blockTimestamp event) (tu_borrower event) (tu_borrower event) (tu_debt event)
         TX_SOURCE_CONTRACT_EVENT TX_CATEGORY_TROVE_OPERATION ECOSYSTEM_PROTOCOL_NATIVE
         (Some (tu_logIndex event)) (tu_gasUsed event) (tu_gasPrice event) True None s;
     let (account, s2) = ensureAccount (tu_borrower event) s1;
     processTroveUpdate event universalTx s2
   }"

definition handleTroveLiquidated :: "TroveLiquidatedEvent \<Rightarrow> Store \<Rightarrow> Store option" where
  "handleTroveLiquidated event s = do {
     (universalTx, s1) \<leftarrow>
       createUniversalTransaction (tl_hash event) (tl_blockNumber event)
         (tl_blockTimestamp event) (tl_borrower event) (tl_borrower event) (tl_debt event)
         TX_SOURCE_CONTRACT_EVENT TX_CATEGORY_LIQUIDATION ECOSYSTEM_PROTOCOL_NATIVE
         (Some (tl_logIndex event)) (tl_gasUsed event) (tl_gasPrice event) True None s;
     (case Troves s1 (tl_borrower event) of
        None \<Rightarrow> Some s1
      | Some trove \<Rightarrow> do {
          previousStatus \<leftarrow> tv_status trove;
          previousDebt \<leftarrow> tv_debt trove;
          previousCollateral \<leftarrow> tv_collateral trove;
          let trove1 =
            trove\<lparr>tv_status := Some ''CLOSED_BY_LIQUIDATION'',
                   tv_closedAtBlock := Some (tl_blockNumber event),
                   tv_closedAtTimestamp := Some (tl_blockTimestamp event),
                   tv_riskEvents := tv_riskEvents trove + 1\<rparr>;
          let trove2 =
            trove1\<lparr>tv_performanceScore := bd_times (tv_performanceScore trove1) (5 / 10)\<rparr>;
          let trove3 =
            trove2\<lparr>tv_performanceScore := clamp (tv_performanceScore trove2) ZERO_BD 100\<rparr>;
          let s2 = s1\<lparr>Troves := (Troves s1)(tl_borrower event \<mapsto> trove3)\<rparr>;
          updateProtocolStatsForTrove trove3 previousStatus previousDebt previousCollateral
            False (tl_blockTimestamp event) (tl_blockNumber event) s2
        })
   }"



section \<open>The price feed handler: market conditions\<close>

text \<open>
  A market condition is created with its open, high and low price and its count; the
  close price and the time of the last update are written on every call, right after the
  record is created or loaded, and a new record holds zeros there until then.
\<close>

definition updateMarketConditions :: "BigDecimal \<Rightarrow> BigInt \<Rightarrow> Store \<Rightarrow> Store option" where
  "updateMarketConditions currentPrice timestamp s = do {
     let dayId = tdiv timestamp 86400;
     let marketCondition =
       (case MarketConditions s dayId of
          None \<Rightarrow>
            \<lparr>mc_date = dayId, mc_timestamp = timestamp,
             mc_openPrice = currentPrice, mc_highPrice = currentPrice,
             mc_lowPrice = currentPrice, mc_priceUpdatesCount = 1,
             mc_volatilityScore = ZERO_BD, mc_trendDirection = ''NEUTRAL'',
             mc_closePrice = 0, mc_lastUpdateTimestamp = 0\<rparr>
        | Some m \<Rightarrow>
            let m1 = (if currentPrice > mc_highPrice m then m\<lparr>mc_highPrice := currentPrice\<rparr>
                      else m);
                m2 = (if currentPrice < mc_lowPrice m1 then m1\<lparr>mc_lowPrice := currentPrice\<rparr>
                      else m1)
            in m2\<lparr>mc_priceUpdatesCount := mc_priceUpdatesCount m2 + 1\<rparr>);
     let marketCondition1 =
       marketCondition\<lparr>mc_closePrice := currentPrice, mc_lastUpdateTimestamp := timestamp\<rparr>;
     marketCondition2 \<leftarrow>
       (if mc_openPrice marketCondition1 > ZERO_BD then do {
          let dailyRange =
            bd_minus (mc_highPrice marketCondition1) (mc_lowPrice marketCondition1);
          rangeShare \<leftarrow> bd_div dailyRange (mc_openPrice marketCondition1);
          let m3 = marketCondition1\<lparr>mc_volatilityScore := bd_times rangeShare 100\<rparr>;
          let priceChange = bd_minus (mc_closePrice m3) (mc_openPrice m3);
          changeShare \<leftarrow> bd_div priceChange (mc_openPrice m3);
          let changePercent = bd_times changeShare 100;
          Some (if changePercent > 2 then m3\<lparr>mc_trendDirection := ''BULLISH''\<rparr>
                else if changePercent < - 2 then m3\<lparr>mc_trendDirection := ''BEARISH''\<rparr>
                else m3\<lparr>mc_trendDirection := ''NEUTRAL''\<rparr>)
        } else Some marketCondition1);
     Some (s\<lparr>MarketConditions := (MarketConditions s)(dayId \<mapsto> marketCondition2)\<rparr>)
   }"

text \<open>
  Price updates arrive one at a time, in order; each is a price and the timestamp of its
  block. \<open>priceUpdates\<close> runs the handler's market-condition step over such a sequence
  and stops at the first step that does not complete.
\<close>

fun priceUpdates :: "(BigDecimal \<times> BigInt) list \<Rightarrow> Store \<Rightarrow> Store option" where
  "priceUpdates [] s = Some s"
| "priceUpdates ((price, timestamp) # rest) s =
     (case updateMarketConditions price timestamp s of
        None \<Rightarrow> None
      | Some s1 \<Rightarrow> priceUpdates rest s1)"

text \<open>The prices, in order, of the updates of a sequence that fall on day \<open>d\<close>.\<close>

definition pricesOfDay :: "int \<Rightarrow> (BigDecimal \<times> BigInt) list \<Rightarrow> BigDecimal list" where
  "pricesOfDay d us = map fst (filter (\<lambda>u. tdiv (snd u) 86400 = d) us)"

text \<open>
  What a day's record must hold after the prices \<open>ps\<close> of that day, in order: no
  record when there was no price; otherwise the first price as the open price, the
  largest as the high and the smallest as the low price, and the number of prices as the
  count.
\<close>

definition dayInv :: "BigDecimal list \<Rightarrow> MarketCondition option \<Rightarrow> bool" where
  "dayInv ps r =
     (case r of
        None \<Rightarrow> ps = []
      | Some m \<Rightarrow>
          ps \<noteq> [] \<and> mc_openPrice m = hd ps \<and> mc_highPrice m = Max (set ps)
          \<and> mc_lowPrice m = Min (set ps) \<and> mc_lowPrice m \<le> mc_highPrice m
          \<and> mc_priceUpdatesCount m = int (length ps))"

text \<open>
  The balance the store holds for an address: the \<open>usdfcBalance\<close> of its account, and
  zero while the account does not exist (an account is created with balance zero).
\<close>

definition balanceOf :: "Store \<Rightarrow> Bytes \<Rightarrow> BigInt" where
  "balanceOf s a = (case Accounts s a of None \<Rightarrow> 0 | Some account \<Rightarrow> usdfcBalance account)"

text \<open>Two account addresses and a transaction hash for the concrete runs below.\<close>

definition addrA :: Bytes where "addrA = replicate 20 0xAA"
definition addrB :: Bytes where "addrB = replicate 20 0xBB"
definition hash1 :: Bytes where "hash1 = replicate 32 0x11"

definition transferAB :: TransferEvent where
  "transferAB =
     \<lparr>te_hash = hash1, te_logIndex = 3, te_blockNumber = 10, te_blockTimestamp = 50000,
      te_input = [], te_from = addrA, te_to = addrB, te_value = 400\<rparr>"

section \<open>utils/helpers.ts: user classification\<close>

definition safeDivision :: "BigInt \<Rightarrow> BigInt \<Rightarrow> BigDecimal option" where
  "safeDivision numerator denominator =
     (if denominator = ZERO_BI then Some ZERO_BD
      else bd_div (toBigDecimal numerator) (toBigDecimal denominator))"

definition classifyUserType ::
  "BigInt \<Rightarrow> BigInt \<Rightarrow> BigInt \<Rightarrow> BigInt \<Rightarrow> BigInt \<Rightarrow> BigInt \<Rightarrow> string option" where
  "classifyUserType totalActivity protocolActivity dexActivity bridgeActivity defiActivity
     totalVolume =
     (if totalActivity = ZERO_BI then Some ''RETAIL_USER''
      else do {
        dexRatio \<leftarrow> safeDivision dexActivity totalActivity;
        protocolRatio \<leftarrow> safeDivision protocolActivity totalActivity;
        bridgeRatio \<leftarrow> safeDivision bridgeActivity totalActivity;
        defiRatio \<leftarrow> safeDivision defiActivity totalActivity;
        let institutionalThreshold = 1000000000000000000000000;
        Some (if totalVolume > institutionalThreshold then ''INSTITUTIONAL_USER''
              else if dexRatio > 6 / 10 then ''DEX_TRADER''
              else if bridgeRatio > 4 / 10 then ''BRIDGE_USER''
              else if defiRatio > 5 / 10 then ''DEFI_USER''
              else if protocolRatio > 8 / 10 then ''PROTOCOL_NATIVE''
              else if totalActivity > 100 then ''POWER_USER''
              else ''RETAIL_USER'')
      })"

section \<open>The classification rule in the words of the specification\<close>

text \<open>
  A prioritised rule list: each rule is a condition with the label it gives, the first
  rule whose condition holds decides, and the default applies when none holds.
\<close>

definition firstMatch :: "(bool \<times> string) list \<Rightarrow> string \<Rightarrow> string" where
  "firstMatch rules dflt = (case find fst rules of Some rule \<Rightarrow> snd rule | None \<Rightarrow> dflt)"

text \<open>
  The share of an account's transactions that are DEX (protocol) activity; zero for an
  account without transactions, as the handler has it.
\<close>

definition dexRatioOf :: "Account \<Rightarrow> BigDecimal" where
  "dexRatioOf account =
     (if totalTransactionCount account > 0
      then bd_quot (toBigDecimal (dexActivityCount account))
             (toBigDecimal (totalTransactionCount account))
      else 0)"

definition protocolRatioOf :: "Account \<Rightarrow> BigDecimal" where
  "protocolRatioOf account =
     (if totalTransactionCount account > 0
      then bd_quot (toBigDecimal (protocolOperationCount account))
             (toBigDecimal (totalTransactionCount account))
      else 0)"

text \<open>
  The rule as the specification words it: DEX ratio, then bridge activity, then DeFi
  activity, then protocol ratio, then total activity, and RETAIL_USER by default.
\<close>

definition claimed_userType :: "Account \<Rightarrow> string" where
  "claimed_userType account =
     firstMatch
       [(dexRatioOf account > 6 / 10, ''DEX_TRADER''),
        (bridgeActivityCount account > 5, ''BRIDGE_USER''),
        (defiIntegrationCount account > 10, ''DEFI_USER''),
        (protocolRatioOf account > 8 / 10, ''PROTOCOL_NATIVE''),
        (totalTransactionCount account > 100, ''POWER_USER'')]
       ''RETAIL_USER''"

text \<open>
  Two account states for concrete runs: forty transactions of which thirty-three are
  protocol operations, six bridge operations and one a peer-to-peer transfer; and a
  former DEX trader with two transactions, one of them on a DEX.
\<close>

definition accountProtocolAndBridge :: Account where
  "accountProtocolAndBridge =
     (fst (ensureAccount addrA emptyStore))
       \<lparr>totalTransactionCount := 40, protocolOperationCount := 33,
        bridgeActivityCount := 6, p2pTransferCount := 1\<rparr>"

definition accountFormerDexTrader :: Account where
  "accountFormerDexTrader =
     (fst (ensureAccount addrB emptyStore))
       \<lparr>totalTransactionCount := 2, dexActivityCount := 1, p2pTransferCount := 1,
        userType := ''DEX_TRADER''\<rparr>"

section \<open>The performance score in the words of the specification\<close>

text \<open>
  The weighted average with the risk penalty and the age bonus as the specification
  gives them: \<open>max(0, 100 - riskEvents*10)\<close> and \<open>min(100, daysOpen/30*100)\<close>. The
  health and the stability sub-score, which the specification does not spell out, are
  the source's.
\<close>

definition claimed_performanceScore :: "Trove \<Rightarrow> BigDecimal" where
  "claimed_performanceScore trove =
     (let riskPenalty = max 0 (100 - toBigDecimal (tv_riskEvents trove) * 10);
          ageBonusClaimed = min 100 (toBigDecimal (tv_daysOpen trove) / 30 * 100)
      in (4 / 10 * tv_healthScore trove + 3 / 10 * clamp (stabilityScore trove) ZERO_BD 100
          + 2 / 10 * riskPenalty + 1 / 10 * ageBonusClaimed)
         / (4 / 10 + 3 / 10 + 2 / 10 + 1 / 10))"

text \<open>
  The event that opens a trove for \<open>addrA\<close> with collateral 2000 and debt 1000, and two
  states of such a trove that never fell below a ratio of 200 and saw no risk event: open
  for thirty days, and open for three thousand days.
\<close>

definition openTroveA :: TroveUpdatedEvent where
  "openTroveA =
     \<lparr>tu_hash = hash1, tu_logIndex = 7, tu_blockNumber = 20, tu_blockTimestamp = 100000,
      tu_gasUsed = None, tu_gasPrice = None, tu_borrower = addrA,
      tu_debt = 1000, tu_coll = 2000, tu_stake = 2000\<rparr>"

definition troveThirtyDays :: Trove where
  "troveThirtyDays =
     (newTrove openTroveA)
       \<lparr>tv_lowestCollateralRatio := 200, tv_healthScore := 100, tv_daysOpen := 30\<rparr>"

definition troveThreeThousandDays :: Trove where
  "troveThreeThousandDays =
     (newTrove openTroveA)
       \<lparr>tv_lowestCollateralRatio := 200, tv_healthScore := 100, tv_daysOpen := 3000\<rparr>"

section \<open>Trove updates: the status transition\<close>

text \<open>The status the handler gives a trove from the event's debt.\<close>

definition statusAfterUpdate :: "BigInt \<Rightarrow> string" where
  "statusAfterUpdate debt = (if debt = 0 then ''CLOSED_BY_OWNER'' else ''ACTIVE'')"

text \<open>
  The change of the active trove count in \<open>updateProtocolStatsForTrove\<close>, from the
  previous and the new status.
\<close>

definition activeDelta :: "string \<Rightarrow> string \<Rightarrow> BigInt" where
  "activeDelta previousStatus newStatus =
     (if newStatus = ''ACTIVE'' \<and> previousStatus \<noteq> ''ACTIVE'' then 1
      else if previousStatus = ''ACTIVE'' \<and> newStatus \<noteq> ''ACTIVE'' then - 1
      else 0)"

text \<open>
  For the concrete runs: the global record after \<open>initializeProtocolStats\<close> of
  protocol/trove-manager.ts and a store that holds it and nothing else; a liquidation
  event; an active trove of \<open>addrA\<close> with collateral 1500 and debt 500, a store that
  holds this trove and no global record, one that holds both, and an event that updates
  the trove to collateral 2000 and debt 1000.
\<close>

definition initializeProtocolStats :: ProtocolStats where
  "initializeProtocolStats =
     \<lparr>ps_totalSupply = ZERO_BI, ps_totalDebt = ZERO_BI, ps_totalCollateral = ZERO_BI,
      ps_activeTroveCount = ZERO_BI, ps_totalTroveCount = ZERO_BI, ps_holderCount = ZERO_BI,
      ps_lifetimeVolume = ZERO_BI, ps_lifetimeTransferCount = ZERO_BI,
      ps_lifetimeMintCount = ZERO_BI, ps_lifetimeBurnCount = ZERO_BI,
      ps_lifetimeLiquidationCount = ZERO_BI, ps_lifetimeRedemptionCount = ZERO_BI,
      ps_totalBorrowingFees = ZERO_BI, ps_totalRedemptionFees = ZERO_BI,
      ps_lastUpdateBlock = ZERO_BI, ps_lastUpdateTimestamp = ZERO_BI\<rparr>"

definition storeWithStats :: Store where
  "storeWithStats =
     emptyStore\<lparr>ProtocolStatsStore := [GLOBAL_STATS_ID \<mapsto> initializeProtocolStats]\<rparr>"

definition troveA :: Trove where
  "troveA =
     (newTrove openTroveA)
       \<lparr>tv_collateral := Some 1500, tv_debt := Some 500, tv_status := Some ''ACTIVE''\<rparr>"


definition storeWithStatsAndTroveA :: Store where
  "storeWithStatsAndTroveA = storeWithStats\<lparr>Troves := [addrA \<mapsto> troveA]\<rparr>"

definition updateTroveA :: TroveUpdatedEvent where
  "updateTroveA =
     \<lparr>tu_hash = hash1, tu_logIndex = 9, tu_blockNumber = 30, tu_blockTimestamp = 200000,
      tu_gasUsed = None, tu_gasPrice = None, tu_borrower = addrA,
      tu_debt = 1000, tu_coll = 2000, tu_stake = 2000\<rparr>"


section \<open>Properties: decimal arithmetic of the host\<close>

lemma countDecimalDigits_pos: "0 < countDecimalDigits n"
  by (subst countDecimalDigits.simps) simp

lemma countDecimalDigits_bounds:
  "0 < n \<Longrightarrow> 10 ^ (countDecimalDigits n - 1) \<le> n \<and> n < 10 ^ countDecimalDigits n"
proof (induction n rule: countDecimalDigits.induct)
  case (1 n)
  show ?case
  proof (cases "n < 10")
    case True
    then have "countDecimalDigits n = 1" by (subst countDecimalDigits.simps) simp
    with True "1.prems" show ?thesis by simp
  next
    case False
    then have d: "countDecimalDigits n = Suc (countDecimalDigits (n div 10))"
      by (subst countDecimalDigits.simps) simp
    from False have "0 < n div 10" by simp
    from "1.IH" [OF False this]
    have lo: "10 ^ (countDecimalDigits (n div 10) - 1) \<le> n div 10"
      and hi: "n div 10 < 10 ^ countDecimalDigits (n div 10)" by simp_all
    obtain k where k: "countDecimalDigits (n div 10) = Suc k"
      using countDecimalDigits_pos [of "n div 10"] by (cases "countDecimalDigits (n div 10)") auto
    from lo k have "10 * 10 ^ k \<le> 10 * (n div 10)" by simp
    also have "\<dots> \<le> n" by simp
    finally have a: "10 ^ (countDecimalDigits n - 1) \<le> n" by (simp add: d k)
    from hi have "n < 10 * 10 ^ countDecimalDigits (n div 10)" by simp
    then have b: "n < 10 ^ countDecimalDigits n" by (simp add: d)
    from a b show ?thesis ..
  qed
qed

lemma decimalExponent_bounds:
  assumes "0 < x"
  shows "10 powi decimalExponent x \<le> x" and "x < 10 powi (decimalExponent x + 1)"
proof -
  have "10 powi decimalExponent x \<le> x \<and> x < 10 powi (decimalExponent x + 1)"
  proof (cases "1 \<le> x")
    case True
    define n where "n = nat \<lfloor>x\<rfloor>"
    from True have n0: "0 < n" by (simp add: n_def)
    have "0 \<le> \<lfloor>x\<rfloor>" using True by simp
    then have "(of_nat n :: rat) = of_int \<lfloor>x\<rfloor>" by (simp add: n_def)
    then have nx: "of_nat n \<le> x" "x < of_nat n + 1"
      using floor_correct [of x] by simp_all
    obtain k where k: "countDecimalDigits n = Suc k"
      using countDecimalDigits_pos [of n] by (cases "countDecimalDigits n") auto
    from countDecimalDigits_bounds [OF n0] k have b: "10 ^ k \<le> n" "n < 10 ^ Suc k" by simp_all
    have e: "decimalExponent x = int k"
      using True by (simp add: decimalExponent_def n_def [symmetric] k)
    from b(1) have "(10::rat) ^ k \<le> of_nat n"
      by (metis of_nat_le_iff of_nat_numeral of_nat_power)
    with nx(1) have lo: "(10::rat) ^ k \<le> x" by linarith
    from b(2) have "n + 1 \<le> 10 ^ Suc k" by simp
    then have "(of_nat (n + 1) :: rat) \<le> of_nat (10 ^ Suc k)" by (simp only: of_nat_le_iff)
    then have "(of_nat n :: rat) + 1 \<le> 10 ^ Suc k" by simp
    with nx(2) have hi: "x < 10 ^ Suc k" by linarith
    have "int k + 1 = int (Suc k)" by simp
    with lo hi show ?thesis unfolding e by (simp only: power_int_of_nat)
  next
    case False
    with assms have x1: "x < 1" by simp
    define y where "y = 1 / x"
    from assms x1 have y1: "1 < y" by (simp add: y_def)
    define m where "m = nat (\<lceil>y\<rceil> - 1)"
    from y1 have c2: "2 \<le> \<lceil>y\<rceil>" by (simp add: le_ceiling_iff) 
    then have m0: "0 < m" by (simp add: m_def)
    have my: "of_nat m < y" "y \<le> of_nat m + 1"
    proof -
      have "of_int (\<lceil>y\<rceil> - 1) < y" using ceiling_correct [of y] by simp
      moreover have "(of_nat m :: rat) = of_int (\<lceil>y\<rceil> - 1)" using c2 by (simp add: m_def)
      ultimately show "of_nat m < y" by simp
      have "y \<le> of_int \<lceil>y\<rceil>" by (rule le_of_int_ceiling)
      moreover have "(of_nat m :: rat) + 1 = of_int \<lceil>y\<rceil>" using c2 by (simp add: m_def)
      ultimately show "y \<le> of_nat m + 1" by simp
    qed
    obtain k where k: "countDecimalDigits m = Suc k"
      using countDecimalDigits_pos [of m] by (cases "countDecimalDigits m") auto
    from countDecimalDigits_bounds [OF m0] k have b: "10 ^ k \<le> m" "m < 10 ^ Suc k" by simp_all
    have e: "decimalExponent x = - int (Suc k)"
      using False by (simp add: decimalExponent_def y_def [symmetric] m_def [symmetric] k)
    from b(1) have "(10::rat) ^ k \<le> of_nat m"
      by (metis of_nat_le_iff of_nat_numeral of_nat_power)
    with my(1) have ylo: "(10::rat) ^ k < y" by linarith
    from b(2) have "m + 1 \<le> 10 ^ Suc k" by simp
    then have "(of_nat (m + 1) :: rat) \<le> of_nat (10 ^ Suc k)" by (simp only: of_nat_le_iff)
    then have "(of_nat m :: rat) + 1 \<le> 10 ^ Suc k" by simp
    with my(2) have yhi: "y \<le> 10 ^ Suc k" by linarith
    have xy: "x = 1 / y" by (simp add: y_def)
    have p: "(0::rat) < 10 ^ k" "(0::rat) < 10 ^ Suc k" by simp_all
    from yhi y1 have lo: "1 / 10 ^ Suc k \<le> x"
      unfolding xy using p by (simp add: field_simps)
    from ylo y1 have hi: "x < 1 / 10 ^ k"
      unfolding xy using p by (simp add: field_simps)
    have e1: "(10::rat) powi (- int (Suc k)) = 1 / 10 ^ Suc k"
      by (simp only: power_int_minus power_int_of_nat inverse_eq_divide)
    have e2: "(10::rat) powi (- int (Suc k) + 1) = 1 / 10 ^ k"
    proof -
      have "- int (Suc k) + 1 = - int k" by simp
      then show ?thesis by (simp only: power_int_minus power_int_of_nat inverse_eq_divide)
    qed
    from lo hi show ?thesis unfolding e e1 e2 by simp
  qed
  then show "10 powi decimalExponent x \<le> x" and "x < 10 powi (decimalExponent x + 1)"
    by simp_all
qed

lemma decimalExponent_unique:
  assumes "0 < x" and lo: "10 powi k \<le> x" and hi: "x < 10 powi (k + 1)"
  shows "decimalExponent x = k"
proof (rule ccontr)
  assume ne: "decimalExponent x \<noteq> k"
  note b = decimalExponent_bounds [OF assms(1)]
  show False
  proof (cases "decimalExponent x < k")
    case True
    then have "decimalExponent x + 1 \<le> k" by simp
    then have "(10::rat) powi (decimalExponent x + 1) \<le> 10 powi k"
      by (intro power_int_increasing) simp_all
    with b(2) lo show False by linarith
  next
    case False
    with ne have "k + 1 \<le> decimalExponent x" by simp
    then have "(10::rat) powi (k + 1) \<le> 10 powi decimalExponent x"
      by (intro power_int_increasing) simp_all
    with b(1) hi show False by linarith
  qed
qed


lemma scaled_bounds:
  assumes "0 < x" and "0 < n"
  shows "10 ^ (n - 1) \<le> x * 10 powi (int n - 1 - decimalExponent x)"
    and "x * 10 powi (int n - 1 - decimalExponent x) < 10 ^ n"
proof -
  define k where "k = decimalExponent x"
  note b = decimalExponent_bounds [OF assms(1), folded k_def]
  have p: "(0::rat) < 10 powi (int n - 1 - k)" by simp
  have e1: "(10::rat) powi k * 10 powi (int n - 1 - k) = 10 ^ (n - 1)"
  proof -
    have "(10::rat) powi k * 10 powi (int n - 1 - k) = 10 powi (k + (int n - 1 - k))"
      by (rule power_int_add [symmetric]) simp
    also have "k + (int n - 1 - k) = int (n - 1)" using assms(2) by simp
    finally show ?thesis by (simp only: power_int_of_nat)
  qed
  have e2: "(10::rat) powi (k + 1) * 10 powi (int n - 1 - k) = 10 ^ n"
  proof -
    have "(10::rat) powi (k + 1) * 10 powi (int n - 1 - k) = 10 powi (k + 1 + (int n - 1 - k))"
      by (rule power_int_add [symmetric]) simp
    also have "k + 1 + (int n - 1 - k) = int n" by simp
    finally show ?thesis by (simp only: power_int_of_nat)
  qed
  from b(1) p have "10 powi k * 10 powi (int n - 1 - k) \<le> x * 10 powi (int n - 1 - k)"
    by (simp only: mult_le_cancel_right_pos)
  then have "10 ^ (n - 1) \<le> x * 10 powi (int n - 1 - k)" unfolding e1 .
  then show "10 ^ (n - 1) \<le> x * 10 powi (int n - 1 - decimalExponent x)"
    unfolding k_def .
  from b(2) p have "x * 10 powi (int n - 1 - k) < 10 powi (k + 1) * 10 powi (int n - 1 - k)"
    by (simp only: mult_less_cancel_right_pos)
  then have "x * 10 powi (int n - 1 - k) < 10 ^ n" unfolding e2 .
  then show "x * 10 powi (int n - 1 - decimalExponent x) < 10 ^ n"
    unfolding k_def .
qed

lemma scale_unique:
  assumes "0 < x" and "0 < n"
    and lo: "10 ^ (n - 1) \<le> x * 10 powi s" and hi: "x * 10 powi s < 10 ^ n"
  shows "int n - 1 - decimalExponent x = s"
proof -
  have p: "(0::rat) < 10 powi s" by simp
  have e1: "(10::rat) powi (int n - 1 - s) * 10 powi s = 10 ^ (n - 1)"
  proof -
    have "(10::rat) powi (int n - 1 - s) * 10 powi s = 10 powi (int n - 1 - s + s)"
      by (rule power_int_add [symmetric]) simp
    also have "int n - 1 - s + s = int (n - 1)" using assms(2) by simp
    finally show ?thesis by (simp only: power_int_of_nat)
  qed
  have e2: "(10::rat) powi (int n - 1 - s + 1) * 10 powi s = 10 ^ n"
  proof -
    have "(10::rat) powi (int n - 1 - s + 1) * 10 powi s = 10 powi (int n - 1 - s + 1 + s)"
      by (rule power_int_add [symmetric]) simp
    also have "int n - 1 - s + 1 + s = int n" by simp
    finally show ?thesis by (simp only: power_int_of_nat)
  qed
  from lo have "10 powi (int n - 1 - s) * 10 powi s \<le> x * 10 powi s" unfolding e1 .
  with p have a: "10 powi (int n - 1 - s) \<le> x" by (simp only: mult_le_cancel_right_pos)
  from hi have "x * 10 powi s < 10 powi (int n - 1 - s + 1) * 10 powi s" unfolding e2 .
  with p have b: "x < 10 powi (int n - 1 - s + 1)" by (simp only: mult_less_cancel_right_pos)
  from decimalExponent_unique [OF assms(1) a b] show ?thesis by simp
qed

lemma roundHalfUp_at:
  assumes "0 < x" and "0 < n"
    and "10 ^ (n - 1) \<le> x * 10 powi s" and "x * 10 powi s < 10 ^ n"
  shows "roundHalfUp n x = of_int \<lfloor>x * 10 powi s + 1 / 2\<rfloor> / 10 powi s"
  unfolding roundHalfUp_def Let_def scale_unique [OF assms] ..

lemma truncateDigits_at:
  assumes "0 < x" and "0 < n"
    and "10 ^ (n - 1) \<le> x * 10 powi s" and "x * 10 powi s < 10 ^ n"
  shows "truncateDigits n x = of_int \<lfloor>x * 10 powi s\<rfloor> / 10 powi s"
  unfolding truncateDigits_def Let_def scale_unique [OF assms] ..

lemma roundHalfUp_pos:
  assumes "0 < x" and "0 < n"
  shows "0 < roundHalfUp n x"
proof -
  define s where "s = int n - 1 - decimalExponent x"
  have "(1::rat) \<le> 10 ^ (n - 1)" by simp
  with scaled_bounds(1) [OF assms] have "1 \<le> x * 10 powi s" unfolding s_def by linarith
  then have "1 \<le> \<lfloor>x * 10 powi s + 1 / 2\<rfloor>" by (simp add: le_floor_iff)
  then have "(0::rat) < of_int \<lfloor>x * 10 powi s + 1 / 2\<rfloor>" by simp
  then show ?thesis unfolding roundHalfUp_def Let_def s_def [symmetric]
    by (simp only: zero_less_divide_iff) simp
qed

lemma truncateDigits_pos:
  assumes "0 < x" and "0 < n"
  shows "0 < truncateDigits n x"
proof -
  define s where "s = int n - 1 - decimalExponent x"
  have "(1::rat) \<le> 10 ^ (n - 1)" by simp
  with scaled_bounds(1) [OF assms] have "1 \<le> x * 10 powi s" unfolding s_def by linarith
  then have "1 \<le> \<lfloor>x * 10 powi s\<rfloor>" by (simp add: le_floor_iff)
  then have "(0::rat) < of_int \<lfloor>x * 10 powi s\<rfloor>" by simp
  then show ?thesis unfolding truncateDigits_def Let_def s_def [symmetric]
    by (simp only: zero_less_divide_iff) simp
qed

lemma normalized_zero [simp]: "normalized 0 = 0"
  by (simp add: normalized_def)

lemma normalized_pos: "0 < x \<Longrightarrow> 0 < normalized x"
  by (simp add: normalized_def roundHalfUp_pos)

lemma normalized_neg: "x < 0 \<Longrightarrow> normalized x < 0"
  using truncateDigits_pos [of "- x" 34] by (simp add: normalized_def)

lemma normalized_eq_zero_iff: "normalized x = 0 \<longleftrightarrow> x = 0"
  using normalized_pos [of x] normalized_neg [of x]
  by (cases x "0::rat" rule: linorder_cases) auto

lemma normalized_nonneg: "0 \<le> x \<Longrightarrow> 0 \<le> normalized x"
  using normalized_pos [of x] by (cases "x = 0") auto

lemma normalized_pos_iff: "0 < normalized x \<longleftrightarrow> 0 < x"
  using normalized_pos [of x] normalized_neg [of x]
  by (cases x "0::rat" rule: linorder_cases) auto


lemma scaled_integer:
  assumes "0 < x" and "0 < n" and x: "x = of_int m * 10 powi e" and m: "m < 10 ^ n"
  shows "\<exists>z. x * 10 powi (int n - 1 - decimalExponent x) = of_int z"
proof -
  define s where "s = int n - 1 - decimalExponent x"
  note b = scaled_bounds [OF assms(1,2), folded s_def]
  have xs: "x * 10 powi s = of_int m * 10 powi (e + s)"
    unfolding x by (simp add: power_int_add)
  have m0: "0 < m"
  proof -
    have "(0::rat) < 10 powi e" by simp
    with assms(1) x have "(0::rat) < of_int m" by (simp add: zero_less_mult_iff)
    then show ?thesis by simp
  qed
  have es: "0 \<le> e + s"
  proof (rule ccontr)
    assume "\<not> 0 \<le> e + s"
    then have "e + s \<le> - 1" by simp
    then have "(10::rat) powi (e + s) \<le> 10 powi (- 1)"
      by (intro power_int_increasing) simp_all
    then have "(10::rat) powi (e + s) \<le> 1 / 10" by simp
    moreover have "(0::rat) < of_int m" using m0 by simp
    ultimately have "(of_int m :: rat) * 10 powi (e + s) \<le> of_int m * (1 / 10)"
      by (simp only: mult_le_cancel_left_pos)
    moreover have "(of_int m :: rat) < 10 ^ n"
    proof -
      have "(of_int m :: rat) < of_int (10 ^ n)" using m by (simp only: of_int_less_iff)
      then show ?thesis by simp
    qed
    moreover have "(10::rat) ^ n = 10 * 10 ^ (n - 1)"
      using assms(2) by (cases n) simp_all
    ultimately have "x * 10 powi s < 10 ^ (n - 1)" unfolding xs by simp
    with b(1) show False by simp
  qed
  then obtain j where j: "e + s = int j" using nonneg_int_cases by blast
  have "x * 10 powi s = of_int (m * 10 ^ j)"
    unfolding xs j by simp
  then show ?thesis unfolding s_def by blast
qed

lemma roundHalfUp_exact:
  assumes "0 < x" and "0 < n" and "x = of_int m * 10 powi e" and "m < 10 ^ n"
  shows "roundHalfUp n x = x"
proof -
  obtain z where z: "x * 10 powi (int n - 1 - decimalExponent x) = of_int z"
    using scaled_integer [OF assms] by blast
  have "\<lfloor>(of_int z :: rat) + 1 / 2\<rfloor> = z" by linarith
  then have "roundHalfUp n x = x * 10 powi (int n - 1 - decimalExponent x)
       / 10 powi (int n - 1 - decimalExponent x)"
    unfolding roundHalfUp_def Let_def z by simp
  then show ?thesis by simp
qed

lemma truncateDigits_exact:
  assumes "0 < x" and "0 < n" and "x = of_int m * 10 powi e" and "m < 10 ^ n"
  shows "truncateDigits n x = x"
proof -
  obtain z where z: "x * 10 powi (int n - 1 - decimalExponent x) = of_int z"
    using scaled_integer [OF assms] by blast
  have "truncateDigits n x = x * 10 powi (int n - 1 - decimalExponent x)
       / 10 powi (int n - 1 - decimalExponent x)"
    unfolding truncateDigits_def Let_def z by simp
  then show ?thesis by simp
qed

lemma normalized_exact:
  assumes x: "x = of_int m * 10 powi e" and m: "\<bar>m\<bar> < 10 ^ 34"
  shows "normalized x = x"
proof (cases x "0::rat" rule: linorder_cases)
  case equal
  then show ?thesis by simp
next
  case greater
  from m have "m < 10 ^ 34" by simp
  from roundHalfUp_exact [OF greater _ x this] greater show ?thesis
    by (simp add: normalized_def)
next
  case less
  from m have m': "- m < 10 ^ 34" by simp
  have x': "- x = of_int (- m) * 10 powi e" using x by simp
  from less have "0 < - x" by simp
  from truncateDigits_exact [OF this _ x' m'] less show ?thesis
    by (simp add: normalized_def)
qed

lemma normalized_of_int: "\<bar>m\<bar> < 10 ^ 34 \<Longrightarrow> normalized (of_int m) = of_int m"
  using normalized_exact [of "of_int m" m 0] by simp

lemma rounded100_exact:
  assumes q: "q = of_int m * 10 powi e" and m: "\<bar>m\<bar> < 10 ^ 100"
  shows "rounded100 q = q"
proof (cases q "0::rat" rule: linorder_cases)
  case equal
  then show ?thesis by (simp add: rounded100_def)
next
  case greater
  from m have "m < 10 ^ 100" by simp
  from roundHalfUp_exact [OF greater _ q this] greater show ?thesis
    by (simp add: rounded100_def)
next
  case less
  from m have m': "- m < 10 ^ 100" by simp
  have q': "- q = of_int (- m) * 10 powi e" using q by simp
  from less have "0 < - q" by simp
  from roundHalfUp_exact [OF this _ q' m'] less show ?thesis
    by (simp add: rounded100_def)
qed

lemma roundHalfUp_eval:
  assumes "0 < x" and "0 < n"
    and "10 ^ (n - 1) \<le> x * 10 powi s" and "x * 10 powi s < 10 ^ n"
    and "of_int z \<le> x * 10 powi s + 1 / 2" and "x * 10 powi s + 1 / 2 < of_int z + 1"
  shows "roundHalfUp n x = of_int z / 10 powi s"
proof -
  have "\<lfloor>x * 10 powi s + 1 / 2\<rfloor> = z"
    using assms(5,6) by (rule floor_unique)
  then show ?thesis unfolding roundHalfUp_at [OF assms(1-4)] by simp
qed

lemma rounded100_zero [simp]: "rounded100 0 = 0"
  by (simp add: rounded100_def)

lemma rounded100_pos: "0 < q \<Longrightarrow> 0 < rounded100 q"
  by (simp add: rounded100_def roundHalfUp_pos)

lemma rounded100_neg: "q < 0 \<Longrightarrow> rounded100 q < 0"
  using roundHalfUp_pos [of "- q" 100] by (simp add: rounded100_def)

lemma rounded100_nonneg: "0 \<le> q \<Longrightarrow> 0 \<le> rounded100 q"
  using rounded100_pos [of q] by (cases "q = 0") auto

text \<open>Short decimals written with numerals are left as they are.\<close>

lemma scale_fraction:
  fixes M D K :: int
  assumes "D * K = 10 ^ 20"
  shows "(of_int M / of_int D :: rat) = of_int (M * K) * 10 powi (- 20)"
proof -
  from assms have k0: "K \<noteq> 0" by (cases "K = 0") simp_all
  have dk: "(of_int D :: rat) * of_int K = 10 ^ 20"
  proof -
    have "(of_int (D * K) :: rat) = of_int (10 ^ 20)" by (simp only: assms)
    then show ?thesis by simp
  qed
  have "(of_int M / of_int D :: rat) = (of_int M * of_int K) / (of_int D * of_int K)"
    using k0 by simp
  also have "\<dots> = of_int (M * K) / 10 ^ 20" unfolding dk by simp
  also have "\<dots> = of_int (M * K) * 10 powi (- 20)"
    by (simp only: power_int_minus power_int_numeral divide_inverse)
  finally show ?thesis .
qed

lemma exact_fraction:
  fixes M D :: int
  assumes "0 < M" and "0 < D" and "10 ^ 20 mod D = 0" and "M * (10 ^ 20 div D) < 10 ^ n"
  shows "\<exists>m e. (of_int M / of_int D :: rat) = of_int m * 10 powi e \<and> \<bar>m\<bar> < 10 ^ n"
proof -
  define K where "K = 10 ^ 20 div D"
  have dk: "D * K = 10 ^ 20"
    unfolding K_def using assms(3) by (metis mult_div_mod_eq add.right_neutral)
  have "0 \<le> K" unfolding K_def using assms(2) by (simp add: pos_imp_zdiv_nonneg_iff)
  with assms(1) have "0 \<le> M * K" by simp
  with assms(4) have "\<bar>M * K\<bar> < 10 ^ n" unfolding K_def by simp
  with scale_fraction [OF dk, of M] show ?thesis by blast
qed

lemma normalized_fraction_int:
  fixes M D :: int
  assumes "0 < M" and "0 < D" and "10 ^ 20 mod D = 0" and "M * (10 ^ 20 div D) < 10 ^ 34"
  shows "normalized (of_int M / of_int D) = of_int M / of_int D"
  using exact_fraction [OF assms] normalized_exact by blast

lemma rounded100_fraction_int:
  fixes M D :: int
  assumes "0 < M" and "0 < D" and "10 ^ 20 mod D = 0" and "M * (10 ^ 20 div D) < 10 ^ 100"
  shows "rounded100 (of_int M / of_int D) = of_int M / of_int D"
  using exact_fraction [OF assms] rounded100_exact by blast

lemma normalized_numeral [simp]:
  "(numeral m :: int) < 10 ^ 34 \<Longrightarrow> normalized (numeral m) = numeral m"
  using normalized_exact [of "numeral m" "numeral m" 0] by simp

lemma normalized_one [simp]: "normalized 1 = 1"
  using normalized_exact [of 1 1 0] by simp

lemma normalized_fraction [simp]:
  assumes "10 ^ 20 mod numeral d = (0::int)"
    and "numeral m * (10 ^ 20 div numeral d) < (10 ^ 34 :: int)"
  shows "normalized (numeral m / numeral d) = numeral m / numeral d"
  by (rule normalized_fraction_int [OF zero_less_numeral zero_less_numeral assms,
        unfolded of_int_numeral])

lemma rounded100_numeral [simp]:
  "(numeral m :: int) < 10 ^ 100 \<Longrightarrow> rounded100 (numeral m) = numeral m"
  using rounded100_exact [of "numeral m" "numeral m" 0] by simp

lemma rounded100_one [simp]: "rounded100 1 = 1"
  using rounded100_exact [of 1 1 0] by simp

lemma rounded100_fraction [simp]:
  assumes "10 ^ 20 mod numeral d = (0::int)"
    and "numeral m * (10 ^ 20 div numeral d) < (10 ^ 100 :: int)"
  shows "rounded100 (numeral m / numeral d) = numeral m / numeral d"
  by (rule rounded100_fraction_int [OF zero_less_numeral zero_less_numeral assms,
        unfolded of_int_numeral])

lemma normalized_unit_fraction [simp]:
  assumes "10 ^ 20 mod numeral d = (0::int)"
    and "10 ^ 20 div numeral d < (10 ^ 34 :: int)"
  shows "normalized (1 / numeral d) = 1 / numeral d"
  using normalized_fraction_int [of 1 "numeral d"] assms by simp

lemma rounded100_unit_fraction [simp]:
  assumes "10 ^ 20 mod numeral d = (0::int)"
    and "10 ^ 20 div numeral d < (10 ^ 100 :: int)"
  shows "rounded100 (1 / numeral d) = 1 / numeral d"
  using rounded100_fraction_int [of 1 "numeral d"] assms by simp

lemmas bd_ops = bd_plus_def bd_minus_def bd_times_def bd_quot_def

lemma bd_quot_nonneg: "0 \<le> a \<Longrightarrow> 0 \<le> b \<Longrightarrow> 0 \<le> bd_quot a b"
  unfolding bd_quot_def
  by (intro normalized_nonneg rounded100_nonneg divide_nonneg_nonneg)

lemma bd_times_nonneg: "0 \<le> a \<Longrightarrow> 0 \<le> b \<Longrightarrow> 0 \<le> bd_times a b"
  unfolding bd_times_def
  by (intro normalized_nonneg mult_nonneg_nonneg)

lemma bd_plus_nonneg: "0 \<le> a \<Longrightarrow> 0 \<le> b \<Longrightarrow> 0 \<le> bd_plus a b"
  unfolding bd_plus_def
  by (intro normalized_nonneg add_nonneg_nonneg)

lemma bd_plus_pos: "0 \<le> a \<Longrightarrow> 0 < b \<Longrightarrow> 0 < bd_plus a b"
  unfolding bd_plus_def
  by (intro normalized_pos add_nonneg_pos normalized_nonneg)

lemma bd_div_Some: "b \<noteq> 0 \<Longrightarrow> bd_div a b = Some (bd_quot a b)"
  by (simp add: bd_div_def)

lemma toBigDecimal_eq_zero_iff: "toBigDecimal i = 0 \<longleftrightarrow> i = 0"
  by (simp add: toBigDecimal_def)

section \<open>Properties: collateral ratio\<close>

lemma calculateCollateralRatio_value:
  "calculateCollateralRatio c d =
     Some (if d = 0 then 99999
           else bd_times (bd_quot (toBigDecimal c) (toBigDecimal d)) 100)"
  by (simp add: calculateCollateralRatio_def bd_div_def toBigDecimal_def ZERO_BI_def)

lemma bd_quot_of_int_exact:
  assumes "\<bar>c\<bar> < 10 ^ 34" and "\<bar>d\<bar> < 10 ^ 34"
    and q: "(of_int c / of_int d :: rat) = of_int m * 10 powi e" and m: "\<bar>m\<bar> < 10 ^ 34"
  shows "bd_quot (of_int c) (of_int d) = of_int c / of_int d"
proof -
  from m have "\<bar>m\<bar> < 10 ^ 100"
    by (rule less_trans) simp
  note r = rounded100_exact [OF q this] and n = normalized_exact [OF q m]
  have nc: "normalized (of_int c) = of_int c" using assms(1) by (rule normalized_of_int)
  have nd: "normalized (of_int d) = of_int d" using assms(2) by (rule normalized_of_int)
  show ?thesis unfolding bd_quot_def nc nd r n ..
qed

lemma bd_quot_1000_3: "bd_quot 1000 3 = 3333333333333333333333333333333333 / 10 ^ 31"
proof -
  let ?q = "3333333333333333333333333333333333333333333333333333333333333333333333333333333333333333333333333333 / 10 ^ 97 :: rat"
  have c: "normalized 1000 = 1000" "normalized 3 = 3" by simp_all
  have "roundHalfUp 100 (1000 / 3) = of_int 3333333333333333333333333333333333333333333333333333333333333333333333333333333333333333333333333333 / 10 powi 97"
    by (rule roundHalfUp_eval) simp_all
  then have q: "rounded100 (1000 / 3) = ?q"
    by (simp add: rounded100_def)
  have "roundHalfUp 34 ?q = of_int 3333333333333333333333333333333333 / 10 powi 31"
    by (rule roundHalfUp_eval) simp_all
  then have n: "normalized ?q = 3333333333333333333333333333333333 / 10 ^ 31"
    by (simp add: normalized_def)
  show ?thesis unfolding bd_quot_def c q n ..
qed

lemma bd_times_1000_3:
  "bd_times (3333333333333333333333333333333333 / 10 ^ 31) 100
     = 3333333333333333333333333333333333 / 10 ^ 29"
proof -
  let ?r = "3333333333333333333333333333333333 / 10 ^ 31 :: rat"
  let ?t = "3333333333333333333333333333333333 / 10 ^ 29 :: rat"
  have c: "normalized 100 = 100" by simp
  have e: "normalized ?r = ?r"
    by (rule normalized_exact [where m = 3333333333333333333333333333333333 and e = "- 31"])
       simp_all
  have f: "normalized ?t = ?t"
    by (rule normalized_exact [where m = 3333333333333333333333333333333333 and e = "- 29"])
       simp_all
  have t: "?r * 100 = ?t" by simp
  show ?thesis unfolding bd_times_def e c t f ..
qed

text \<open>
  Claim C3. For every collateral and debt, \<open>calculateCollateralRatio\<close> returns a value
  (it never aborts on a zero divisor): the sentinel 99999 when the debt is zero, with no
  division, and otherwise collateral / debt * 100 as the host computes it, that is the
  host's quotient of the two numbers times 100, each kept to 34 significant digits.
  When collateral and debt have at most 34 digits and their quotient is a decimal of at
  most 32 significant digits, nothing is rounded and the result is collateral / debt *
  100 itself.
\<close>

theorem calculateCollateralRatio_total:
  "calculateCollateralRatio c d =
     Some (if d = 0 then 99999
           else bd_times (bd_quot (toBigDecimal c) (toBigDecimal d)) 100)
   \<and> (d \<noteq> 0 \<and> \<bar>c\<bar> < 10 ^ 34 \<and> \<bar>d\<bar> < 10 ^ 34
        \<and> (of_int c / of_int d :: rat) = of_int m * 10 powi e \<and> \<bar>m\<bar> < 10 ^ 32
      \<longrightarrow> calculateCollateralRatio c d = Some (of_int c / of_int d * 100))"
proof (intro conjI impI)
  show "calculateCollateralRatio c d =
     Some (if d = 0 then 99999
           else bd_times (bd_quot (toBigDecimal c) (toBigDecimal d)) 100)"
    by (simp add: calculateCollateralRatio_def bd_div_def toBigDecimal_def ZERO_BI_def)
next
  assume h: "d \<noteq> 0 \<and> \<bar>c\<bar> < 10 ^ 34 \<and> \<bar>d\<bar> < 10 ^ 34
        \<and> (of_int c / of_int d :: rat) = of_int m * 10 powi e \<and> \<bar>m\<bar> < 10 ^ 32"
  then have q: "(of_int c / of_int d :: rat) = of_int m * 10 powi e"
    and m: "\<bar>m\<bar> < 10 ^ 32" by simp_all
  from m have m34: "\<bar>m\<bar> < 10 ^ 34" by (rule less_trans) simp
  from h have bq: "bd_quot (of_int c) (of_int d) = of_int c / of_int d"
    by (intro bd_quot_of_int_exact [OF _ _ q m34]) simp_all
  have q100: "(of_int c / of_int d :: rat) * 100 = of_int (m * 100) * 10 powi e"
    unfolding q by simp
  from m have m100: "\<bar>m * 100\<bar> < 10 ^ 34" by (simp add: abs_mult)
  have "bd_times (of_int c / of_int d) 100 = of_int c / of_int d * 100"
    unfolding bd_times_def normalized_exact [OF q m34]
    using normalized_exact [OF q100 m100] by simp
  with h bq show "calculateCollateralRatio c d = Some (of_int c / of_int d * 100)"
    by (simp add: calculateCollateralRatio_def bd_div_def toBigDecimal_def ZERO_BI_def)
qed

theorem calculateCollateralRatio_total_witness:
  "calculateCollateralRatio 1000 0 = Some 99999
   \<and> calculateCollateralRatio 2000 1000 = Some 200
   \<and> calculateCollateralRatio 1000 3 = Some (3333333333333333333333333333333333 / 10 ^ 29)"
proof -
  have a: "calculateCollateralRatio 1000 0 = Some 99999"
    using calculateCollateralRatio_total [of 1000 0] by simp
  have "(1000::int) \<noteq> 0 \<and> \<bar>2000::int\<bar> < 10 ^ 34 \<and> \<bar>1000::int\<bar> < 10 ^ 34
      \<and> (of_int 2000 / of_int 1000 :: rat) = of_int 2 * 10 powi 0 \<and> \<bar>2::int\<bar> < 10 ^ 32"
    by simp
  with calculateCollateralRatio_total [of 2000 1000 2 0]
  have "calculateCollateralRatio 2000 1000 = Some (of_int 2000 / of_int 1000 * 100)"
    by blast
  then have b: "calculateCollateralRatio 2000 1000 = Some 200" by simp
  have c: "calculateCollateralRatio 1000 3 = Some (3333333333333333333333333333333333 / 10 ^ 29)"
    using calculateCollateralRatio_total [of 1000 3]
    by (simp only: toBigDecimal_def of_int_numeral bd_quot_1000_3 bd_times_1000_3) simp
  from a b c show ?thesis by simp
qed

section \<open>Properties: amount tiers\<close>

text \<open>
  Claim C6. The tiers are cut by strict less-than at the ordered thresholds, so each
  tier is a half-open interval that contains its lower threshold: an amount equal to a
  threshold is in the tier above it. In particular 100 * 10^18 is MEDIUM, and every
  amount from the MICRO threshold up to, and not including, 100 * 10^18 is SMALL.
\<close>

theorem getTransferAmountTier_boundaries:
  "DUST_THRESHOLD < MICRO_THRESHOLD \<and> MICRO_THRESHOLD < SMALL_THRESHOLD
   \<and> SMALL_THRESHOLD < MEDIUM_THRESHOLD \<and> MEDIUM_THRESHOLD < LARGE_THRESHOLD
   \<and> LARGE_THRESHOLD < WHALE_THRESHOLD
   \<and> (getTransferAmountTier a = ''DUST'' \<longleftrightarrow> a < DUST_THRESHOLD)
   \<and> (getTransferAmountTier a = ''MICRO'' \<longleftrightarrow> DUST_THRESHOLD \<le> a \<and> a < MICRO_THRESHOLD)
   \<and> (getTransferAmountTier a = ''SMALL'' \<longleftrightarrow> MICRO_THRESHOLD \<le> a \<and> a < SMALL_THRESHOLD)
   \<and> (getTransferAmountTier a = ''MEDIUM'' \<longleftrightarrow> SMALL_THRESHOLD \<le> a \<and> a < MEDIUM_THRESHOLD)
   \<and> (getTransferAmountTier a = ''LARGE'' \<longleftrightarrow> MEDIUM_THRESHOLD \<le> a \<and> a < LARGE_THRESHOLD)
   \<and> (getTransferAmountTier a = ''WHALE'' \<longleftrightarrow> LARGE_THRESHOLD \<le> a \<and> a < WHALE_THRESHOLD)
   \<and> (getTransferAmountTier a = ''INSTITUTIONAL'' \<longleftrightarrow> WHALE_THRESHOLD \<le> a)
   \<and> getTransferAmountTier DUST_THRESHOLD = ''MICRO''
   \<and> getTransferAmountTier MICRO_THRESHOLD = ''SMALL''
   \<and> getTransferAmountTier SMALL_THRESHOLD = ''MEDIUM''
   \<and> getTransferAmountTier MEDIUM_THRESHOLD = ''LARGE''
   \<and> getTransferAmountTier LARGE_THRESHOLD = ''WHALE''
   \<and> getTransferAmountTier WHALE_THRESHOLD = ''INSTITUTIONAL''
   \<and> SMALL_THRESHOLD = 100 * 10 ^ 18
   \<and> getTransferAmountTier (100 * 10 ^ 18) = ''MEDIUM''
   \<and> (MICRO_THRESHOLD \<le> a \<and> a < 100 * 10 ^ 18 \<longrightarrow> getTransferAmountTier a = ''SMALL'')"
  by (simp add: getTransferAmountTier_def tier_thresholds)

theorem getTransferAmountTier_boundaries_witness:
  "MICRO_THRESHOLD \<le> 99999 * 10 ^ 15 \<and> (99999 * 10 ^ 15 :: int) < 100 * 10 ^ 18
   \<and> getTransferAmountTier (99999 * 10 ^ 15) = ''SMALL''"
  using getTransferAmountTier_boundaries [of "99999 * 10 ^ 15"]
  by (simp add: MICRO_THRESHOLD_def)

section \<open>Properties: market conditions\<close>

lemma updateMarketConditions_step:
  "\<exists>m'. updateMarketConditions p t s
         = Some (s\<lparr>MarketConditions := (MarketConditions s)(tdiv t 86400 \<mapsto> m')\<rparr>)
     \<and> (case MarketConditions s (tdiv t 86400) of
          None \<Rightarrow> mc_openPrice m' = p \<and> mc_highPrice m' = p \<and> mc_lowPrice m' = p
                  \<and> mc_priceUpdatesCount m' = 1
        | Some m \<Rightarrow> mc_openPrice m' = mc_openPrice m
                  \<and> mc_highPrice m' = max (mc_highPrice m) p
                  \<and> mc_lowPrice m' = min (mc_lowPrice m) p
                  \<and> mc_priceUpdatesCount m' = mc_priceUpdatesCount m + 1)"
  by (cases "MarketConditions s (tdiv t 86400)")
     (auto simp: updateMarketConditions_def bd_div_def Let_def ZERO_BD_def max_def min_def)

lemma priceUpdates_append:
  "priceUpdates (us @ vs) s =
     (case priceUpdates us s of None \<Rightarrow> None | Some s1 \<Rightarrow> priceUpdates vs s1)"
  by (induction us arbitrary: s) (auto split: option.splits)

text \<open>
  Claim C10. Starting from a store with no record for day \<open>d\<close>, every sequence of price
  updates is processed to the end, and afterwards the record of day \<open>d\<close> holds the first
  price of that day as its open price, the maximum as its high and the minimum as its low
  price (so low \<open>\<le>\<close> high), and the number of that day's updates as its count; it does
  not exist when the day had no update. Since this holds for every sequence, it holds
  after each update of the day.
\<close>

theorem marketCondition_daily_record:
  assumes "MarketConditions s0 d = None"
  shows "\<exists>s. priceUpdates us s0 = Some s \<and> dayInv (pricesOfDay d us) (MarketConditions s d)"
proof (induction us rule: rev_induct)
  case Nil
  then show ?case using assms by (simp add: dayInv_def pricesOfDay_def)
next
  case (snoc u us)
  then obtain s where run: "priceUpdates us s0 = Some s"
    and inv: "dayInv (pricesOfDay d us) (MarketConditions s d)" by blast
  obtain p t where u: "u = (p, t)" by (cases u)
  from updateMarketConditions_step [of p t s] obtain m' where
    step: "updateMarketConditions p t s
         = Some (s\<lparr>MarketConditions := (MarketConditions s)(tdiv t 86400 \<mapsto> m')\<rparr>)"
    and eff: "(case MarketConditions s (tdiv t 86400) of
          None \<Rightarrow> mc_openPrice m' = p \<and> mc_highPrice m' = p \<and> mc_lowPrice m' = p
                  \<and> mc_priceUpdatesCount m' = 1
        | Some m \<Rightarrow> mc_openPrice m' = mc_openPrice m
                  \<and> mc_highPrice m' = max (mc_highPrice m) p
                  \<and> mc_lowPrice m' = min (mc_lowPrice m) p
                  \<and> mc_priceUpdatesCount m' = mc_priceUpdatesCount m + 1)" by blast
  let ?s' = "s\<lparr>MarketConditions := (MarketConditions s)(tdiv t 86400 \<mapsto> m')\<rparr>"
  have run': "priceUpdates (us @ [u]) s0 = Some ?s'"
    using run step by (simp add: priceUpdates_append u)
  show ?case
  proof (cases "tdiv t 86400 = d")
    case False
    then have "pricesOfDay d (us @ [u]) = pricesOfDay d us" by (simp add: pricesOfDay_def u)
    with inv False run' show ?thesis by simp
  next
    case True
    then have ps: "pricesOfDay d (us @ [u]) = pricesOfDay d us @ [p]"
      by (simp add: pricesOfDay_def u)
    show ?thesis
    proof (cases "MarketConditions s d")
      case None
      with inv have "pricesOfDay d us = []" by (simp add: dayInv_def)
      with eff None True ps run' show ?thesis by (simp add: dayInv_def)
    next
      case (Some m)
      with inv have ne: "pricesOfDay d us \<noteq> []" and o: "mc_openPrice m = hd (pricesOfDay d us)"
        and h: "mc_highPrice m = Max (set (pricesOfDay d us))"
        and l: "mc_lowPrice m = Min (set (pricesOfDay d us))"
        and lh: "mc_lowPrice m \<le> mc_highPrice m"
        and c: "mc_priceUpdatesCount m = int (length (pricesOfDay d us))"
        by (simp_all add: dayInv_def)
      have "Max (set (pricesOfDay d us @ [p])) = max (Max (set (pricesOfDay d us))) p"
        using ne by (simp add: Max_insert max.commute)
      moreover have "Min (set (pricesOfDay d us @ [p])) = min (Min (set (pricesOfDay d us))) p"
        using ne by (simp add: Min_insert min.commute)
      moreover have "min (mc_lowPrice m) p \<le> max (mc_highPrice m) p"
        using lh by (simp add: min_def max_def)
      ultimately show ?thesis
        using eff Some True ps run' ne o h l c by (simp add: dayInv_def)
    qed
  qed
qed

theorem marketCondition_daily_record_witness:
  "MarketConditions emptyStore 0 = None
   \<and> map_option (\<lambda>s. map_option (\<lambda>m. (mc_openPrice m, mc_highPrice m, mc_lowPrice m,
                                          mc_priceUpdatesCount m)) (MarketConditions s 0))
        (priceUpdates [(10, 100), (12, 200), (7, 90000), (9, 300)] emptyStore)
     = Some (Some (10, 12, 9, 3))"
proof -
  have h: "MarketConditions emptyStore 0 = None" by (simp add: emptyStore_def)
  have ps: "pricesOfDay 0 [(10, 100), (12, 200), (7, 90000), (9, 300)] = [10, 12, 9]"
    by (simp add: pricesOfDay_def tdiv_def)
  from marketCondition_daily_record [OF h, of "[(10, 100), (12, 200), (7, 90000), (9, 300)]"]
  obtain s where "priceUpdates [(10, 100), (12, 200), (7, 90000), (9, 300)] emptyStore = Some s"
    and "dayInv [10, 12, 9] (MarketConditions s 0)" unfolding ps by blast
  then show ?thesis using h by (auto simp: dayInv_def split: option.splits)
qed

section \<open>Properties: balances\<close>

lemma ensureAccount_token_balanceOf:
  "balanceOf (snd (ensureAccount_token x s)) a = balanceOf s a"
  by (simp add: ensureAccount_token_def balanceOf_def Let_def split: option.splits)

lemma ensureAccount_token_loaded:
  "Accounts (snd (ensureAccount_token x s)) x = Some (fst (ensureAccount_token x s))"
  by (simp add: ensureAccount_token_def Let_def split: option.splits)

lemma ensureAccount_token_balance:
  "usdfcBalance (fst (ensureAccount_token x s)) = balanceOf s x"
  by (simp add: ensureAccount_token_def balanceOf_def Let_def split: option.splits)

lemma ensureAccount_token_frame:
  "\<exists>m. snd (ensureAccount_token x s) = s\<lparr>Accounts := m\<rparr>"
  by (cases "Accounts s x") (auto simp: ensureAccount_token_def Let_def intro: exI [of _ "Accounts s"])

lemma balanceOf_save:
  "balanceOf (s\<lparr>Accounts := (Accounts s)(x \<mapsto> acc)\<rparr>) a
     = (if a = x then usdfcBalance acc else balanceOf s a)"
  by (simp add: balanceOf_def)

lemma updateAccountBalances_balanceOf:
  assumes "from \<noteq> zeroAddress" "to \<noteq> zeroAddress"
  shows "balanceOf (updateAccountBalances from to v s) a
     = balanceOf s a - (if a = from then v else 0) + (if a = to then v else 0)"
  using assms
  by (simp add: updateAccountBalances_def Let_def split_beta balanceOf_save
      ensureAccount_token_balance ensureAccount_token_balanceOf)

lemma sum_conserved:
  assumes "finite A" "from \<in> A" "to \<in> A"
    and "\<And>a. g a = f a - (if a = from then v else 0) + (if a = to then (v::int) else 0)"
  shows "sum g A = sum f A"
proof -
  have "sum g A = (\<Sum>a\<in>A. f a - (if a = from then v else 0) + (if a = to then v else 0))"
    using assms(4) by simp
  also have "\<dots> = sum f A - (\<Sum>a\<in>A. if a = from then v else 0) + (\<Sum>a\<in>A. if a = to then v else 0)"
    by (simp add: sum.distrib sum_subtractf)
  also have "\<dots> = sum f A" using assms(1-3) by (simp add: sum.delta')
  finally show ?thesis .
qed

lemma createTransaction_balanceOf:
  assumes "createTransaction e s = Some (tx, s1)"
  shows "balanceOf s1 a = balanceOf s a"
proof -
  obtain li where li: "toI32 (te_logIndex e) = Some li"
    using assms by (auto simp: createTransaction_def split: Option.bind_splits)
  show ?thesis
  proof (cases "Transactions s (concatI32 (te_hash e) li)")
    case (Some t)
    with assms li show ?thesis by (simp add: createTransaction_def)
  next
    case None
    obtain m1 where m1: "snd (ensureAccount_token (te_from e) s) = s\<lparr>Accounts := m1\<rparr>"
      using ensureAccount_token_frame by blast
    have "balanceOf (snd (ensureAccount_token (te_to e) (snd (ensureAccount_token (te_from e) s)))) a
      = balanceOf s a" by (simp add: ensureAccount_token_balanceOf)
    moreover have "\<And>s t k. balanceOf (s\<lparr>Transactions := k\<rparr>) a = balanceOf s a"
      by (simp add: balanceOf_def)
    ultimately show ?thesis using assms li None
      by (auto simp: createTransaction_def Let_def split_beta)
  qed
qed

lemma handleTransfer_balanceOf:
  assumes "handleTransfer e s = Some s'" "te_from e \<noteq> zeroAddress" "te_to e \<noteq> zeroAddress"
  shows "balanceOf s' a = balanceOf s a - (if a = te_from e then te_value e else 0)
            + (if a = te_to e then te_value e else 0)"
proof -
  from assms(1) obtain tx s1 li risk where
    ct: "createTransaction e s = Some (tx, s1)" and
    s': "s' = updateAccountBalances (te_from e) (te_to e) (te_value e)
       ((snd (ensureAccount_token (te_to e) (snd (ensureAccount_token (te_from e) s1))))
          \<lparr>Transfers := (Transfers (snd (ensureAccount_token (te_to e) (snd (ensureAccount_token (te_from e) s1)))))
             (concatI32 (te_hash e) li \<mapsto>
               \<lparr>tf_timestamp = te_blockTimestamp e,
        tf_from = acc_id (fst (ensureAccount_token (te_from e) s1)),
        tf_to = acc_id (fst (ensureAccount_token (te_to e) (snd (ensureAccount_token (te_from e) s1)))),
        tf_value = te_value e, tf_blockNumber = te_blockNumber e,
        tf_transactionHash = te_hash e,
        tf_universalTransaction = tx_id tx,
        tf_transferType =
          getConfigurableTransferType (te_from e) (te_to e) (te_value e),
        tf_ecosystemType = ''PROTOCOL_NATIVE'', tf_composabilityLinks = [],
        tf_riskScore = risk, tf_rawTransferData = te_input e,
        tf_relatedOperation = None\<rparr>)\<rparr>)"
    by (auto simp: handleTransfer_def Let_def split_beta split: Option.bind_splits)
  have "\<And>s k. balanceOf (s\<lparr>Transfers := k\<rparr>) a = balanceOf s a"
    by (simp add: balanceOf_def)
  then show ?thesis
    unfolding s' updateAccountBalances_balanceOf [OF assms(2,3)]
    by (simp add: ensureAccount_token_balanceOf createTransaction_balanceOf [OF ct])
qed

lemma handleTransfer_returns:
  assumes "toI32 (te_logIndex e) = Some li" "toI32 (te_blockTimestamp e) = Some t"
  shows "\<exists>s'. handleTransfer e s = Some s'"
  using assms
  by (simp add: handleTransfer_def createTransaction_def getComposableRiskScore_def
      isOffHoursTransaction_def Let_def split_beta)

text \<open>
  Claim C8. For a transfer whose sender and receiver are not the zero address, the balance
  update subtracts the value from the sender's balance and adds the same value to the
  receiver's, and touches no other balance; so the balance deltas of the event sum to
  zero, and the total over any finite set of accounts that holds both parties is
  unchanged. The handler \<open>handleTransfer\<close> leaves exactly these balances.
\<close>

theorem transfer_balance_conservation:
  assumes "from \<noteq> zeroAddress" and "to \<noteq> zeroAddress"
  shows "(\<forall>a. balanceOf (updateAccountBalances from to v s) a
              = balanceOf s a - (if a = from then v else 0) + (if a = to then v else 0))
    \<and> (\<Sum>a\<in>{from, to}. balanceOf (updateAccountBalances from to v s) a - balanceOf s a) = 0
    \<and> (finite A \<and> from \<in> A \<and> to \<in> A \<longrightarrow>
         (\<Sum>a\<in>A. balanceOf (updateAccountBalances from to v s) a) = (\<Sum>a\<in>A. balanceOf s a))
    \<and> (\<forall>e s'. te_from e = from \<and> te_to e = to \<and> te_value e = v
           \<and> handleTransfer e s = Some s' \<longrightarrow>
           (\<forall>a. balanceOf s' a = balanceOf (updateAccountBalances from to v s) a))"
proof (intro conjI allI impI)
  fix a
  show "balanceOf (updateAccountBalances from to v s) a
      = balanceOf s a - (if a = from then v else 0) + (if a = to then v else 0)"
    by (rule updateAccountBalances_balanceOf [OF assms])
next
  show "(\<Sum>a\<in>{from, to}. balanceOf (updateAccountBalances from to v s) a - balanceOf s a) = 0"
    unfolding updateAccountBalances_balanceOf [OF assms] by (cases "from = to") simp_all
next
  assume "finite A \<and> from \<in> A \<and> to \<in> A"
  then show "(\<Sum>a\<in>A. balanceOf (updateAccountBalances from to v s) a) = (\<Sum>a\<in>A. balanceOf s a)"
    by (intro sum_conserved [of A "from" to _ _ v])
       (simp_all add: updateAccountBalances_balanceOf [OF assms])
next
  fix e s' a
  assume "te_from e = from \<and> te_to e = to \<and> te_value e = v \<and> handleTransfer e s = Some s'"
  then show "balanceOf s' a = balanceOf (updateAccountBalances from to v s) a"
    using handleTransfer_balanceOf [of e s s' a] assms
    by (simp add: updateAccountBalances_balanceOf [OF assms])
qed

theorem transfer_balance_conservation_witness:
  "addrA \<noteq> zeroAddress \<and> addrB \<noteq> zeroAddress
   \<and> map_option (\<lambda>s'. (balanceOf s' addrA, balanceOf s' addrB, balanceOf s' addrA + balanceOf s' addrB))
        (handleTransfer transferAB emptyStore) = Some (- 400, 400, 0)"
proof -
  have nz: "addrA \<noteq> zeroAddress" "addrB \<noteq> zeroAddress"
    by (simp_all add: addrA_def addrB_def zeroAddress_def)
  have ab: "addrA \<noteq> addrB" by (simp add: addrA_def addrB_def)
  obtain s' where run: "handleTransfer transferAB emptyStore = Some s'"
    using handleTransfer_returns [of transferAB 3 50000 emptyStore]
    by (auto simp: transferAB_def toI32_def wrapI32_def)
  have e: "te_from transferAB = addrA" "te_to transferAB = addrB" "te_value transferAB = 400"
    by (simp_all add: transferAB_def)
  have z: "balanceOf emptyStore addrA = 0" "balanceOf emptyStore addrB = 0"
    by (simp_all add: balanceOf_def emptyStore_def)
  from transfer_balance_conservation [OF nz, of 400 emptyStore "{}"] run e
  have "balanceOf s' addrA = - 400" "balanceOf s' addrB = 400"
    using ab z by auto
  then show ?thesis using nz run by simp
qed

section \<open>Properties: direction of stability-pool transfers\<close>

lemma hexDigit_inj:
  assumes "i < 16" "j < 16" "hexDigit i = hexDigit j"
  shows "i = j"
proof -
  have d: "distinct ''0123456789abcdef''" by simp
  have l: "length ''0123456789abcdef'' = 16" by simp
  from assms show ?thesis
    unfolding hexDigit_def using nth_eq_iff_index_eq [OF d, of i j] l by simp
qed

lemma lowerChar_hexDigit:
  assumes "n < 16"
  shows "lowerChar (hexDigit n) = hexDigit n"
proof -
  have "\<forall>c \<in> set ''0123456789abcdef''. lowerChar c = c"
    by (simp add: lowerChar_def)
  moreover have "hexDigit n \<in> set ''0123456789abcdef''"
    unfolding hexDigit_def using assms by (intro nth_mem) simp
  ultimately show ?thesis by blast
qed

lemma toLowerCase_toHexString: "toLowerCase (toHexString bs) = toHexString bs"
proof -
  have x: "lowerChar CHR ''0'' = CHR ''0''" "lowerChar CHR ''x'' = CHR ''x''"
    by (simp_all add: lowerChar_def)
  have "map lowerChar (concat (map (\<lambda>b. [hexDigit (unat b div 16), hexDigit (unat b mod 16)]) bs))
       = concat (map (\<lambda>b. [hexDigit (unat b div 16), hexDigit (unat b mod 16)]) bs)"
  proof (induction bs)
    case Nil
    show ?case by simp
  next
    case (Cons b bs)
    have "unat b < 256" using unsigned_less [of b] by simp
    then have "unat b div 16 < 16" "unat b mod 16 < 16" by simp_all
    then show ?case using Cons by (simp add: lowerChar_hexDigit)
  qed
  then show ?thesis by (simp add: toLowerCase_def toHexString_def x)
qed

lemma hexByte_inj:
  fixes a b :: "8 word"
  assumes "hexDigit (unat a div 16) = hexDigit (unat b div 16)"
    and "hexDigit (unat a mod 16) = hexDigit (unat b mod 16)"
  shows "a = b"
proof -
  have "unat a < 256" "unat b < 256" using unsigned_less [of a] unsigned_less [of b] by simp_all
  then have "unat a div 16 < 16" "unat b div 16 < 16" by simp_all
  with assms(1) have d: "unat a div 16 = unat b div 16" by (rule hexDigit_inj [rotated 2])
  have "unat a mod 16 < 16" "unat b mod 16 < 16" by simp_all
  with assms(2) have m: "unat a mod 16 = unat b mod 16" by (rule hexDigit_inj [rotated 2])
  have "unat a = unat b"
    using d m by (metis div_mult_mod_eq)
  then show ?thesis by (simp add: word_eq_iff_unsigned [where ?'a = nat])
qed

lemma toHexString_inj:
  assumes "toHexString a = toHexString b"
  shows "a = b"
  using assms
proof (induction a arbitrary: b)
  case Nil
  then show ?case by (cases b) (simp_all add: toHexString_def)
next
  case (Cons x xs)
  then obtain y ys where b: "b = y # ys" by (cases b) (auto simp: toHexString_def)
  with Cons.prems have "x = y" "toHexString xs = toHexString ys"
    by (auto simp: toHexString_def intro: hexByte_inj)
  with Cons.IH b show ?case by simp
qed

lemma key_TROVE_MANAGER:
  "toLowerCase ''0x5aB87c2398454125Dd424425e39c8909bBE16022'' = toHexString TROVE_MANAGER_BYTES"
  by (simp add: TROVE_MANAGER_BYTES_def toHexString_def hexDigit_def toLowerCase_def lowerChar_def)

lemma key_STABILITY_POOL:
  "toLowerCase ''0x791Ad78bBc58324089D3E0A8689E7D045B9592b5'' = toHexString STABILITY_POOL_BYTES"
  by (simp add: STABILITY_POOL_BYTES_def toHexString_def hexDigit_def toLowerCase_def lowerChar_def)

lemma key_STAKING:
  "toLowerCase ''0xc8707b3d426E7D7A0706C48dcd1A4b83bc220dB3'' = toHexString PROTOCOL_TOKEN_STAKING_BYTES"
  by (simp add: PROTOCOL_TOKEN_STAKING_BYTES_def toHexString_def hexDigit_def toLowerCase_def lowerChar_def)

lemma zeroAddress_list:
  "zeroAddress = [0, 0, 0, 0, 0, 0, 0, 0, 0, 0, 0, 0, 0, 0, 0, 0, 0, 0, 0, 0]"
  by (simp add: zeroAddress_def numeral_eq_Suc)

lemma protocol_bytes_distinct:
  "TROVE_MANAGER_BYTES \<noteq> STABILITY_POOL_BYTES"
  "TROVE_MANAGER_BYTES \<noteq> PROTOCOL_TOKEN_STAKING_BYTES"
  "STABILITY_POOL_BYTES \<noteq> PROTOCOL_TOKEN_STAKING_BYTES"
  "TROVE_MANAGER_BYTES \<noteq> zeroAddress"
  "STABILITY_POOL_BYTES \<noteq> zeroAddress"
  "PROTOCOL_TOKEN_STAKING_BYTES \<noteq> zeroAddress"
  by (simp_all add: TROVE_MANAGER_BYTES_def STABILITY_POOL_BYTES_def
      PROTOCOL_TOKEN_STAKING_BYTES_def zeroAddress_list)

lemma protocol_role:
  "getProtocolAddresses (toLowerCase (toHexString a)) =
     (if a = PROTOCOL_TOKEN_STAKING_BYTES then Some ''STAKING''
      else if a = STABILITY_POOL_BYTES then Some ''STABILITY_POOL''
      else if a = TROVE_MANAGER_BYTES then Some ''TROVE_MANAGER''
      else None)"
  unfolding getProtocolAddresses_def key_TROVE_MANAGER key_STABILITY_POOL key_STAKING
    toLowerCase_toHexString
  by (auto dest: toHexString_inj)


text \<open>
  Claim C7. Among the transfers that are neither a mint nor a burn and do not involve the
  trove manager, the type follows the direction: a transfer from the stability pool is a
  STABILITY_WITHDRAWAL, and a transfer to the stability pool, from any other sender, is a
  STABILITY_DEPOSIT, whatever the value. (The sender is tested first, so the one
  transfer that has no direction, from the pool to itself, counts as a withdrawal.)
\<close>

theorem stabilityPool_direction:
  "(to \<noteq> zeroAddress \<and> to \<noteq> TROVE_MANAGER_BYTES \<longrightarrow>
      getConfigurableTransferType STABILITY_POOL_BYTES to v = ''STABILITY_WITHDRAWAL'')
   \<and> (from \<noteq> zeroAddress \<and> from \<noteq> TROVE_MANAGER_BYTES \<and> from \<noteq> STABILITY_POOL_BYTES \<longrightarrow>
      getConfigurableTransferType from STABILITY_POOL_BYTES v = ''STABILITY_DEPOSIT'')"
  using protocol_bytes_distinct
  by (simp add: getConfigurableTransferType_def isProtocolAddress_def
      getProtocolOperationType_def protocol_role Let_def)

theorem stabilityPool_direction_witness:
  "addrA \<noteq> zeroAddress \<and> addrA \<noteq> TROVE_MANAGER_BYTES \<and> addrA \<noteq> STABILITY_POOL_BYTES
   \<and> getConfigurableTransferType STABILITY_POOL_BYTES addrA 400 = ''STABILITY_WITHDRAWAL''
   \<and> getConfigurableTransferType addrA STABILITY_POOL_BYTES 400 = ''STABILITY_DEPOSIT''"
proof -
  have a: "addrA = [0xAA, 0xAA, 0xAA, 0xAA, 0xAA, 0xAA, 0xAA, 0xAA, 0xAA, 0xAA,
                 0xAA, 0xAA, 0xAA, 0xAA, 0xAA, 0xAA, 0xAA, 0xAA, 0xAA, 0xAA]"
    by (simp add: addrA_def numeral_eq_Suc)
  have h: "addrA \<noteq> zeroAddress" "addrA \<noteq> TROVE_MANAGER_BYTES" "addrA \<noteq> STABILITY_POOL_BYTES"
    by (simp_all add: a zeroAddress_list TROVE_MANAGER_BYTES_def STABILITY_POOL_BYTES_def)
  with stabilityPool_direction [of addrA 400 addrA] show ?thesis by simp
qed

section \<open>Properties: user classification\<close>

lemma updateUserIntelligence_shape:
  "\<exists>cs inf. updateUserIntelligence account category ecosystem v
     = Some (account\<lparr>userType :=
          firstMatch
            [(dexRatioOf account > 6 / 10, ''DEX_TRADER''),
             (protocolRatioOf account > 8 / 10, ''PROTOCOL_NATIVE''),
             (totalTransactionCount account > 100, ''POWER_USER''),
             (bridgeActivityCount account > 5, ''BRIDGE_USER''),
             (defiIntegrationCount account > 10, ''DEFI_USER'')]
            (userType account),
         composabilityScore := cs, influenceScore := inf\<rparr>)"
proof -
  let ?u = "firstMatch
            [(dexRatioOf account > 6 / 10, ''DEX_TRADER''),
             (protocolRatioOf account > 8 / 10, ''PROTOCOL_NATIVE''),
             (totalTransactionCount account > 100, ''POWER_USER''),
             (bridgeActivityCount account > 5, ''BRIDGE_USER''),
             (defiIntegrationCount account > 10, ''DEFI_USER'')]
            (userType account)"
  have d: "(if totalTransactionCount account > 0
        then bd_div (toBigDecimal (dexActivityCount account))
               (toBigDecimal (totalTransactionCount account))
        else Some 0) = Some (dexRatioOf account)"
    by (simp add: dexRatioOf_def bd_div_def toBigDecimal_def)
  have p: "(if totalTransactionCount account > 0
        then bd_div (toBigDecimal (protocolOperationCount account))
               (toBigDecimal (totalTransactionCount account))
        else Some 0) = Some (protocolRatioOf account)"
    by (simp add: protocolRatioOf_def bd_div_def toBigDecimal_def)
  have u: "(if dexRatioOf account > 6 / 10 then account\<lparr>userType := ''DEX_TRADER''\<rparr>
        else if protocolRatioOf account > 8 / 10 then account\<lparr>userType := ''PROTOCOL_NATIVE''\<rparr>
        else if totalTransactionCount account > 100 then account\<lparr>userType := ''POWER_USER''\<rparr>
        else if bridgeActivityCount account > 5 then account\<lparr>userType := ''BRIDGE_USER''\<rparr>
        else if defiIntegrationCount account > 10 then account\<lparr>userType := ''DEFI_USER''\<rparr>
        else account) = account\<lparr>userType := ?u\<rparr>"
    by (simp add: firstMatch_def)
  have f: "\<And>a c i. (if influenceScore (a\<lparr>composabilityScore := c, influenceScore := i\<rparr>) > 100
               then a\<lparr>composabilityScore := c, influenceScore := i\<rparr>\<lparr>influenceScore := 100\<rparr>
               else a\<lparr>composabilityScore := c, influenceScore := i\<rparr>)
        = a\<lparr>composabilityScore := c, influenceScore := (if i > 100 then 100 else i)\<rparr>"
    by simp
  show ?thesis
    unfolding updateUserIntelligence_def d p Let_def bind.bind_lunit u f
    by blast
qed

lemma classifyUserType_rules:
  "classifyUserType totalActivity protocolActivity dexActivity bridgeActivity defiActivity
     totalVolume =
       Some (if totalActivity = 0 then ''RETAIL_USER''
             else firstMatch
               [(totalVolume > 1000000000000000000000000, ''INSTITUTIONAL_USER''),
                (bd_quot (toBigDecimal dexActivity) (toBigDecimal totalActivity) > 6 / 10,
                 ''DEX_TRADER''),
                (bd_quot (toBigDecimal bridgeActivity) (toBigDecimal totalActivity) > 4 / 10,
                 ''BRIDGE_USER''),
                (bd_quot (toBigDecimal defiActivity) (toBigDecimal totalActivity) > 5 / 10,
                 ''DEFI_USER''),
                (bd_quot (toBigDecimal protocolActivity) (toBigDecimal totalActivity) > 8 / 10,
                 ''PROTOCOL_NATIVE''),
                (totalActivity > 100, ''POWER_USER'')]
               ''RETAIL_USER'')"
proof (cases "totalActivity = 0")
  case True
  then show ?thesis by (simp add: classifyUserType_def ZERO_BI_def)
next
  case False
  then have s: "\<And>n. safeDivision n totalActivity
      = Some (bd_quot (toBigDecimal n) (toBigDecimal totalActivity))"
    by (simp add: safeDivision_def bd_div_def toBigDecimal_def ZERO_BI_def)
  show ?thesis
    using False unfolding classifyUserType_def s Let_def bind.bind_lunit
    by (simp add: ZERO_BI_def firstMatch_def)
qed

text \<open>
  Claim C5, as amended. \<open>updateUserIntelligence\<close>, which sets the \<open>userType\<close> of an
  account, always returns and applies its rules in this order, first match wins: DEX
  ratio > 0.6 gives DEX_TRADER; else protocol ratio > 0.8 gives PROTOCOL_NATIVE; else
  total activity > 100 gives POWER_USER; else bridge activity > 5 gives BRIDGE_USER; else
  DeFi activity > 10 gives DEFI_USER; else the \<open>userType\<close> stays what it was. The helper
  \<open>classifyUserType\<close> has the order of the claim after a volume test, with ratios in
  place of the counts: volume above 10^24 gives INSTITUTIONAL_USER, then DEX ratio > 0.6,
  bridge ratio > 0.4, DeFi ratio > 0.5, protocol ratio > 0.8, total activity > 100, and
  RETAIL_USER by default.
\<close>

theorem userType_priority:
  "(\<exists>account'. updateUserIntelligence account category ecosystem v = Some account'
      \<and> userType account' =
          firstMatch
            [(dexRatioOf account > 6 / 10, ''DEX_TRADER''),
             (protocolRatioOf account > 8 / 10, ''PROTOCOL_NATIVE''),
             (totalTransactionCount account > 100, ''POWER_USER''),
             (bridgeActivityCount account > 5, ''BRIDGE_USER''),
             (defiIntegrationCount account > 10, ''DEFI_USER'')]
            (userType account))
   \<and> classifyUserType totalActivity protocolActivity dexActivity bridgeActivity defiActivity
         totalVolume =
       Some (if totalActivity = 0 then ''RETAIL_USER''
             else firstMatch
               [(totalVolume > 1000000000000000000000000, ''INSTITUTIONAL_USER''),
                (bd_quot (toBigDecimal dexActivity) (toBigDecimal totalActivity) > 6 / 10,
                 ''DEX_TRADER''),
                (bd_quot (toBigDecimal bridgeActivity) (toBigDecimal totalActivity) > 4 / 10,
                 ''BRIDGE_USER''),
                (bd_quot (toBigDecimal defiActivity) (toBigDecimal totalActivity) > 5 / 10,
                 ''DEFI_USER''),
                (bd_quot (toBigDecimal protocolActivity) (toBigDecimal totalActivity) > 8 / 10,
                 ''PROTOCOL_NATIVE''),
                (totalActivity > 100, ''POWER_USER'')]
               ''RETAIL_USER'')"
proof -
  obtain cs inf where "updateUserIntelligence account category ecosystem v
     = Some (account\<lparr>userType :=
          firstMatch
            [(dexRatioOf account > 6 / 10, ''DEX_TRADER''),
             (protocolRatioOf account > 8 / 10, ''PROTOCOL_NATIVE''),
             (totalTransactionCount account > 100, ''POWER_USER''),
             (bridgeActivityCount account > 5, ''BRIDGE_USER''),
             (defiIntegrationCount account > 10, ''DEFI_USER'')]
            (userType account),
         composabilityScore := cs, influenceScore := inf\<rparr>)"
    using updateUserIntelligence_shape by blast
  then show ?thesis unfolding classifyUserType_rules by simp
qed

lemma accountProtocolAndBridge_fields:
  "totalTransactionCount accountProtocolAndBridge = 40"
  "protocolOperationCount accountProtocolAndBridge = 33"
  "dexActivityCount accountProtocolAndBridge = 0"
  "bridgeActivityCount accountProtocolAndBridge = 6"
  "defiIntegrationCount accountProtocolAndBridge = 0"
  "userType accountProtocolAndBridge = ''RETAIL_USER''"
  by (simp_all add: accountProtocolAndBridge_def ensureAccount_def emptyStore_def Let_def)

lemma accountFormerDexTrader_fields:
  "totalTransactionCount accountFormerDexTrader = 2"
  "protocolOperationCount accountFormerDexTrader = 0"
  "dexActivityCount accountFormerDexTrader = 1"
  "bridgeActivityCount accountFormerDexTrader = 0"
  "defiIntegrationCount accountFormerDexTrader = 0"
  "userType accountFormerDexTrader = ''DEX_TRADER''"
  by (simp_all add: accountFormerDexTrader_def ensureAccount_def emptyStore_def Let_def)

lemma updateUserIntelligence_userType:
  "map_option userType (updateUserIntelligence account category ecosystem v)
     = Some (firstMatch
            [(dexRatioOf account > 6 / 10, ''DEX_TRADER''),
             (protocolRatioOf account > 8 / 10, ''PROTOCOL_NATIVE''),
             (totalTransactionCount account > 100, ''POWER_USER''),
             (bridgeActivityCount account > 5, ''BRIDGE_USER''),
             (defiIntegrationCount account > 10, ''DEFI_USER'')]
            (userType account))"
proof -
  obtain cs inf where "updateUserIntelligence account category ecosystem v
     = Some (account\<lparr>userType :=
          firstMatch
            [(dexRatioOf account > 6 / 10, ''DEX_TRADER''),
             (protocolRatioOf account > 8 / 10, ''PROTOCOL_NATIVE''),
             (totalTransactionCount account > 100, ''POWER_USER''),
             (bridgeActivityCount account > 5, ''BRIDGE_USER''),
             (defiIntegrationCount account > 10, ''DEFI_USER'')]
            (userType account),
         composabilityScore := cs, influenceScore := inf\<rparr>)"
    using updateUserIntelligence_shape by blast
  then show ?thesis by simp
qed

text \<open>
  The order of the claim fails on an account with forty transactions, thirty-three of
  them protocol operations and six bridge operations: the handler gives PROTOCOL_NATIVE,
  the claimed order BRIDGE_USER. Its default fails on a former DEX trader whom no rule
  matches any more: the handler leaves DEX_TRADER, the claim says RETAIL_USER.
\<close>

theorem userType_order_counterexample:
  "map_option userType
     (updateUserIntelligence accountProtocolAndBridge ''TRANSFER'' ''P2P_ECOSYSTEM'' 400)
     = Some ''PROTOCOL_NATIVE''
   \<and> claimed_userType accountProtocolAndBridge = ''BRIDGE_USER''
   \<and> map_option userType
     (updateUserIntelligence accountFormerDexTrader ''TRANSFER'' ''P2P_ECOSYSTEM'' 400)
     = Some ''DEX_TRADER''
   \<and> claimed_userType accountFormerDexTrader = ''RETAIL_USER''"
  unfolding updateUserIntelligence_userType claimed_userType_def
  by (simp add: firstMatch_def dexRatioOf_def protocolRatioOf_def toBigDecimal_def
      bd_quot_def accountProtocolAndBridge_fields accountFormerDexTrader_fields)

section \<open>Properties: trove performance score\<close>

lemma calculateTrovePerformanceScore_value:
  "calculateTrovePerformanceScore trove =
     Some (bd_quot
             (bd_plus
               (bd_plus
                 (bd_plus (bd_plus 0 (bd_times (tv_healthScore trove) (4 / 10)))
                    (bd_times (clamp (stabilityScore trove) ZERO_BD 100) (3 / 10)))
                 (bd_times (riskScoreOf trove) (2 / 10)))
               (bd_times (ageBonus trove) (1 / 10)))
             1)"
proof -
  have w: "bd_plus (bd_plus (bd_plus (bd_plus 0 (2 / 5)) (3 / 10)) (1 / 5)) (1 / 10) = 1"
    by (simp add: bd_plus_def)
  show ?thesis
    by (simp add: calculateTrovePerformanceScore_def ZERO_BD_def w bd_div_def)
qed

lemma troveThreeThousandDays_fields:
  "tv_healthScore troveThreeThousandDays = 100"
  "tv_lowestCollateralRatio troveThreeThousandDays = 200"
  "tv_riskEvents troveThreeThousandDays = 0"
  "tv_daysOpen troveThreeThousandDays = 3000"
  by (simp_all add: troveThreeThousandDays_def newTrove_def ZERO_BI_def)

lemma troveThirtyDays_fields:
  "tv_healthScore troveThirtyDays = 100"
  "tv_lowestCollateralRatio troveThirtyDays = 200"
  "tv_riskEvents troveThirtyDays = 0"
  "tv_daysOpen troveThirtyDays = 30"
  by (simp_all add: troveThirtyDays_def newTrove_def ZERO_BI_def)

text \<open>
  Claim C4. The score is the weighted sum of the health score, the clamped stability
  score, the risk score and the age bonus with weights 0.4, 0.3, 0.2 and 0.1, divided by
  the total weight, and the risk score is \<open>max(0, 100 - riskEvents*10)\<close>. The age bonus
  of the source is \<open>clamp(daysOpen/30, 0, 100)\<close>, without the factor 100 of the claim: a
  trove open for thirty days, which never fell below a ratio of 200 and saw no risk
  event, has the age bonus 1 and the score 90.1, where the claim gives the bonus 100 and
  the score 100. The bonus of the source reaches 100, and the score with it, only after
  three thousand days.
\<close>

theorem performanceScore_thirty_days:
  "ageBonus troveThirtyDays = 1
   \<and> calculateTrovePerformanceScore troveThirtyDays = Some (901 / 10)
   \<and> claimed_performanceScore troveThirtyDays = 100
   \<and> ageBonus troveThreeThousandDays = 100
   \<and> calculateTrovePerformanceScore troveThreeThousandDays = Some 100"
proof -
  have a: "ageBonus troveThirtyDays = 1" "ageBonus troveThreeThousandDays = 100"
    by (simp_all add: ageBonus_def troveThirtyDays_fields troveThreeThousandDays_fields
        clamp_def ZERO_BD_def toBigDecimal_def bd_quot_def)
  have st: "clamp (stabilityScore troveThirtyDays) ZERO_BD 100 = 100"
    "clamp (stabilityScore troveThreeThousandDays) ZERO_BD 100 = 100"
    by (simp_all add: stabilityScore_def troveThirtyDays_fields troveThreeThousandDays_fields
        clamp_def ZERO_BD_def)
  have r: "riskScoreOf troveThirtyDays = 100" "riskScoreOf troveThreeThousandDays = 100"
    by (simp_all add: riskScoreOf_def troveThirtyDays_fields troveThreeThousandDays_fields
        clamp_def ZERO_BD_def toBigDecimal_def bd_times_def bd_minus_def)
  have p: "calculateTrovePerformanceScore troveThirtyDays = Some (901 / 10)"
    unfolding calculateTrovePerformanceScore_value a st r troveThirtyDays_fields
    by (simp add: bd_plus_def bd_times_def bd_quot_def)
  have p': "calculateTrovePerformanceScore troveThreeThousandDays = Some 100"
    unfolding calculateTrovePerformanceScore_value a st r troveThreeThousandDays_fields
    by (simp add: bd_plus_def bd_times_def bd_quot_def)
  have c: "claimed_performanceScore troveThirtyDays = 100"
    unfolding claimed_performanceScore_def Let_def st
    by (simp add: troveThirtyDays_fields toBigDecimal_def)
  from a p p' c show ?thesis by simp
qed

section \<open>Properties: accounts and ecosystem statistics\<close>

lemma updateUserIntelligence_returns:
  "\<exists>u cs inf. updateUserIntelligence account category ecosystem v
     = Some (account\<lparr>userType := u, composabilityScore := cs, influenceScore := inf\<rparr>)"
  using updateUserIntelligence_shape by blast

lemma ensureAccount_loaded:
  "Accounts (snd (ensureAccount x s)) x = Some (fst (ensureAccount x s))"
  by (simp add: ensureAccount_def Let_def split: option.splits)

lemma ensureAccount_other:
  "y \<noteq> x \<Longrightarrow> Accounts (snd (ensureAccount x s)) y = Accounts s y"
  by (simp add: ensureAccount_def Let_def split: option.splits)

lemma ensureAccount_frame:
  "\<exists>m. snd (ensureAccount x s) = s\<lparr>Accounts := m\<rparr>"
  by (cases "Accounts s x") (auto simp: ensureAccount_def Let_def intro: exI [of _ "Accounts s"])

lemma ensureAccount_existing:
  "Accounts s x = Some a \<Longrightarrow> ensureAccount x s = (a, s)"
  by (simp add: ensureAccount_def)

lemma updateAccountActivity_frame:
  "\<exists>m. updateAccountActivity from to v category ecosystem ts s = Some (s\<lparr>Accounts := m\<rparr>)"
proof -
  obtain fa s1 where e1: "ensureAccount from s = (fa, s1)" by (cases "ensureAccount from s")
  obtain m1 where m1: "s1 = s\<lparr>Accounts := m1\<rparr>"
    using ensureAccount_frame [of "from" s] e1 by auto
  let ?fa2 = "updateActivityCounters (creditSender fa v ts) category ecosystem v"
  obtain fa3 where f3: "updateUserIntelligence ?fa2 category ecosystem v = Some fa3"
    using updateUserIntelligence_returns [of ?fa2 category ecosystem v] by blast
  let ?s2 = "s1\<lparr>Accounts := (Accounts s1)(from \<mapsto> fa3)\<rparr>"
  obtain ta s3 where e2: "ensureAccount to ?s2 = (ta, s3)" by (cases "ensureAccount to ?s2")
  obtain m3 where m3: "s3 = ?s2\<lparr>Accounts := m3\<rparr>"
    using ensureAccount_frame [of to ?s2] e2 by auto
  let ?ta2 = "updateActivityCounters (creditReceiver ta v ts) category ecosystem v"
  obtain ta3 where t3: "updateUserIntelligence ?ta2 category ecosystem v = Some ta3"
    using updateUserIntelligence_returns [of ?ta2 category ecosystem v] by blast
  have "updateAccountActivity from to v category ecosystem ts s
      = Some (s3\<lparr>Accounts := (Accounts s3)(to \<mapsto> ta3)\<rparr>)"
    by (simp add: updateAccountActivity_def e1 e2 f3 t3)
  also have "s3\<lparr>Accounts := (Accounts s3)(to \<mapsto> ta3)\<rparr> = s\<lparr>Accounts := m3(to \<mapsto> ta3)\<rparr>"
    by (simp add: m1 m3)
  finally show ?thesis by blast
qed

lemma dailyAverageUpdate_returns:
  "\<exists>avg. dailyAverageUpdate stats = Some (stats\<lparr>ds_averageTransactionSize := avg\<rparr>)"
proof (cases "ds_totalEcosystemTransactionCount stats > 0")
  case True
  then have "dailyAverageUpdate stats
      = Some (stats\<lparr>ds_averageTransactionSize :=
          bd_quot (toBigDecimal (ds_totalEcosystemVolume stats))
            (toBigDecimal (ds_totalEcosystemTransactionCount stats))\<rparr>)"
    by (simp add: dailyAverageUpdate_def bd_div_def toBigDecimal_def)
  then show ?thesis by blast
next
  case False
  then have "dailyAverageUpdate stats
      = Some (stats\<lparr>ds_averageTransactionSize := ds_averageTransactionSize stats\<rparr>)"
    by (simp add: dailyAverageUpdate_def)
  then show ?thesis by blast
qed

lemma loadOrCreateDailyStats_returns:
  assumes "toI32 ts = Some t"
  shows "\<exists>st. loadOrCreateDailyStats day ts s = Some st"
  using assms
  by (cases "DailyEcosystemStatsStore s day")
     (simp_all add: loadOrCreateDailyStats_def getDayString_def getDayStartTimestamp_def)

lemma updateDailyEcosystemStats_frame:
  assumes "toI32 ts = Some t"
  shows "\<exists>m. updateDailyEcosystemStats category ecosystem v ts s
           = Some (s\<lparr>DailyEcosystemStatsStore := m\<rparr>)"
proof -
  have d: "getDayId ts = Some (tdiv t 86400)" using assms by (simp add: getDayId_def)
  obtain st where st: "loadOrCreateDailyStats (tdiv t 86400) ts s = Some st"
    using loadOrCreateDailyStats_returns [OF assms] by blast
  obtain avg where avg: "dailyAverageUpdate (dailyTotalsUpdate (dailyBucketUpdate st ecosystem v))
     = Some ((dailyTotalsUpdate (dailyBucketUpdate st ecosystem v))\<lparr>ds_averageTransactionSize := avg\<rparr>)"
    using dailyAverageUpdate_returns by blast
  have "updateDailyEcosystemStats category ecosystem v ts s
     = Some (s\<lparr>DailyEcosystemStatsStore := (DailyEcosystemStatsStore s)(tdiv t 86400 \<mapsto>
         (dailyTotalsUpdate (dailyBucketUpdate st ecosystem v))\<lparr>ds_averageTransactionSize := avg\<rparr>)\<rparr>)"
    by (simp add: updateDailyEcosystemStats_def d st avg)
  then show ?thesis by blast
qed

lemma updateDailyEcosystemStats_None:
  assumes "toI32 ts = None"
  shows "updateDailyEcosystemStats category ecosystem v ts s = None"
  using assms by (simp add: updateDailyEcosystemStats_def getDayId_def)

lemma updateEcosystemStats_frame:
  assumes "toI32 ts = Some t"
  shows "\<exists>e d. updateEcosystemStats category ecosystem v ts s
           = Some (s\<lparr>EcosystemStatsStore := e, DailyEcosystemStatsStore := d\<rparr>)"
proof -
  have "\<exists>e. updateEcosystemStats category ecosystem v ts s
      = updateDailyEcosystemStats category ecosystem v ts (s\<lparr>EcosystemStatsStore := e\<rparr>)"
    unfolding updateEcosystemStats_def Let_def by blast
  then obtain e where "updateEcosystemStats category ecosystem v ts s
      = updateDailyEcosystemStats category ecosystem v ts (s\<lparr>EcosystemStatsStore := e\<rparr>)"
    by blast
  moreover obtain m where "updateDailyEcosystemStats category ecosystem v ts (s\<lparr>EcosystemStatsStore := e\<rparr>)
      = Some (s\<lparr>EcosystemStatsStore := e\<rparr>\<lparr>DailyEcosystemStatsStore := m\<rparr>)"
    using updateDailyEcosystemStats_frame [OF assms] by blast
  ultimately show ?thesis by auto
qed

lemma updateEcosystemStats_None:
  assumes "toI32 ts = None"
  shows "updateEcosystemStats category ecosystem v ts s = None"
  using assms by (simp add: updateEcosystemStats_def Let_def updateDailyEcosystemStats_None)

section \<open>Properties: the universal transaction\<close>

lemma loadOrCreateTransaction_existing:
  "Transactions s txId = Some t \<Longrightarrow>
   loadOrCreateTransaction txId h bn ts from to v src cat eco li gu gp ok em s = (t, s)"
  by (simp add: loadOrCreateTransaction_def)

lemma loadOrCreateTransaction_saved:
  "Transactions (snd (loadOrCreateTransaction txId h bn ts from to v src cat eco li gu gp ok em s))
     txId
   = Some (fst (loadOrCreateTransaction txId h bn ts from to v src cat eco li gu gp ok em s))"
  by (cases "Transactions s txId")
     (simp_all add: loadOrCreateTransaction_def Let_def split_beta)

lemma loadOrCreateTransaction_frame:
  "\<exists>tr ac. snd (loadOrCreateTransaction txId h bn ts from to v src cat eco li gu gp ok em s)
     = s\<lparr>Transactions := tr, Accounts := ac\<rparr>"
proof (cases "Transactions s txId")
  case (Some t)
  have "snd (loadOrCreateTransaction txId h bn ts from to v src cat eco li gu gp ok em s)
      = s\<lparr>Transactions := Transactions s, Accounts := Accounts s\<rparr>"
    using Some by (simp add: loadOrCreateTransaction_def)
  then show ?thesis by blast
next
  case None
  obtain m1 where m1: "snd (ensureAccount from s) = s\<lparr>Accounts := m1\<rparr>"
    using ensureAccount_frame by blast
  obtain m2 where m2: "snd (ensureAccount to (s\<lparr>Accounts := m1\<rparr>))
      = s\<lparr>Accounts := m1\<rparr>\<lparr>Accounts := m2\<rparr>"
    using ensureAccount_frame by blast
  have "snd (loadOrCreateTransaction txId h bn ts from to v src cat eco li gu gp ok em s)
      = s\<lparr>Transactions :=
            Transactions (snd (loadOrCreateTransaction txId h bn ts from to v src cat eco li
                                 gu gp ok em s)),
          Accounts := m2\<rparr>"
    using None by (simp add: loadOrCreateTransaction_def Let_def split_beta m1 m2)
  then show ?thesis by blast
qed

lemma createUniversalTransaction_Some:
  "createUniversalTransaction h bn ts from to v src cat eco li gu gp ok em s = Some (t, s')
   \<longleftrightarrow> (\<exists>txId s4. transactionId h li = Some txId
        \<and> t = fst (loadOrCreateTransaction txId h bn ts from to v src cat eco li gu gp ok em s)
        \<and> updateAccountActivity from to v cat eco ts
             (snd (loadOrCreateTransaction txId h bn ts from to v src cat eco li gu gp ok em s))
            = Some s4
        \<and> updateEcosystemStats cat eco v ts s4 = Some s')"
  by (auto simp: createUniversalTransaction_def split_beta bind_eq_Some_conv)

lemma createUniversalTransaction_frame:
  assumes "createUniversalTransaction h bn ts from to v src cat eco li gu gp ok em s = Some (t, s')"
  shows "\<exists>tr ac es ds. s' = s\<lparr>Transactions := tr, Accounts := ac, EcosystemStatsStore := es,
                                DailyEcosystemStatsStore := ds\<rparr>"
proof -
  from assms obtain txId s4 where
    u: "updateAccountActivity from to v cat eco ts
          (snd (loadOrCreateTransaction txId h bn ts from to v src cat eco li gu gp ok em s))
        = Some s4"
    and e: "updateEcosystemStats cat eco v ts s4 = Some s'"
    unfolding createUniversalTransaction_Some by blast
  obtain t32 where t32: "toI32 ts = Some t32"
    using e updateEcosystemStats_None [of ts cat eco v s4] by (cases "toI32 ts") auto
  obtain tr ac where l: "snd (loadOrCreateTransaction txId h bn ts from to v src cat eco li gu gp ok em s)
     = s\<lparr>Transactions := tr, Accounts := ac\<rparr>"
    using loadOrCreateTransaction_frame by blast
  obtain m where "updateAccountActivity from to v cat eco ts (s\<lparr>Transactions := tr, Accounts := ac\<rparr>)
      = Some (s\<lparr>Transactions := tr, Accounts := ac\<rparr>\<lparr>Accounts := m\<rparr>)"
    using updateAccountActivity_frame by blast
  with u l have s4: "s4 = s\<lparr>Transactions := tr, Accounts := m\<rparr>" by simp
  obtain es ds where "updateEcosystemStats cat eco v ts s4
        = Some (s4\<lparr>EcosystemStatsStore := es, DailyEcosystemStatsStore := ds\<rparr>)"
    using updateEcosystemStats_frame [OF t32] by blast
  with e have "s' = s\<lparr>Transactions := tr, Accounts := m, EcosystemStatsStore := es,
      DailyEcosystemStatsStore := ds\<rparr>"
    by (simp add: s4)
  then show ?thesis by blast
qed

lemma createUniversalTransaction_returns:
  assumes "transactionId h li = Some txId" and "toI32 ts = Some t32"
  shows "\<exists>s'. createUniversalTransaction h bn ts from to v src cat eco li gu gp ok em s
     = Some (fst (loadOrCreateTransaction txId h bn ts from to v src cat eco li gu gp ok em s), s')"
proof -
  obtain m where u: "updateAccountActivity from to v cat eco ts
          (snd (loadOrCreateTransaction txId h bn ts from to v src cat eco li gu gp ok em s))
        = Some ((snd (loadOrCreateTransaction txId h bn ts from to v src cat eco li gu gp ok em s))
                  \<lparr>Accounts := m\<rparr>)"
    using updateAccountActivity_frame by blast
  obtain es ds where e: "updateEcosystemStats cat eco v ts
     ((snd (loadOrCreateTransaction txId h bn ts from to v src cat eco li gu gp ok em s))
                  \<lparr>Accounts := m\<rparr>)
     = Some ((snd (loadOrCreateTransaction txId h bn ts from to v src cat eco li gu gp ok em s))
                  \<lparr>Accounts := m\<rparr>\<lparr>EcosystemStatsStore := es, DailyEcosystemStatsStore := ds\<rparr>)"
    using updateEcosystemStats_frame [OF assms(2)] by blast
  show ?thesis
    unfolding createUniversalTransaction_Some using assms(1) u e by blast
qed

section \<open>Properties: trove analytics\<close>

lemma ratioStep_fields:
  "tv_status (ratioStep t cr) = tv_status t"
  "tv_debt (ratioStep t cr) = tv_debt t"
  "tv_collateral (ratioStep t cr) = tv_collateral t"
  "tv_daysOpen (ratioStep t cr) = tv_daysOpen t"
  "tv_operationCount (ratioStep t cr) = tv_operationCount t"
  "tv_collateralRatio (ratioStep t cr) = cr"
  by (simp_all add: ratioStep_def Let_def)

lemma liquidationPriceStep_Some:
  assumes "liquidationPriceStep t d c = Some t'"
  shows "\<exists>p. t' = t\<lparr>tv_liquidationPrice := p\<rparr>"
  using assms
  by (auto simp: liquidationPriceStep_def bind_eq_Some_conv split: if_splits)

lemma liquidationPriceStep_returns:
  assumes "d > 0 \<longrightarrow> c \<noteq> 0"
  shows "\<exists>p. liquidationPriceStep t d c = Some (t\<lparr>tv_liquidationPrice := p\<rparr>)"
proof (cases "d > 0")
  case True
  with assms have "liquidationPriceStep t d c
      = Some (t\<lparr>tv_liquidationPrice :=
          bd_quot (bd_times (toBigDecimal d) (11 / 10)) (toBigDecimal c)\<rparr>)"
    by (simp add: liquidationPriceStep_def bd_div_def toBigDecimal_def ZERO_BI_def)
  then show ?thesis by blast
next
  case False
  then have "liquidationPriceStep t d c = Some (t\<lparr>tv_liquidationPrice := ZERO_BD\<rparr>)"
    by (simp add: liquidationPriceStep_def ZERO_BI_def)
  then show ?thesis by blast
qed

lemma safetyMarginStep_fields:
  "tv_status (safetyMarginStep t) = tv_status t"
  "tv_debt (safetyMarginStep t) = tv_debt t"
  "tv_collateral (safetyMarginStep t) = tv_collateral t"
  "tv_daysOpen (safetyMarginStep t) = tv_daysOpen t"
  "tv_operationCount (safetyMarginStep t) = tv_operationCount t"
  "tv_collateralRatio (safetyMarginStep t) = tv_collateralRatio t"
  by (simp_all add: safetyMarginStep_def)

lemma lifetimeStep_fields:
  "tv_status (lifetimeStep t cc dc) = tv_status t"
  "tv_debt (lifetimeStep t cc dc) = tv_debt t"
  "tv_collateral (lifetimeStep t cc dc) = tv_collateral t"
  "tv_daysOpen (lifetimeStep t cc dc) = tv_daysOpen t"
  "tv_operationCount (lifetimeStep t cc dc) = tv_operationCount t + 1"
  "tv_collateralRatio (lifetimeStep t cc dc) = tv_collateralRatio t"
  by (simp_all add: lifetimeStep_def Let_def)

lemma averageRatioStep_returns:
  "\<exists>a. averageRatioStep t = Some (t\<lparr>tv_averageCollateralRatio := a\<rparr>)"
proof (cases "tv_operationCount t > 0")
  case True
  then have "averageRatioStep t = Some (t\<lparr>tv_averageCollateralRatio :=
       bd_plus
         (bd_times (tv_averageCollateralRatio t)
            (bd_minus ONE_BD (bd_quot ONE_BD (toBigDecimal (tv_operationCount t)))))
         (bd_times (tv_collateralRatio t)
            (bd_quot ONE_BD (toBigDecimal (tv_operationCount t))))\<rparr>)"
    by (simp add: averageRatioStep_def bd_div_def toBigDecimal_def ZERO_BI_def)
  then show ?thesis by blast
next
  case False
  then have "averageRatioStep t
      = Some (t\<lparr>tv_averageCollateralRatio := tv_averageCollateralRatio t\<rparr>)"
    by (simp add: averageRatioStep_def ZERO_BI_def)
  then show ?thesis by blast
qed

lemma scoresStep_Some:
  assumes "scoresStep t = Some t'"
  shows "\<exists>p r sg. t' = t\<lparr>tv_performanceScore := p, tv_liquidationRiskScore := r,
                           tv_optimizationSuggestions := sg\<rparr>"
  using assms by (auto simp: scoresStep_def Let_def bind_eq_Some_conv)

lemma calculateLiquidationRiskScore_returns:
  assumes "0 \<le> tv_collateralRatio t"
    and "tv_operationCount t > 0 \<longrightarrow> tv_daysOpen t + 1 \<noteq> 0"
  shows "\<exists>r. calculateLiquidationRiskScore t = Some r"
proof -
  have d: "toBigDecimal (tv_daysOpen t + 1) \<noteq> 0" if "tv_operationCount t > 0"
    using assms(2) that by (simp add: toBigDecimal_def)
  have "0 < bd_plus (tv_collateralRatio t) 1"
    using assms(1) by (intro bd_plus_pos) simp_all
  then have c: "bd_plus (tv_collateralRatio t) 1 \<noteq> 0" by simp
  have "calculateLiquidationRiskScore t \<noteq> None"
    using c d
    by (cases "tv_operationCount t > 0")
       (simp_all add: calculateLiquidationRiskScore_def bd_div_def ZERO_BI_def Let_def)
  then show ?thesis by blast
qed

lemma scoresStep_returns:
  assumes "0 \<le> tv_collateralRatio t"
    and "tv_operationCount t > 0 \<longrightarrow> tv_daysOpen t + 1 \<noteq> 0"
  shows "\<exists>t'. scoresStep t = Some t'"
proof -
  obtain p where p: "calculateTrovePerformanceScore t = Some p"
    using calculateTrovePerformanceScore_value by blast
  obtain r where "calculateLiquidationRiskScore (t\<lparr>tv_performanceScore := p\<rparr>) = Some r"
    using calculateLiquidationRiskScore_returns [of "t\<lparr>tv_performanceScore := p\<rparr>"] assms
    by auto
  then show ?thesis by (simp add: scoresStep_def p Let_def)
qed

lemma updateTroveAnalytics_keeps:
  assumes "updateTroveAnalytics t pc pd ts = Some t'"
  shows "tv_status t' = tv_status t \<and> tv_debt t' = tv_debt t \<and> tv_collateral t' = tv_collateral t"
proof -
  from assms obtain c d cr t2 t5 where
    "tv_collateral t = Some c" "tv_debt t = Some d"
    and l: "liquidationPriceStep (ratioStep t cr) d c = Some t2"
    and a: "averageRatioStep (lifetimeStep (safetyMarginStep t2) (c - pc) (d - pd)) = Some t5"
    and s: "scoresStep t5 = Some t'"
    by (auto simp: updateTroveAnalytics_def Let_def bind_eq_Some_conv)
  obtain p where t2: "t2 = (ratioStep t cr)\<lparr>tv_liquidationPrice := p\<rparr>"
    using liquidationPriceStep_Some [OF l] by blast
  obtain av where "averageRatioStep (lifetimeStep (safetyMarginStep t2) (c - pc) (d - pd))
      = Some ((lifetimeStep (safetyMarginStep t2) (c - pc) (d - pd))\<lparr>tv_averageCollateralRatio := av\<rparr>)"
    using averageRatioStep_returns by blast
  with a have t5: "t5 = (lifetimeStep (safetyMarginStep t2) (c - pc) (d - pd))\<lparr>tv_averageCollateralRatio := av\<rparr>"
    by simp
  obtain pf r sg where t': "t' = t5\<lparr>tv_performanceScore := pf, tv_liquidationRiskScore := r,
                           tv_optimizationSuggestions := sg\<rparr>"
    using scoresStep_Some [OF s] by blast
  have k: "tv_status (safetyMarginStep t2) = tv_status t"
    "tv_debt (safetyMarginStep t2) = tv_debt t"
    "tv_collateral (safetyMarginStep t2) = tv_collateral t"
    by (simp_all add: safetyMarginStep_fields t2 ratioStep_fields)
  show ?thesis by (simp add: t' t5 lifetimeStep_fields k)
qed

lemma updateTroveAnalytics_returns:
  assumes "tv_collateral t = Some c" "tv_debt t = Some d" "0 \<le> c" "0 \<le> d"
    and "d > 0 \<longrightarrow> c > 0" and "0 \<le> tv_daysOpen t"
  shows "\<exists>t'. updateTroveAnalytics t pc pd ts = Some t'"
proof -
  let ?cr = "if d = 0 then 99999
             else bd_times (bd_quot (toBigDecimal c) (toBigDecimal d)) 100"
  have cr: "calculateCollateralRatio c d = Some ?cr" by (rule calculateCollateralRatio_value)
  have "0 \<le> bd_times (bd_quot (toBigDecimal c) (toBigDecimal d)) 100"
    using assms(3,4) by (intro bd_times_nonneg bd_quot_nonneg) (simp_all add: toBigDecimal_def)
  then have crpos: "0 \<le> ?cr" by simp
  obtain p where l: "liquidationPriceStep (ratioStep t ?cr) d c
      = Some ((ratioStep t ?cr)\<lparr>tv_liquidationPrice := p\<rparr>)"
    using liquidationPriceStep_returns [of d c] assms(5) by fastforce
  let ?t2 = "(ratioStep t ?cr)\<lparr>tv_liquidationPrice := p\<rparr>"
  let ?t4 = "lifetimeStep (safetyMarginStep ?t2) (c - pc) (d - pd)"
  obtain av where a: "averageRatioStep ?t4 = Some (?t4\<lparr>tv_averageCollateralRatio := av\<rparr>)"
    using averageRatioStep_returns by blast
  let ?t5 = "?t4\<lparr>tv_averageCollateralRatio := av\<rparr>"
  have "tv_collateralRatio ?t5 = ?cr" "tv_daysOpen ?t5 = tv_daysOpen t"
    by (simp_all add: lifetimeStep_fields safetyMarginStep_fields ratioStep_fields)
  then have "0 \<le> tv_collateralRatio ?t5" "tv_daysOpen ?t5 + 1 \<noteq> 0"
    using crpos assms(6) by simp_all
  then obtain t' where "scoresStep ?t5 = Some t'"
    using scoresStep_returns [of ?t5] by blast
  then show ?thesis
    by (simp add: updateTroveAnalytics_def assms(1,2) cr l a Let_def)
qed

section \<open>Properties: protocol statistics of a trove update\<close>


lemma updateProtocolStatsForTrove_present:
  assumes "ProtocolStatsStore s GLOBAL_STATS_ID = Some st"
    and "tv_debt t = Some d" "tv_collateral t = Some c" "tv_status t = Some new"
  shows "\<exists>s' st'. updateProtocolStatsForTrove t ps pd pc isNew ts bn s = Some s'
       \<and> ProtocolStatsStore s' GLOBAL_STATS_ID = Some st'
       \<and> ps_activeTroveCount st' = ps_activeTroveCount st + activeDelta ps new
       \<and> ps_totalDebt st' = ps_totalDebt st + (d - pd)
       \<and> ps_totalCollateral st' = ps_totalCollateral st + (c - pc)
       \<and> ps_totalTroveCount st' = ps_totalTroveCount st + (if isNew then 1 else 0)
       \<and> ps_lifetimeLiquidationCount st' = ps_lifetimeLiquidationCount st
       \<and> Troves s' = Troves s \<and> TroveOperations s' = TroveOperations s"
  using assms
  by (simp add: updateProtocolStatsForTrove_def Let_def activeDelta_def)

section \<open>Properties: the trove update handler\<close>

lemma createTroveOperation_returns:
  "toI32 (tu_logIndex e) = Some li \<Longrightarrow>
   createTroveOperation e t pc pd utx s
     = Some (s\<lparr>TroveOperations :=
              (TroveOperations s)(concatI32 (tu_hash e) li \<mapsto> troveOperationRecord e pc pd)\<rparr>)"
  by (simp add: createTroveOperation_def)

lemma createTroveOperation_Some:
  assumes "createTroveOperation e t pc pd utx s = Some s'"
  shows "\<exists>li. toI32 (tu_logIndex e) = Some li
     \<and> s' = s\<lparr>TroveOperations :=
              (TroveOperations s)(concatI32 (tu_hash e) li \<mapsto> troveOperationRecord e pc pd)\<rparr>"
proof (cases "toI32 (tu_logIndex e)")
  case None
  with assms show ?thesis by (simp add: createTroveOperation_def)
next
  case (Some li)
  from assms have "Some (s\<lparr>TroveOperations :=
              (TroveOperations s)(concatI32 (tu_hash e) li \<mapsto> troveOperationRecord e pc pd)\<rparr>)
           = Some s'"
    unfolding createTroveOperation_returns [OF Some] .
  then have "s' = s\<lparr>TroveOperations :=
              (TroveOperations s)(concatI32 (tu_hash e) li \<mapsto> troveOperationRecord e pc pd)\<rparr>"
    by (simp only: option.inject)
  with Some show ?thesis by blast
qed

lemma processTroveUpdate_new:
  "Troves s2 (tu_borrower e) = None \<Longrightarrow> processTroveUpdate e utx s2 = None"
  by (simp add: processTroveUpdate_def newTrove_def)

lemma processTroveUpdate_unset:
  assumes "Troves s2 (tu_borrower e) = Some t"
    and "tv_collateral t = None \<or> tv_debt t = None \<or> tv_status t = None"
  shows "processTroveUpdate e utx s2 = None"
proof (cases "tv_collateral t")
  case None
  with assms(1) show ?thesis by (simp add: processTroveUpdate_def)
next
  case c: (Some pc)
  show ?thesis
  proof (cases "tv_debt t")
    case None
    with assms(1) c show ?thesis by (simp add: processTroveUpdate_def)
  next
    case d: (Some pd)
    with assms(2) c have "tv_status t = None" by simp
    with assms(1) c d show ?thesis by (simp add: processTroveUpdate_def)
  qed
qed

lemma processTroveUpdate_existing:
  assumes "Troves s2 (tu_borrower e) = Some t"
    and "tv_collateral t = Some pc" and "tv_debt t = Some pd" and "tv_status t = Some st"
  shows "processTroveUpdate e utx s2 =
     updateTroveAnalytics (applyTroveUpdate e t) pc pd (tu_blockTimestamp e)
     \<bind> (\<lambda>trove4.
       createTroveOperation e trove4 pc pd utx s2
       \<bind> (\<lambda>s3.
         updateProtocolStatsForTrove trove4 (statusOrActive st) pd pc False
          (tu_blockTimestamp e) (tu_blockNumber e)
          (s3\<lparr>Troves := (Troves s3)(tu_borrower e \<mapsto> trove4)\<rparr>)))"
  unfolding processTroveUpdate_def Let_def assms option.case bind.bind_lunit
  by simp

lemma processTroveUpdate_Some_existing:
  assumes "processTroveUpdate e utx s2 = Some s'"
  shows "\<exists>t pc pd st. Troves s2 (tu_borrower e) = Some t \<and> tv_collateral t = Some pc
       \<and> tv_debt t = Some pd \<and> tv_status t = Some st"
proof (cases "Troves s2 (tu_borrower e)")
  case None
  from processTroveUpdate_new [OF this] assms show ?thesis by simp
next
  case (Some t)
  have "\<not> (tv_collateral t = None \<or> tv_debt t = None \<or> tv_status t = None)"
    using processTroveUpdate_unset [OF Some] assms by fastforce
  with Some show ?thesis by auto
qed

lemma handleTroveUpdated_Some:
  "handleTroveUpdated e s = Some s'
   \<longleftrightarrow> (\<exists>utx s1.
      createUniversalTransaction (tu_hash e) (tu_blockNumber e) (tu_blockTimestamp e)
         (tu_borrower e) (tu_borrower e) (tu_debt e)
         TX_SOURCE_CONTRACT_EVENT TX_CATEGORY_TROVE_OPERATION ECOSYSTEM_PROTOCOL_NATIVE
         (Some (tu_logIndex e)) (tu_gasUsed e) (tu_gasPrice e) True None s = Some (utx, s1)
      \<and> processTroveUpdate e utx (snd (ensureAccount (tu_borrower e) s1)) = Some s')"
  by (simp add: handleTroveUpdated_def bind_eq_Some_conv split_beta)

lemma processTroveUpdate_Some:
  assumes "Troves s2 (tu_borrower e) = Some t"
    and "tv_collateral t = Some pc" and "tv_debt t = Some pd" and "tv_status t = Some st"
    and "processTroveUpdate e utx s2 = Some s'"
  shows "\<exists>trove4 li.
      updateTroveAnalytics (applyTroveUpdate e t) pc pd (tu_blockTimestamp e) = Some trove4
    \<and> toI32 (tu_logIndex e) = Some li
    \<and> updateProtocolStatsForTrove trove4 (statusOrActive st) pd pc False
          (tu_blockTimestamp e) (tu_blockNumber e)
          (s2\<lparr>TroveOperations := (TroveOperations s2)
                 (concatI32 (tu_hash e) li \<mapsto> troveOperationRecord e pc pd),
               Troves := (Troves s2)(tu_borrower e \<mapsto> trove4)\<rparr>) = Some s'"
proof -
  from assms(5) obtain trove4 s3 where
    ta: "updateTroveAnalytics (applyTroveUpdate e t) pc pd (tu_blockTimestamp e) = Some trove4"
    and op: "createTroveOperation e trove4 pc pd utx s2 = Some s3"
    and up: "updateProtocolStatsForTrove trove4 (statusOrActive st) pd pc False
          (tu_blockTimestamp e) (tu_blockNumber e)
          (s3\<lparr>Troves := (Troves s3)(tu_borrower e \<mapsto> trove4)\<rparr>) = Some s'"
    unfolding processTroveUpdate_existing [OF assms(1-4)] bind_eq_Some_conv by blast
  obtain li where li: "toI32 (tu_logIndex e) = Some li"
    and s3: "s3 = s2\<lparr>TroveOperations := (TroveOperations s2)
                 (concatI32 (tu_hash e) li \<mapsto> troveOperationRecord e pc pd)\<rparr>"
    using createTroveOperation_Some [OF op] by blast
  have "s3\<lparr>Troves := (Troves s3)(tu_borrower e \<mapsto> trove4)\<rparr>
      = s2\<lparr>TroveOperations := (TroveOperations s2)
                 (concatI32 (tu_hash e) li \<mapsto> troveOperationRecord e pc pd),
               Troves := (Troves s2)(tu_borrower e \<mapsto> trove4)\<rparr>"
    unfolding s3 by simp
  with up ta li show ?thesis by simp
qed

lemma processTroveUpdate_returns:
  assumes "Troves s2 (tu_borrower e) = Some t"
    and "tv_collateral t = Some pc" and "tv_debt t = Some pd" and "tv_status t = Some st"
    and "updateTroveAnalytics (applyTroveUpdate e t) pc pd (tu_blockTimestamp e) = Some trove4"
    and "toI32 (tu_logIndex e) = Some li"
  shows "processTroveUpdate e utx s2 =
     updateProtocolStatsForTrove trove4 (statusOrActive st) pd pc False
          (tu_blockTimestamp e) (tu_blockNumber e)
          (s2\<lparr>TroveOperations := (TroveOperations s2)
                 (concatI32 (tu_hash e) li \<mapsto> troveOperationRecord e pc pd),
               Troves := (Troves s2)(tu_borrower e \<mapsto> trove4)\<rparr>)"
  unfolding processTroveUpdate_existing [OF assms(1-4)] assms(5) bind.bind_lunit
    createTroveOperation_returns [OF assms(6)]
  by simp

lemma applyTroveUpdate_fields:
  "tv_debt (applyTroveUpdate e t) = Some (tu_debt e)"
  "tv_collateral (applyTroveUpdate e t) = Some (tu_coll e)"
  "tv_status (applyTroveUpdate e t) = Some (statusAfterUpdate (tu_debt e))"
  "tv_daysOpen (applyTroveUpdate e t)
     = tdiv (tu_blockTimestamp e - tv_openedAtTimestamp t) 86400"
  by (simp_all add: applyTroveUpdate_def Let_def statusAfterUpdate_def ZERO_BI_def)

lemma tdiv_nonneg: "0 \<le> a \<Longrightarrow> 0 \<le> tdiv a 86400"
  by (simp add: tdiv_def sgn_if pos_imp_zdiv_nonneg_iff)

lemma updateProtocolStatsForTrove_returns:
  assumes "tv_debt t = Some d" "tv_collateral t = Some c"
  shows "\<exists>s'. updateProtocolStatsForTrove t ps pd pc isNew ts bn s = Some s'"
  using assms
  by (cases "ProtocolStatsStore s GLOBAL_STATS_ID")
     (simp_all add: updateProtocolStatsForTrove_def Let_def)

lemma handleTroveUpdated_before:
  assumes "createUniversalTransaction h bn ts b b v src cat eco li gu gp ok em s = Some (utx, s1)"
  shows "\<exists>tr ac es ds. snd (ensureAccount b s1)
      = s\<lparr>Transactions := tr, Accounts := ac, EcosystemStatsStore := es,
            DailyEcosystemStatsStore := ds\<rparr>"
proof -
  obtain tr ac0 es ds where s1: "s1 = s\<lparr>Transactions := tr, Accounts := ac0,
      EcosystemStatsStore := es, DailyEcosystemStatsStore := ds\<rparr>"
    using createUniversalTransaction_frame [OF assms] by blast
  obtain ac where "snd (ensureAccount b s1) = s1\<lparr>Accounts := ac\<rparr>"
    using ensureAccount_frame by blast
  then have "snd (ensureAccount b s1)
      = s\<lparr>Transactions := tr, Accounts := ac, EcosystemStatsStore := es,
            DailyEcosystemStatsStore := ds\<rparr>"
    by (simp add: s1)
  then show ?thesis by blast
qed

lemma handleTroveUpdated_new_aborts:
  assumes "Troves s (tu_borrower e) = None"
  shows "handleTroveUpdated e s = None"
proof (cases "handleTroveUpdated e s")
  case None
  then show ?thesis .
next
  case (Some s')
  then obtain utx s1 where
    cut: "createUniversalTransaction (tu_hash e) (tu_blockNumber e) (tu_blockTimestamp e)
         (tu_borrower e) (tu_borrower e) (tu_debt e)
         TX_SOURCE_CONTRACT_EVENT TX_CATEGORY_TROVE_OPERATION ECOSYSTEM_PROTOCOL_NATIVE
         (Some (tu_logIndex e)) (tu_gasUsed e) (tu_gasPrice e) True None s = Some (utx, s1)"
    and p: "processTroveUpdate e utx (snd (ensureAccount (tu_borrower e) s1)) = Some s'"
    unfolding handleTroveUpdated_Some by blast
  obtain tr ac es ds where "snd (ensureAccount (tu_borrower e) s1)
      = s\<lparr>Transactions := tr, Accounts := ac,
      EcosystemStatsStore := es, DailyEcosystemStatsStore := ds\<rparr>"
    using handleTroveUpdated_before [OF cut] by blast
  then have "Troves (snd (ensureAccount (tu_borrower e) s1)) (tu_borrower e) = None"
    using assms by simp
  from processTroveUpdate_new [OF this] p show ?thesis by simp
qed

lemma handleTroveUpdated_Some_existing:
  assumes "handleTroveUpdated e s = Some s'"
  shows "\<exists>t pc pd st. Troves s (tu_borrower e) = Some t \<and> tv_collateral t = Some pc
       \<and> tv_debt t = Some pd \<and> tv_status t = Some st"
proof -
  from assms obtain utx s1 where
    cut: "createUniversalTransaction (tu_hash e) (tu_blockNumber e) (tu_blockTimestamp e)
         (tu_borrower e) (tu_borrower e) (tu_debt e)
         TX_SOURCE_CONTRACT_EVENT TX_CATEGORY_TROVE_OPERATION ECOSYSTEM_PROTOCOL_NATIVE
         (Some (tu_logIndex e)) (tu_gasUsed e) (tu_gasPrice e) True None s = Some (utx, s1)"
    and p: "processTroveUpdate e utx (snd (ensureAccount (tu_borrower e) s1)) = Some s'"
    unfolding handleTroveUpdated_Some by blast
  obtain tr ac es ds where "snd (ensureAccount (tu_borrower e) s1)
      = s\<lparr>Transactions := tr, Accounts := ac,
      EcosystemStatsStore := es, DailyEcosystemStatsStore := ds\<rparr>"
    using handleTroveUpdated_before [OF cut] by blast
  then have "Troves (snd (ensureAccount (tu_borrower e) s1)) = Troves s" by simp
  with processTroveUpdate_Some_existing [OF p] show ?thesis by simp
qed

lemma handleTroveUpdated_effect:
  assumes "Troves s (tu_borrower e) = Some t"
    and "tv_collateral t = Some pc" and "tv_debt t = Some pd" and "tv_status t = Some st"
    and "handleTroveUpdated e s = Some s'"
  shows "\<exists>s2 trove4 li.
      ProtocolStatsStore s2 = ProtocolStatsStore s
    \<and> tv_debt trove4 = Some (tu_debt e) \<and> tv_collateral trove4 = Some (tu_coll e)
    \<and> tv_status trove4 = Some (statusAfterUpdate (tu_debt e))
    \<and> toI32 (tu_logIndex e) = Some li
    \<and> updateProtocolStatsForTrove trove4 (statusOrActive st) pd pc False
          (tu_blockTimestamp e) (tu_blockNumber e)
          (s2\<lparr>TroveOperations := (TroveOperations s)
                 (concatI32 (tu_hash e) li \<mapsto> troveOperationRecord e pc pd),
               Troves := (Troves s)(tu_borrower e \<mapsto> trove4)\<rparr>) = Some s'"
proof -
  from assms(5) obtain utx s1 where
    cut: "createUniversalTransaction (tu_hash e) (tu_blockNumber e) (tu_blockTimestamp e)
         (tu_borrower e) (tu_borrower e) (tu_debt e)
         TX_SOURCE_CONTRACT_EVENT TX_CATEGORY_TROVE_OPERATION ECOSYSTEM_PROTOCOL_NATIVE
         (Some (tu_logIndex e)) (tu_gasUsed e) (tu_gasPrice e) True None s = Some (utx, s1)"
    and p: "processTroveUpdate e utx (snd (ensureAccount (tu_borrower e) s1)) = Some s'"
    unfolding handleTroveUpdated_Some by blast
  define s2 where "s2 = snd (ensureAccount (tu_borrower e) s1)"
  obtain tr ac es ds where "s2 = s\<lparr>Transactions := tr, Accounts := ac,
      EcosystemStatsStore := es, DailyEcosystemStatsStore := ds\<rparr>"
    unfolding s2_def using handleTroveUpdated_before [OF cut] by blast
  then have fr: "Troves s2 = Troves s" "TroveOperations s2 = TroveOperations s"
    "ProtocolStatsStore s2 = ProtocolStatsStore s"
    by simp_all
  have t2: "Troves s2 (tu_borrower e) = Some t" using assms(1) by (simp add: fr)
  from p have p2: "processTroveUpdate e utx s2 = Some s'" unfolding s2_def .
  from processTroveUpdate_Some [OF t2 assms(2-4) p2] obtain trove4 li where
    ta: "updateTroveAnalytics (applyTroveUpdate e t) pc pd (tu_blockTimestamp e) = Some trove4"
    and li: "toI32 (tu_logIndex e) = Some li"
    and up: "updateProtocolStatsForTrove trove4 (statusOrActive st) pd pc False
          (tu_blockTimestamp e) (tu_blockNumber e)
          (s2\<lparr>TroveOperations := (TroveOperations s2)
                 (concatI32 (tu_hash e) li \<mapsto> troveOperationRecord e pc pd),
               Troves := (Troves s2)(tu_borrower e \<mapsto> trove4)\<rparr>) = Some s'"
    by blast
  have k: "tv_debt trove4 = Some (tu_debt e)" "tv_collateral trove4 = Some (tu_coll e)"
    "tv_status trove4 = Some (statusAfterUpdate (tu_debt e))"
    using updateTroveAnalytics_keeps [OF ta] by (simp_all add: applyTroveUpdate_fields)
  from up have "updateProtocolStatsForTrove trove4 (statusOrActive st) pd pc False
          (tu_blockTimestamp e) (tu_blockNumber e)
          (s2\<lparr>TroveOperations := (TroveOperations s)
                 (concatI32 (tu_hash e) li \<mapsto> troveOperationRecord e pc pd),
               Troves := (Troves s)(tu_borrower e \<mapsto> trove4)\<rparr>) = Some s'"
    unfolding fr .
  with fr k li show ?thesis by blast
qed


lemma handleTroveUpdated_present:
  assumes "ProtocolStatsStore s GLOBAL_STATS_ID = Some stats"
    and "Troves s (tu_borrower e) = Some t"
    and "tv_collateral t = Some pc" and "tv_debt t = Some pd" and "tv_status t = Some st"
    and "handleTroveUpdated e s = Some s'"
  shows "\<exists>stats'. ProtocolStatsStore s' GLOBAL_STATS_ID = Some stats'
       \<and> ps_activeTroveCount stats' = ps_activeTroveCount stats
            + activeDelta (statusOrActive st) (statusAfterUpdate (tu_debt e))
       \<and> ps_totalDebt stats' = ps_totalDebt stats + (tu_debt e - pd)
       \<and> ps_totalCollateral stats' = ps_totalCollateral stats + (tu_coll e - pc)
       \<and> ps_totalTroveCount stats' = ps_totalTroveCount stats
       \<and> (\<exists>t'. Troves s' (tu_borrower e) = Some t' \<and> tv_debt t' = Some (tu_debt e)
              \<and> tv_status t' = Some (statusAfterUpdate (tu_debt e)))"
proof -
  obtain s2 trove4 li where
    fr: "ProtocolStatsStore s2 = ProtocolStatsStore s"
    and k: "tv_debt trove4 = Some (tu_debt e)" "tv_collateral trove4 = Some (tu_coll e)"
      "tv_status trove4 = Some (statusAfterUpdate (tu_debt e))"
    and up: "updateProtocolStatsForTrove trove4 (statusOrActive st) pd pc False
          (tu_blockTimestamp e) (tu_blockNumber e)
          (s2\<lparr>TroveOperations := (TroveOperations s)
                 (concatI32 (tu_hash e) li \<mapsto> troveOperationRecord e pc pd),
               Troves := (Troves s)(tu_borrower e \<mapsto> trove4)\<rparr>) = Some s'"
    using handleTroveUpdated_effect [OF assms(2-6)] by blast
  define s4 where "s4 = s2\<lparr>TroveOperations := (TroveOperations s)
                 (concatI32 (tu_hash e) li \<mapsto> troveOperationRecord e pc pd),
               Troves := (Troves s)(tu_borrower e \<mapsto> trove4)\<rparr>"
  have p: "ProtocolStatsStore s4 GLOBAL_STATS_ID = Some stats"
    by (simp add: s4_def fr assms(1))
  have t4: "Troves s4 (tu_borrower e) = Some trove4"
    by (simp add: s4_def)
  from up have up': "updateProtocolStatsForTrove trove4 (statusOrActive st) pd pc False
          (tu_blockTimestamp e) (tu_blockNumber e) s4 = Some s'"
    unfolding s4_def [symmetric] .
  show ?thesis
    using updateProtocolStatsForTrove_present [OF p k, of "statusOrActive st" pd pc False
        "tu_blockTimestamp e" "tu_blockNumber e"]
    unfolding up' using t4 k by auto
qed

lemma handleTroveUpdated_returns:
  assumes t: "Troves s (tu_borrower e) = Some t"
    and pc: "tv_collateral t = Some pc" and pd: "tv_debt t = Some pd"
    and st: "tv_status t = Some st"
    and li: "toI32 (tu_logIndex e) = Some li"
    and ts: "toI32 (tu_blockTimestamp e) = Some t32"
    and c: "0 \<le> tu_coll e" and d: "0 \<le> tu_debt e"
    and cd: "tu_debt e > 0 \<longrightarrow> tu_coll e > 0"
    and opened: "tv_openedAtTimestamp t \<le> tu_blockTimestamp e"
  shows "\<exists>s'. handleTroveUpdated e s = Some s'"
proof -
  have tid: "transactionId (tu_hash e) (Some (tu_logIndex e)) = Some (concatI32 (tu_hash e) li)"
    by (simp add: transactionId_def li)
  obtain utx s1 where
    cut: "createUniversalTransaction (tu_hash e) (tu_blockNumber e) (tu_blockTimestamp e)
         (tu_borrower e) (tu_borrower e) (tu_debt e)
         TX_SOURCE_CONTRACT_EVENT TX_CATEGORY_TROVE_OPERATION ECOSYSTEM_PROTOCOL_NATIVE
         (Some (tu_logIndex e)) (tu_gasUsed e) (tu_gasPrice e) True None s = Some (utx, s1)"
    using createUniversalTransaction_returns [OF tid ts] by blast
  define s2 where "s2 = snd (ensureAccount (tu_borrower e) s1)"
  obtain tr ac es ds where "s2 = s\<lparr>Transactions := tr, Accounts := ac,
      EcosystemStatsStore := es, DailyEcosystemStatsStore := ds\<rparr>"
    unfolding s2_def using handleTroveUpdated_before [OF cut] by blast
  then have t2: "Troves s2 (tu_borrower e) = Some t" using t by simp
  from opened have days: "0 \<le> tv_daysOpen (applyTroveUpdate e t)"
    by (simp add: applyTroveUpdate_fields tdiv_nonneg)
  obtain trove4 where ta: "updateTroveAnalytics (applyTroveUpdate e t) pc pd
        (tu_blockTimestamp e) = Some trove4"
    using updateTroveAnalytics_returns [OF applyTroveUpdate_fields(2) applyTroveUpdate_fields(1)
        c d cd days] by blast
  have k: "tv_debt trove4 = Some (tu_debt e)" "tv_collateral trove4 = Some (tu_coll e)"
    using updateTroveAnalytics_keeps [OF ta] by (simp_all add: applyTroveUpdate_fields)
  have "\<exists>s'. processTroveUpdate e utx s2 = Some s'"
    unfolding processTroveUpdate_returns [OF t2 pc pd st ta li]
    by (rule updateProtocolStatsForTrove_returns [OF k])
  then show ?thesis
    unfolding handleTroveUpdated_Some s2_def using cut by blast
qed




section \<open>Properties: events handled without the global statistics record\<close>

lemma emptyStore_fields:
  "ProtocolStatsStore emptyStore = Map.empty" "Troves emptyStore = Map.empty"
  "TroveOperations emptyStore = Map.empty" "Liquidations emptyStore = Map.empty"
  by (simp_all add: emptyStore_def)


lemma storeWithStats_fields:
  "ProtocolStatsStore storeWithStats GLOBAL_STATS_ID = Some initializeProtocolStats"
  "Troves storeWithStats = Map.empty"
  by (simp_all add: storeWithStats_def emptyStore_def)

lemma storeWithStatsAndTroveA_fields:
  "ProtocolStatsStore storeWithStatsAndTroveA GLOBAL_STATS_ID = Some initializeProtocolStats"
  "Troves storeWithStatsAndTroveA addrA = Some troveA"
  by (simp_all add: storeWithStatsAndTroveA_def storeWithStats_def emptyStore_def)

lemma troveA_fields:
  "tv_collateral troveA = Some 1500" "tv_debt troveA = Some 500"
  "tv_status troveA = Some ''ACTIVE''" "tv_openedAtTimestamp troveA = 100000"
  by (simp_all add: troveA_def newTrove_def openTroveA_def)

lemma openTroveA_fields:
  "tu_hash openTroveA = hash1" "tu_logIndex openTroveA = 7"
  "tu_blockTimestamp openTroveA = 100000" "tu_borrower openTroveA = addrA"
  "tu_debt openTroveA = 1000" "tu_coll openTroveA = 2000"
  by (simp_all add: openTroveA_def)

lemma updateTroveA_fields:
  "tu_hash updateTroveA = hash1" "tu_logIndex updateTroveA = 9"
  "tu_blockTimestamp updateTroveA = 200000" "tu_borrower updateTroveA = addrA"
  "tu_debt updateTroveA = 1000" "tu_coll updateTroveA = 2000"
  by (simp_all add: updateTroveA_def)


lemma toI32_small: "toI32 7 = Some 7" "toI32 8 = Some 8" "toI32 9 = Some 9"
  "toI32 100000 = Some 100000" "toI32 200000 = Some 200000"
  by (simp_all add: toI32_def wrapI32_def)



section \<open>Properties: the count of active troves\<close>

text \<open>
  Claim C2. The first \<open>TroveUpdated\<close> event of a borrower, for whom the store holds no
  trove, does not complete: the handler creates the trove and aborts when it reads the
  previous collateral of the new entity, so no trove is opened and the count of active
  troves is not incremented, where the claim has it grow by one. For a trove that exists
  the claim holds: the count changes by the transition of the status alone, by +1 from a
  status other than ACTIVE to ACTIVE (a positive debt), by -1 from ACTIVE to another
  status (debt zero), and not at all when the status stays what it was.
\<close>

theorem activeTroveCount_transitions:
  "(Troves s (tu_borrower e) = None \<longrightarrow> handleTroveUpdated e s = None)
   \<and> (ProtocolStatsStore s GLOBAL_STATS_ID = Some stats
        \<and> Troves s (tu_borrower e) = Some t \<and> tv_status t = Some st
        \<and> handleTroveUpdated e s = Some s'
      \<longrightarrow> (\<exists>stats'. ProtocolStatsStore s' GLOBAL_STATS_ID = Some stats'
             \<and> ps_activeTroveCount stats' = ps_activeTroveCount stats
                  + activeDelta (statusOrActive st) (statusAfterUpdate (tu_debt e))))"
proof (intro conjI impI)
  assume "Troves s (tu_borrower e) = None"
  then show "handleTroveUpdated e s = None" by (rule handleTroveUpdated_new_aborts)
next
  assume a: "ProtocolStatsStore s GLOBAL_STATS_ID = Some stats
        \<and> Troves s (tu_borrower e) = Some t \<and> tv_status t = Some st
        \<and> handleTroveUpdated e s = Some s'"
  then have h: "handleTroveUpdated e s = Some s'" by simp
  from handleTroveUpdated_Some_existing [OF h] a obtain pc pd where
    x: "tv_collateral t = Some pc" "tv_debt t = Some pd" by auto
  from a have p: "ProtocolStatsStore s GLOBAL_STATS_ID = Some stats"
    and t: "Troves s (tu_borrower e) = Some t" and st: "tv_status t = Some st" by simp_all
  from handleTroveUpdated_present [OF p t x st h]
  show "\<exists>stats'. ProtocolStatsStore s' GLOBAL_STATS_ID = Some stats'
             \<and> ps_activeTroveCount stats' = ps_activeTroveCount stats
                  + activeDelta (statusOrActive st) (statusAfterUpdate (tu_debt e))"
    by blast
qed

theorem activeTroveCount_transitions_witness:
  "Troves storeWithStats (tu_borrower openTroveA) = None
   \<and> 0 < tu_debt openTroveA
   \<and> handleTroveUpdated openTroveA storeWithStats = None
   \<and> (\<exists>s' stats'. handleTroveUpdated updateTroveA storeWithStatsAndTroveA = Some s'
         \<and> ProtocolStatsStore s' GLOBAL_STATS_ID = Some stats'
         \<and> ps_activeTroveCount stats' = 0)"
proof -
  have n: "Troves storeWithStats (tu_borrower openTroveA) = None"
    by (simp add: storeWithStats_fields)
  with activeTroveCount_transitions [of storeWithStats openTroveA]
  have a: "handleTroveUpdated openTroveA storeWithStats = None" by blast
  obtain s' where h: "handleTroveUpdated updateTroveA storeWithStatsAndTroveA = Some s'"
    using handleTroveUpdated_returns [of storeWithStatsAndTroveA updateTroveA troveA
        1500 500 "''ACTIVE''" 9 200000]
    by (auto simp: updateTroveA_fields storeWithStatsAndTroveA_fields troveA_fields
        toI32_small)
  have "ProtocolStatsStore storeWithStatsAndTroveA GLOBAL_STATS_ID = Some initializeProtocolStats
        \<and> Troves storeWithStatsAndTroveA (tu_borrower updateTroveA) = Some troveA
        \<and> tv_status troveA = Some ''ACTIVE''
        \<and> handleTroveUpdated updateTroveA storeWithStatsAndTroveA = Some s'"
    using h by (simp add: storeWithStatsAndTroveA_fields updateTroveA_fields troveA_fields)
  with activeTroveCount_transitions [of storeWithStatsAndTroveA updateTroveA
      initializeProtocolStats troveA "''ACTIVE''" s']
  obtain stats' where "ProtocolStatsStore s' GLOBAL_STATS_ID = Some stats'"
    and "ps_activeTroveCount stats' = ps_activeTroveCount initializeProtocolStats
           + activeDelta (statusOrActive ''ACTIVE'') (statusAfterUpdate (tu_debt updateTroveA))"
    by blast
  then have "ProtocolStatsStore s' GLOBAL_STATS_ID = Some stats'"
    and "ps_activeTroveCount stats' = 0"
    by (simp_all add: initializeProtocolStats_def ZERO_BI_def activeDelta_def
        statusOrActive_def statusAfterUpdate_def updateTroveA_fields)
  with h n a show ?thesis by (auto simp: openTroveA_fields)
qed

end
